theory Spec2Isabelle
  imports Main "HOL-Library.Word" "HOL-Library.Char_ord" "HOL-Library.List_Lexorder"
    "HOL-Library.AList"
begin

section \<open>Errors\<close>

text \<open>
  Go functions return an \<open>error\<close> value next to their result; \<open>nil\<close> is \<open>None\<close>.
  \<open>NumError\<close> is \<open>strconv.NumError{Func, Num, Err}\<close>, \<open>errInvalidValue\<close> and
  \<open>TagKeyError\<close> are the errors of the \<open>go.opencensus.io/tag\<close> package,
  \<open>FmtErrorf\<close> is \<open>fmt.Errorf\<close> applied to a format string with no operands,
  \<open>ExternalError\<close> is an error handed back by a collaborator (transport, JSON codec,
  view registry, resource-name parser) and \<open>NilDereference\<close> stands for the run-time
  panic of a method call through a nil pointer.
\<close>

datatype errKind = ErrSyntax | ErrRange

datatype go_error =
    NumError string string errKind
  | errInvalidValue
  | TagKeyError string go_error
  | errInvalidKeyName
  | FmtErrorf string
  | ExternalError string
  | NilDereference

section \<open>Strings: package \<open>strings\<close> and \<open>strconv\<close>\<close>

definition strings_HasPrefix :: "string \<Rightarrow> string \<Rightarrow> bool" where
  "strings_HasPrefix s pre = (length s \<ge> length pre \<and> take (length pre) s = pre)"

definition strings_TrimPrefix :: "string \<Rightarrow> string \<Rightarrow> string" where
  "strings_TrimPrefix s pre = (if strings_HasPrefix s pre then drop (length pre) s else s)"

text \<open>\<open>strings.ToLower\<close> on ASCII letters; every other byte is left as it is.\<close>

definition lowerByte :: "char \<Rightarrow> char" where
  "lowerByte c = (if CHR ''A'' \<le> c \<and> c \<le> CHR ''Z'' then char_of (of_char c + (32::nat)) else c)"

definition strings_ToLower :: "string \<Rightarrow> string" where
  "strings_ToLower s = map lowerByte s"

definition isDigit :: "char \<Rightarrow> bool" where
  "isDigit c = (CHR ''0'' \<le> c \<and> c \<le> CHR ''9'')"

definition digitVal :: "char \<Rightarrow> nat" where
  "digitVal c = of_char c - of_char CHR ''0''"

text \<open>
  \<open>strconv\<close> on a platform whose \<open>int\<close> has 64 bits (\<open>strconv.IntSize = 64\<close>).
  All three functions return the value together with the error, as in Go.
\<close>

definition intSize :: nat where
  "intSize = 64"

definition maxUint64 :: nat where
  "maxUint64 = 2 ^ 64 - 1"

text \<open>
  The digit loop of \<open>ParseUint(s, 10, 64)\<close>: a byte that is no decimal digit is a
  syntax error; \<open>n >= cutoff\<close> (with \<open>cutoff = maxUint64/10 + 1\<close>) means that
  \<open>n * 10\<close> overflows; \<open>n1 < n || n1 > maxVal\<close> detects the wrap-around of the
  \<open>uint64\<close> addition, which is written out with \<open>mod 2 ^ 64\<close>.
\<close>

fun parseUint_loop :: "nat \<Rightarrow> string \<Rightarrow> errKind + nat" where
  "parseUint_loop n [] = Inr n"
| "parseUint_loop n (c # s) =
     (if \<not> isDigit c then Inl ErrSyntax
      else if n \<ge> maxUint64 div 10 + 1 then Inl ErrRange
      else (let n' = (n * 10) mod 2 ^ 64;
                n1 = (n' + digitVal c) mod 2 ^ 64
            in if n1 < n' \<or> n1 > maxUint64 then Inl ErrRange
               else parseUint_loop n1 s))"

definition strconv_ParseUint :: "string \<Rightarrow> nat \<times> go_error option" where
  "strconv_ParseUint s =
     (if s = [] then (0, Some (NumError ''ParseUint'' s ErrSyntax))
      else (case parseUint_loop 0 s of
              Inl ErrSyntax \<Rightarrow> (0, Some (NumError ''ParseUint'' s ErrSyntax))
            | Inl ErrRange \<Rightarrow> (maxUint64, Some (NumError ''ParseUint'' s ErrRange))
            | Inr n \<Rightarrow> (n, None)))"

text \<open>\<open>ParseInt(s, 10, 0)\<close>: an optional sign, then \<open>ParseUint\<close> and the range check.\<close>

definition strconv_ParseInt :: "string \<Rightarrow> int \<times> go_error option" where
  "strconv_ParseInt s0 =
     (if s0 = [] then (0, Some (NumError ''ParseInt'' s0 ErrSyntax))
      else
        (let neg = (hd s0 = CHR ''-'');
             s = (if hd s0 = CHR ''+'' then tl s0 else if hd s0 = CHR ''-'' then tl s0 else s0);
             cutoff = (2::nat) ^ (intSize - 1)
         in (case strconv_ParseUint s of
               (un, Some (NumError f n ErrSyntax)) \<Rightarrow> (0, Some (NumError ''ParseInt'' s0 ErrSyntax))
             | (un, err) \<Rightarrow>
                 if \<not> neg \<and> un \<ge> cutoff then (int cutoff - 1, Some (NumError ''ParseInt'' s0 ErrRange))
                 else if neg \<and> un > cutoff then (- int cutoff, Some (NumError ''ParseInt'' s0 ErrRange))
                 else (if neg then - int un else int un, None))))"

text \<open>The fast path of \<open>Atoi\<close> for short inputs: \<open>None\<close> is its syntax error.\<close>

fun atoi_fast_loop :: "int \<Rightarrow> string \<Rightarrow> int option" where
  "atoi_fast_loop n [] = Some n"
| "atoi_fast_loop n (ch # s) =
     (if \<not> isDigit ch then None else atoi_fast_loop (n * 10 + int (digitVal ch)) s)"

definition strconv_Atoi :: "string \<Rightarrow> int \<times> go_error option" where
  "strconv_Atoi s0 =
     (if 0 < length s0 \<and> length s0 < 19 then
        (let signed = (hd s0 = CHR ''-'' \<or> hd s0 = CHR ''+'');
             s = (if signed then tl s0 else s0)
         in if signed \<and> length s < 1 then (0, Some (NumError ''Atoi'' s0 ErrSyntax))
            else (case atoi_fast_loop 0 s of
                    None \<Rightarrow> (0, Some (NumError ''Atoi'' s0 ErrSyntax))
                  | Some n \<Rightarrow> (if hd s0 = CHR ''-'' then - n else n, None)))
      else
        (case strconv_ParseInt s0 of
           (i64, Some (NumError f n k)) \<Rightarrow> (i64, Some (NumError ''Atoi'' n k))
         | (i64, err) \<Rightarrow> (i64, err)))"

section \<open>Response metadata: \<open>google.golang.org/grpc/metadata\<close>\<close>

text \<open>\<open>metadata.MD\<close> is \<open>map[string][]string\<close>; \<open>Get\<close> lower-cases the key and
  returns the values stored under it, the empty list when there are none.\<close>

type_synonym MD = "string \<rightharpoonup> string list"

definition md_Get :: "MD \<Rightarrow> string \<Rightarrow> string list" where
  "md_Get md k = (case md (strings_ToLower k) of None \<Rightarrow> [] | Some vs \<Rightarrow> vs)"

section \<open>Tags: \<open>go.opencensus.io/tag\<close>\<close>

text \<open>
  A tag map binds key names to values. It is kept as a list of pairs with pairwise
  different keys, looked up with \<open>map_of\<close>; the order of the list has no meaning.
  A Go context carries at most one tag map.
\<close>

type_synonym tag_Map = "(string \<times> string) list"

record go_context =
  tagMap :: "tag_Map option"

definition tag_FromContext :: "go_context \<Rightarrow> tag_Map option" where
  "tag_FromContext ctx = tagMap ctx"

definition tag_NewContext :: "go_context \<Rightarrow> tag_Map option \<Rightarrow> go_context" where
  "tag_NewContext ctx m = ctx\<lparr>tagMap := m\<rparr>"

text \<open>Key names and values are at most 255 bytes of printable ASCII (0x20 to 0x7e);
  a key name is not empty.\<close>

definition isASCII :: "string \<Rightarrow> bool" where
  "isASCII s = list_all (\<lambda>c. (32::nat) \<le> of_char c \<and> of_char c \<le> (126::nat)) s"

definition checkKeyName :: "string \<Rightarrow> bool" where
  "checkKeyName name = (if length name = 0 then False
                         else if length name > 255 then False else isASCII name)"

definition checkValue :: "string \<Rightarrow> bool" where
  "checkValue v = (if length v > 255 then False else isASCII v)"

text \<open>The unexported \<open>insert\<close> keeps the value of a key that is already bound;
  \<open>upsert\<close> binds the key to the new value in either case.\<close>

definition map_insert :: "string \<Rightarrow> string \<Rightarrow> tag_Map \<Rightarrow> tag_Map" where
  "map_insert k v m = (if map_of m k \<noteq> None then m else m @ [(k, v)])"

definition map_upsert :: "string \<Rightarrow> string \<Rightarrow> tag_Map \<Rightarrow> tag_Map" where
  "map_upsert k v m = AList.update k v m"

text \<open>The mutators the telemetry module uses: \<open>tag.Insert(k, v)\<close> and \<open>tag.Upsert(k, v)\<close>.\<close>

datatype mutator = tag_Insert string string | tag_Upsert string string

fun Mutate :: "mutator \<Rightarrow> tag_Map \<Rightarrow> go_error + tag_Map" where
  "Mutate (tag_Insert k v) m = (if \<not> checkValue v then Inl errInvalidValue else Inr (map_insert k v m))"
| "Mutate (tag_Upsert k v) m = (if \<not> checkValue v then Inl errInvalidValue else Inr (map_upsert k v m))"

text \<open>\<open>tag.New\<close> first copies the tags of the incoming context, validating each.\<close>

fun copy_orig :: "tag_Map \<Rightarrow> tag_Map \<Rightarrow> go_error + tag_Map" where
  "copy_orig [] m = Inr m"
| "copy_orig ((k, v) # kvs) m =
     (if \<not> checkKeyName k then Inl (TagKeyError k errInvalidKeyName)
      else if \<not> checkValue v then Inl (TagKeyError k errInvalidValue)
      else copy_orig kvs (map_insert k v m))"

fun apply_mutators :: "mutator list \<Rightarrow> tag_Map \<Rightarrow> go_error + tag_Map" where
  "apply_mutators [] m = Inr m"
| "apply_mutators (mu # mus) m =
     (case Mutate mu m of Inl err \<Rightarrow> Inl err | Inr m' \<Rightarrow> apply_mutators mus m')"

definition tag_New :: "go_context \<Rightarrow> mutator list \<Rightarrow> go_context \<times> go_error option" where
  "tag_New ctx mus =
     (case copy_orig (case tag_FromContext ctx of None \<Rightarrow> [] | Some orig \<Rightarrow> orig) [] of
        Inl err \<Rightarrow> (ctx, Some err)
      | Inr m \<Rightarrow>
          (case apply_mutators mus m of
             Inl err \<Rightarrow> (ctx, Some err)
           | Inr m' \<Rightarrow> (tag_NewContext ctx (Some m'), None)))"

section \<open>Measures, views and the telemetry state\<close>

record Int64Measure =
  m_name :: string
  m_description :: string
  m_unit :: string

definition statsPrefix :: string where
  "statsPrefix = ''cloud.google.com/go/spanner/''"

definition stats_UnitMilliseconds :: string where
  "stats_UnitMilliseconds = ''ms''"

definition stats_UnitDimensionless :: string where
  "stats_UnitDimensionless = ''1''"

definition stats_Int64 :: "string \<Rightarrow> string \<Rightarrow> string \<Rightarrow> Int64Measure" where
  "stats_Int64 n d u = \<lparr>m_name = n, m_description = d, m_unit = u\<rparr>"

definition tagKeyClientID :: string where "tagKeyClientID = ''client_id''"
definition tagKeyDatabase :: string where "tagKeyDatabase = ''database''"
definition tagKeyInstance :: string where "tagKeyInstance = ''instance_id''"
definition tagKeyLibVersion :: string where "tagKeyLibVersion = ''library_version''"
definition tagKeyMethod :: string where "tagKeyMethod = ''grpc_client_method''"

definition tagCommonKeys :: "string list" where
  "tagCommonKeys = [tagKeyClientID, tagKeyDatabase, tagKeyInstance, tagKeyLibVersion]"

definition GFELatency :: Int64Measure where
  "GFELatency = stats_Int64 (statsPrefix @ ''gfe_latency'')
     ''Latency between Google's network receiving an RPC and reading back the first byte of the response''
     stats_UnitMilliseconds"

definition GFEHeaderMissingCount :: Int64Measure where
  "GFEHeaderMissingCount = stats_Int64 (statsPrefix @ ''gfe_header_missing_count'')
     ''Number of RPC responses received without the server-timing header, most likely means that the RPC never reached Google's network''
     stats_UnitDimensionless"

text \<open>A view binds a measure to an aggregation and a list of tag keys. The bucket
  bounds of a distribution play no part in what follows and are left out.\<close>

datatype aggregation = LastValue | Count | Distribution

record View =
  v_Name :: string
  v_Measure :: Int64Measure
  v_Description :: string
  v_Aggregation :: aggregation
  v_TagKeys :: "string list"

definition GFELatencyView :: View where
  "GFELatencyView = \<lparr>
     v_Name = ''cloud.google.com/go/spanner/gfe_latency'',
     v_Measure = GFELatency,
     v_Description = ''Latency between Google's network receives an RPC and reads back the first byte of the response'',
     v_Aggregation = Distribution,
     v_TagKeys = tagCommonKeys @ [tagKeyMethod]\<rparr>"

definition GFEHeaderMissingCountView :: View where
  "GFEHeaderMissingCountView = \<lparr>
     v_Name = ''cloud.google.com/go/spanner/gfe_header_missing_count'',
     v_Measure = GFEHeaderMissingCount,
     v_Description = ''Number of RPC responses received without the server-timing header, most likely means that the RPC never reached Google's network'',
     v_Aggregation = Count,
     v_TagKeys = tagCommonKeys @ [tagKeyMethod]\<rparr>"

text \<open>
  \<open>Int64Measure.M(v)\<close> stores \<open>float64(v)\<close> in the measurement. The conversion of
  an \<open>int64\<close> rounds to 53 significant bits, to the nearest value and to the even
  one of two nearest; the result is an integer again, and that integer is what
  \<open>float64_of_int64\<close> returns. \<open>bitLength n\<close> is the number of binary digits of
  \<open>n\<close>; up to 53 of them nothing is cut off.
\<close>

fun bitLength :: "nat \<Rightarrow> nat" where
  "bitLength n = (if n = 0 then 0 else Suc (bitLength (n div 2)))"

declare bitLength.simps [simp del]

definition float64_of_int64 :: "int \<Rightarrow> int" where
  "float64_of_int64 v =
     (let a = nat \<bar>v\<bar>;
          e = bitLength a - 53;
          q = a div 2 ^ e;
          r = a mod 2 ^ e;
          q' = (if 2 * r > 2 ^ e \<or> (2 * r = 2 ^ e \<and> odd q) then q + 1 else q)
      in sgn v * int (q' * 2 ^ e))"

text \<open>
  One call of \<open>stats.Record(ctx, m.M(n))\<close>: the measure, the number stored (the
  value of the \<open>float64\<close>) and the tag map of the context it was recorded in.
\<close>

record measurement =
  r_measure :: Int64Measure
  r_number :: int
  r_tags :: "tag_Map option"

text \<open>
  The effects of the enable and disable functions, in the order in which they
  happen: a write of the flag, a call of \<open>view.Register\<close> and a call of
  \<open>view.Unregister\<close>, each with its argument.
\<close>

datatype effect = FlagWrite bool | ViewRegister "View list" | ViewUnregister "View list"

text \<open>
  The process-wide state of the telemetry module: the flag \<open>gfeLatencyMetricsEnabled\<close>
  (guarded by \<open>statsMu\<close> in the source; calls are modelled one after the other, so the
  lock has no counterpart), the state \<open>'r\<close> of the view registry of
  \<open>go.opencensus.io/stats/view\<close>, the measurements recorded so far and the effects
  so far, both oldest first.
\<close>

record 'r telemetry =
  gfeLatencyMetricsEnabled :: bool
  registry :: 'r
  recorded :: "measurement list"
  effects :: "effect list"

text \<open>The registry is an external collaborator: \<open>view.Register\<close> and
  \<open>view.Unregister\<close> are parameters of the functions that call them.\<close>

type_synonym 'r view_Register = "View list \<Rightarrow> 'r \<Rightarrow> go_error option \<times> 'r"
type_synonym 'r view_Unregister = "View list \<Rightarrow> 'r \<Rightarrow> 'r"

definition recordStat :: "go_context \<Rightarrow> Int64Measure \<Rightarrow> int \<Rightarrow> 'r telemetry \<Rightarrow> 'r telemetry" where
  "recordStat ctx m n s =
     s\<lparr>recorded := recorded s @
        [\<lparr>r_measure = m, r_number = float64_of_int64 n, r_tags = tag_FromContext ctx\<rparr>]\<rparr>"

definition getGFELatencyMetricsFlag :: "'r telemetry \<Rightarrow> bool" where
  "getGFELatencyMetricsFlag s = gfeLatencyMetricsEnabled s"

definition setGFELatencyMetricsFlag :: "bool \<Rightarrow> 'r telemetry \<Rightarrow> 'r telemetry" where
  "setGFELatencyMetricsFlag enable s =
     s\<lparr>gfeLatencyMetricsEnabled := enable, effects := effects s @ [FlagWrite enable]\<rparr>"

definition EnableGfeLatencyView :: "'r view_Register \<Rightarrow> 'r telemetry \<Rightarrow> go_error option \<times> 'r telemetry" where
  "EnableGfeLatencyView view_Register s =
     (let s1 = setGFELatencyMetricsFlag True s;
          s2 = s1\<lparr>effects := effects s1 @ [ViewRegister [GFELatencyView]]\<rparr>;
          (err, r) = view_Register [GFELatencyView] (registry s2)
      in (err, s2\<lparr>registry := r\<rparr>))"

definition EnableGfeHeaderMissingCountView :: "'r view_Register \<Rightarrow> 'r telemetry \<Rightarrow> go_error option \<times> 'r telemetry" where
  "EnableGfeHeaderMissingCountView view_Register s =
     (let s1 = setGFELatencyMetricsFlag True s;
          s2 = s1\<lparr>effects := effects s1 @ [ViewRegister [GFEHeaderMissingCountView]]\<rparr>;
          (err, r) = view_Register [GFEHeaderMissingCountView] (registry s2)
      in (err, s2\<lparr>registry := r\<rparr>))"

definition EnableGfeLatencyAndHeaderMissingCountViews :: "'r view_Register \<Rightarrow> 'r telemetry \<Rightarrow> go_error option \<times> 'r telemetry" where
  "EnableGfeLatencyAndHeaderMissingCountViews view_Register s =
     (let s1 = setGFELatencyMetricsFlag True s;
          s2 = s1\<lparr>effects := effects s1 @ [ViewRegister [GFELatencyView, GFEHeaderMissingCountView]]\<rparr>;
          (err, r) = view_Register [GFELatencyView, GFEHeaderMissingCountView] (registry s2)
      in (err, s2\<lparr>registry := r\<rparr>))"

definition DisableGfeLatencyAndHeaderMissingCountViews :: "'r view_Unregister \<Rightarrow> 'r telemetry \<Rightarrow> 'r telemetry" where
  "DisableGfeLatencyAndHeaderMissingCountViews view_Unregister s =
     (let s1 = setGFELatencyMetricsFlag False s;
          s2 = s1\<lparr>effects := effects s1 @
                 [ViewUnregister [GFELatencyView, GFEHeaderMissingCountView]]\<rparr>
      in s2\<lparr>registry := view_Unregister [GFELatencyView, GFEHeaderMissingCountView] (registry s2)\<rparr>)"

section \<open>Capturing the GFE latency\<close>

definition captureGFELatencyStats ::
  "go_context \<Rightarrow> MD \<Rightarrow> string \<Rightarrow> 'r telemetry \<Rightarrow> go_error option \<times> 'r telemetry" where
  "captureGFELatencyStats ctx md keyMethod s =
     (if length (md_Get md ''server-timing'') = 0 then
        (None, recordStat ctx GFEHeaderMissingCount 1 s)
      else
        (let serverTiming = md_Get md ''server-timing'' ! 0;
             (gfeLatency, err) = strconv_Atoi (strings_TrimPrefix serverTiming ''gfet4t7; dur='')
         in if \<not> strings_HasPrefix serverTiming ''gfet4t7; dur='' \<or> err \<noteq> None then (err, s)
            else
              (let ctx1 = tag_NewContext ctx (tag_FromContext ctx)
               in (case tag_New ctx1 [tag_Insert tagKeyMethod keyMethod] of
                     (ctx2, Some err2) \<Rightarrow> (Some err2, s)
                   | (ctx2, None) \<Rightarrow> (None, recordStat ctx2 GFELatency gfeLatency s)))))"

text \<open>The common tags of a session client, and the context that carries them.\<close>

record commonTags =
  clientID :: string
  database :: string
  instance' :: string
  libVersion :: string

definition createContextAndCaptureGFELatencyMetrics ::
  "go_context \<Rightarrow> commonTags \<Rightarrow> MD \<Rightarrow> string \<Rightarrow> 'r telemetry \<Rightarrow> go_error option \<times> 'r telemetry" where
  "createContextAndCaptureGFELatencyMetrics ctx ct md keyMethod s =
     (case tag_New ctx
             [tag_Upsert tagKeyClientID (clientID ct),
              tag_Upsert tagKeyDatabase (database ct),
              tag_Upsert tagKeyInstance (instance' ct),
              tag_Upsert tagKeyLibVersion (libVersion ct)] of
        (ctxGFE, Some err) \<Rightarrow> (Some err, s)
      | (ctxGFE, None) \<Rightarrow> captureGFELatencyStats ctxGFE md keyMethod s)"

text \<open>
  \<open>sessionClient\<close> with the two fields \<open>getCommonTags\<close> reads. \<open>parseDatabaseName\<close>
  (which returns project, instance and database, or an error) and the constant
  \<open>version.Repo\<close> are declared elsewhere in the repository and are parameters here.
\<close>

record sessionClient =
  sc_id :: string
  sc_database :: string

definition getCommonTags ::
  "(string \<Rightarrow> (string \<times> string \<times> string) \<times> go_error option) \<Rightarrow> string \<Rightarrow> sessionClient \<Rightarrow> commonTags option" where
  "getCommonTags parseDatabaseName version_Repo sc =
     (case parseDatabaseName (sc_database sc) of
        ((project, inst, db), Some err) \<Rightarrow> None
      | ((project, inst, db), None) \<Rightarrow>
          Some \<lparr>clientID = sc_id sc, database = db, instance' = inst, libVersion = version_Repo\<rparr>)"

section \<open>Notions used to state the properties\<close>

text \<open>The number a string of decimal digits denotes, the tags a context carries,
  and a context all of whose tags pass the checks of the tag package (every context
  built by \<open>tag.New\<close> is one).\<close>

definition decimal :: "string \<Rightarrow> nat" where
  "decimal ds = foldl (\<lambda>n c. n * 10 + digitVal c) 0 ds"

definition ctxTags :: "go_context \<Rightarrow> tag_Map" where
  "ctxTags ctx = (case tag_FromContext ctx of None \<Rightarrow> [] | Some orig \<Rightarrow> orig)"

definition validTags :: "go_context \<Rightarrow> bool" where
  "validTags ctx = list_all (\<lambda>(k, v). checkKeyName k \<and> checkValue v) (ctxTags ctx)"


section \<open>The REST client for disks\<close>

subsection \<open>Formatting with \<open>fmt.Sprintf("%v", x)\<close>\<close>

text \<open>The verb \<open>%v\<close> prints a string as it is, a boolean as \<open>true\<close> or \<open>false\<close>,
  and an integer in decimal, with a minus sign when it is negative.\<close>

definition decimalDigits :: string where
  "decimalDigits = ''0123456789''"

fun formatDecimal :: "nat \<Rightarrow> string" where
  "formatDecimal n =
     (if n < 10 then [decimalDigits ! n]
      else formatDecimal (n div 10) @ [decimalDigits ! (n mod 10)])"

declare formatDecimal.simps [simp del]

definition Sprintf_v_string :: "string \<Rightarrow> string" where
  "Sprintf_v_string s = s"

definition Sprintf_v_bool :: "bool \<Rightarrow> string" where
  "Sprintf_v_bool b = (if b then ''true'' else ''false'')"

definition Sprintf_v_uint32 :: "32 word \<Rightarrow> string" where
  "Sprintf_v_uint32 w = formatDecimal (unat w)"

definition Sprintf_v_int32 :: "32 word \<Rightarrow> string" where
  "Sprintf_v_int32 w =
     (if sint w < 0 then ''-'' @ formatDecimal (nat (- sint w)) else formatDecimal (nat (sint w)))"

subsection \<open>Query strings: \<open>net/url\<close>\<close>

text \<open>
  \<open>url.QueryEscape\<close>: letters, digits and \<open>- _ . ~\<close> stay, a space becomes \<open>+\<close>,
  every other byte becomes \<open>%\<close> and its two upper-case hexadecimal digits.
\<close>

definition upperhex :: string where
  "upperhex = ''0123456789ABCDEF''"

definition shouldEscape :: "char \<Rightarrow> bool" where
  "shouldEscape c =
     (if (CHR ''a'' \<le> c \<and> c \<le> CHR ''z'') \<or> (CHR ''A'' \<le> c \<and> c \<le> CHR ''Z'')
          \<or> (CHR ''0'' \<le> c \<and> c \<le> CHR ''9'') then False
      else if c = CHR ''-'' \<or> c = CHR ''_'' \<or> c = CHR ''.'' \<or> c = CHR ''~'' then False
      else True)"

definition escapeByte :: "char \<Rightarrow> string" where
  "escapeByte c =
     (if c = CHR '' '' then ''+''
      else if shouldEscape c then
        [CHR ''%'', upperhex ! (of_char c div 16), upperhex ! (of_char c mod 16)]
      else [c])"

definition url_QueryEscape :: "string \<Rightarrow> string" where
  "url_QueryEscape s = concat (map escapeByte s)"

text \<open>
  \<open>url.Values\<close> is \<open>map[string][]string\<close>, kept as a list of pairs with pairwise
  different keys. \<open>Add\<close> appends a value to the values of a key; \<open>Encode\<close> walks
  the keys in sorted order and writes \<open>key=value\<close> for every value, with \<open>&\<close>
  before each pair but the first.
\<close>

type_synonym url_Values = "(string \<times> string list) list"

definition url_Values_Add :: "string \<Rightarrow> string \<Rightarrow> url_Values \<Rightarrow> url_Values" where
  "url_Values_Add key v vals =
     (case map_of vals key of
        None \<Rightarrow> vals @ [(key, [v])]
      | Some vs \<Rightarrow> AList.update key (vs @ [v]) vals)"

definition url_Values_Encode :: "url_Values \<Rightarrow> string" where
  "url_Values_Encode vals =
     foldl (\<lambda>buf (k, v). (if length buf > 0 then buf @ ''&'' else buf)
                            @ url_QueryEscape k @ ''='' @ url_QueryEscape v)
       []
       (concat (map (\<lambda>k. map (Pair k) (case map_of vals k of None \<Rightarrow> [] | Some vs \<Rightarrow> vs))
                    (sort (map fst vals))))"

record URL =
  Scheme :: string
  Host :: string
  Path :: string
  RawQuery :: string

subsection \<open>Requests, responses and the client\<close>

type_synonym http_Header = "string \<rightharpoonup> string list"

record Request =
  Method :: string
  RequestURL :: string
  RequestBody :: string
  Header :: http_Header
  RequestCtx :: "go_context option"

text \<open>A response: the status code, the status text, and what \<open>ioutil.ReadAll\<close>
  yields when the body is read.\<close>

record Response =
  StatusCode :: int
  Status :: string
  Body :: "go_error + string"

definition http_StatusOK :: int where
  "http_StatusOK = 200"

text \<open>\<open>httpClient\<close> is \<open>None\<close> after \<open>Close\<close>; otherwise it is the function
  \<open>Do\<close> of the \<open>http.Client\<close>.\<close>

record disksRESTClient =
  endpoint :: string
  httpClient :: "(Request \<Rightarrow> go_error + Response) option"
  xGoogMetadata :: MD

text \<open>
  The collaborators of a method: the JSON codec for the message type \<open>'m\<close> it sends
  and the message type \<open>'r\<close> it receives (\<open>Unmarshal\<close> yields the message it filled
  and its error), \<open>url.Parse\<close>, \<open>URL.String\<close> and \<open>http.NewRequest\<close>.
\<close>

record ('m, 'r) rest_env =
  protojson_Marshal :: "'m \<Rightarrow> go_error + string"
  protojson_Unmarshal :: "string \<Rightarrow> 'r \<times> go_error option"
  url_Parse :: "string \<Rightarrow> go_error + URL"
  url_String :: "URL \<Rightarrow> string"
  http_NewRequest :: "string \<Rightarrow> string \<Rightarrow> string \<Rightarrow> go_error + Request"

text \<open>
  What a method did to the outside world, in order: the request it sent with the
  outcome of \<open>Do\<close>, reading the response body, deserializing it, and closing it.
  A method returns its result (\<open>None\<close> is nil), its error and these events.
\<close>

datatype io_event =
    HttpDo Request "go_error + Response"
  | BodyReadAll
  | JsonUnmarshal string
  | BodyClose

type_synonym 'r call_result = "'r option \<times> go_error option \<times> io_event list"

text \<open>
  Getters of the generated messages are safe on a nil request: \<open>getField\<close> reads a
  plain field, \<open>getOptField\<close> an optional one (the zero value \<open>z\<close> when the request
  or the field is nil), \<open>getPointer\<close> a message-valued field, and \<open>isSet f req\<close> is
  the test \<open>req != nil && req.f != nil\<close>.
\<close>

definition getField :: "('q \<Rightarrow> 'a) \<Rightarrow> 'a \<Rightarrow> 'q option \<Rightarrow> 'a" where
  "getField f z req = (case req of None \<Rightarrow> z | Some x \<Rightarrow> f x)"

definition getOptField :: "('q \<Rightarrow> 'a option) \<Rightarrow> 'a \<Rightarrow> 'q option \<Rightarrow> 'a" where
  "getOptField f z req =
     (case req of None \<Rightarrow> z | Some x \<Rightarrow> (case f x of None \<Rightarrow> z | Some v \<Rightarrow> v))"

definition getPointer :: "('q \<Rightarrow> 'b option) \<Rightarrow> 'q option \<Rightarrow> 'b option" where
  "getPointer f req = (case req of None \<Rightarrow> None | Some x \<Rightarrow> f x)"

definition isSet :: "('q \<Rightarrow> 'a option) \<Rightarrow> 'q option \<Rightarrow> bool" where
  "isSet f req = (case req of None \<Rightarrow> False | Some x \<Rightarrow> f x \<noteq> None)"

subsection \<open>The thirteen methods\<close>

text \<open>
  Each method serializes the request (or its body resource), appends its path to the
  path of the endpoint, adds the optional query parameters that are set, builds and
  sends the HTTP request, and deserializes the body of a response with status 200.
  \<open>NilDereference\<close> is the panic of \<open>baseUrl.Path\<close> when \<open>url.Parse\<close> failed (its
  error is dropped) and of \<open>Do\<close> on a closed client.
\<close>

record 'b AddResourcePoliciesDiskRequest =
  arp_Disk :: "string"
  arp_DisksAddResourcePoliciesRequestResource :: "'b option"
  arp_Project :: "string"
  arp_RequestId :: "string option"
  arp_Zone :: "string"

definition AddResourcePolicies_baseUrl :: "URL \<Rightarrow> 'b AddResourcePoliciesDiskRequest option \<Rightarrow> URL" where
  "AddResourcePolicies_baseUrl baseUrl req =
     (let baseUrl = baseUrl\<lparr>Path := Path baseUrl
            @ ''/compute/v1/projects/''
            @ Sprintf_v_string (getField arp_Project [] req)
            @ ''/zones/''
            @ Sprintf_v_string (getField arp_Zone [] req)
            @ ''/disks/''
            @ Sprintf_v_string (getField arp_Disk [] req)
            @ ''/addResourcePolicies''\<rparr>;
          params = [];
          params = (if isSet arp_RequestId req
                    then url_Values_Add ''requestId''
                           (Sprintf_v_string (getOptField arp_RequestId [] req)) params
                    else params)
      in baseUrl\<lparr>RawQuery := url_Values_Encode params\<rparr>)"

definition AddResourcePolicies ::
  "('b option, 'r) rest_env \<Rightarrow> disksRESTClient \<Rightarrow> go_context \<Rightarrow>
   'b AddResourcePoliciesDiskRequest option \<Rightarrow> 'r call_result" where
  "AddResourcePolicies env c ctx req =
     (case protojson_Marshal env (getPointer arp_DisksAddResourcePoliciesRequestResource req) of
        Inl err \<Rightarrow> (None, Some err, [])
      | Inr jsonReq \<Rightarrow>
     (case url_Parse env (endpoint c) of
        Inl perr \<Rightarrow> (None, Some NilDereference, [])
      | Inr baseUrl \<Rightarrow>
     (case http_NewRequest env ''POST'' (url_String env (AddResourcePolicies_baseUrl baseUrl req)) jsonReq of
        Inl err \<Rightarrow> (None, Some err, [])
      | Inr httpReq0 \<Rightarrow>
     (let httpReq = httpReq0\<lparr>RequestCtx := Some ctx\<rparr>;
          httpReq = httpReq\<lparr>Header := Header httpReq ++ xGoogMetadata c\<rparr>;
          httpReq = httpReq\<lparr>Header := (Header httpReq)(''Content-Type'' \<mapsto> [''application/json''])\<rparr>
      in (case httpClient c of
            None \<Rightarrow> (None, Some NilDereference, [])
          | Some client \<Rightarrow>
         (case client httpReq of
            Inl err \<Rightarrow> (None, Some err, [HttpDo httpReq (Inl err)])
          | Inr httpRsp \<Rightarrow>
              if StatusCode httpRsp \<noteq> http_StatusOK
              then (None, Some (FmtErrorf (Status httpRsp)), [HttpDo httpReq (Inr httpRsp), BodyClose])
              else (case Body httpRsp of
                      Inl err \<Rightarrow>
                        (None, Some err, [HttpDo httpReq (Inr httpRsp), BodyReadAll, BodyClose])
                    | Inr buf \<Rightarrow>
                        (case protojson_Unmarshal env buf of
                           (rsp, uerr) \<Rightarrow>
                             (Some rsp, uerr,
                              [HttpDo httpReq (Inr httpRsp), BodyReadAll, JsonUnmarshal buf,
                               BodyClose])))))))))"

record AggregatedListDisksRequest =
  al_Filter :: "string option"
  al_IncludeAllScopes :: "bool option"
  al_MaxResults :: "32 word option"
  al_OrderBy :: "string option"
  al_PageToken :: "string option"
  al_Project :: "string"
  al_ReturnPartialSuccess :: "bool option"

definition AggregatedList_baseUrl :: "URL \<Rightarrow> AggregatedListDisksRequest option \<Rightarrow> URL" where
  "AggregatedList_baseUrl baseUrl req =
     (let baseUrl = baseUrl\<lparr>Path := Path baseUrl
            @ ''/compute/v1/projects/''
            @ Sprintf_v_string (getField al_Project [] req)
            @ ''/aggregated/disks''\<rparr>;
          params = [];
          params = (if isSet al_Filter req
                    then url_Values_Add ''filter''
                           (Sprintf_v_string (getOptField al_Filter [] req)) params
                    else params);
          params = (if isSet al_IncludeAllScopes req
                    then url_Values_Add ''includeAllScopes''
                           (Sprintf_v_bool (getOptField al_IncludeAllScopes False req)) params
                    else params);
          params = (if isSet al_MaxResults req
                    then url_Values_Add ''maxResults''
                           (Sprintf_v_uint32 (getOptField al_MaxResults 0 req)) params
                    else params);
          params = (if isSet al_OrderBy req
                    then url_Values_Add ''orderBy''
                           (Sprintf_v_string (getOptField al_OrderBy [] req)) params
                    else params);
          params = (if isSet al_PageToken req
                    then url_Values_Add ''pageToken''
                           (Sprintf_v_string (getOptField al_PageToken [] req)) params
                    else params);
          params = (if isSet al_ReturnPartialSuccess req
                    then url_Values_Add ''returnPartialSuccess''
                           (Sprintf_v_bool (getOptField al_ReturnPartialSuccess False req)) params
                    else params)
      in baseUrl\<lparr>RawQuery := url_Values_Encode params\<rparr>)"

definition AggregatedList ::
  "(AggregatedListDisksRequest option, 'r) rest_env \<Rightarrow> disksRESTClient \<Rightarrow> go_context \<Rightarrow>
   AggregatedListDisksRequest option \<Rightarrow> 'r call_result" where
  "AggregatedList env c ctx req =
     (case protojson_Marshal env req of
        Inl err \<Rightarrow> (None, Some err, [])
      | Inr jsonReq \<Rightarrow>
     (case url_Parse env (endpoint c) of
        Inl perr \<Rightarrow> (None, Some NilDereference, [])
      | Inr baseUrl \<Rightarrow>
     (case http_NewRequest env ''GET'' (url_String env (AggregatedList_baseUrl baseUrl req)) jsonReq of
        Inl err \<Rightarrow> (None, Some err, [])
      | Inr httpReq0 \<Rightarrow>
     (let httpReq = httpReq0\<lparr>RequestCtx := Some ctx\<rparr>;
          httpReq = httpReq\<lparr>Header := Header httpReq ++ xGoogMetadata c\<rparr>;
          httpReq = httpReq\<lparr>Header := (Header httpReq)(''Content-Type'' \<mapsto> [''application/json''])\<rparr>
      in (case httpClient c of
            None \<Rightarrow> (None, Some NilDereference, [])
          | Some client \<Rightarrow>
         (case client httpReq of
            Inl err \<Rightarrow> (None, Some err, [HttpDo httpReq (Inl err)])
          | Inr httpRsp \<Rightarrow>
              if StatusCode httpRsp \<noteq> http_StatusOK
              then (None, Some (FmtErrorf (Status httpRsp)), [HttpDo httpReq (Inr httpRsp), BodyClose])
              else (case Body httpRsp of
                      Inl err \<Rightarrow>
                        (None, Some err, [HttpDo httpReq (Inr httpRsp), BodyReadAll, BodyClose])
                    | Inr buf \<Rightarrow>
                        (case protojson_Unmarshal env buf of
                           (rsp, uerr) \<Rightarrow>
                             (Some rsp, uerr,
                              [HttpDo httpReq (Inr httpRsp), BodyReadAll, JsonUnmarshal buf,
                               BodyClose])))))))))"

record 'b CreateSnapshotDiskRequest =
  cs_Disk :: "string"
  cs_GuestFlush :: "bool option"
  cs_Project :: "string"
  cs_RequestId :: "string option"
  cs_SnapshotResource :: "'b option"
  cs_Zone :: "string"

definition CreateSnapshot_baseUrl :: "URL \<Rightarrow> 'b CreateSnapshotDiskRequest option \<Rightarrow> URL" where
  "CreateSnapshot_baseUrl baseUrl req =
     (let baseUrl = baseUrl\<lparr>Path := Path baseUrl
            @ ''/compute/v1/projects/''
            @ Sprintf_v_string (getField cs_Project [] req)
            @ ''/zones/''
            @ Sprintf_v_string (getField cs_Zone [] req)
            @ ''/disks/''
            @ Sprintf_v_string (getField cs_Disk [] req)
            @ ''/createSnapshot''\<rparr>;
          params = [];
          params = (if isSet cs_GuestFlush req
                    then url_Values_Add ''guestFlush''
                           (Sprintf_v_bool (getOptField cs_GuestFlush False req)) params
                    else params);
          params = (if isSet cs_RequestId req
                    then url_Values_Add ''requestId''
                           (Sprintf_v_string (getOptField cs_RequestId [] req)) params
                    else params)
      in baseUrl\<lparr>RawQuery := url_Values_Encode params\<rparr>)"

definition CreateSnapshot ::
  "('b option, 'r) rest_env \<Rightarrow> disksRESTClient \<Rightarrow> go_context \<Rightarrow>
   'b CreateSnapshotDiskRequest option \<Rightarrow> 'r call_result" where
  "CreateSnapshot env c ctx req =
     (case protojson_Marshal env (getPointer cs_SnapshotResource req) of
        Inl err \<Rightarrow> (None, Some err, [])
      | Inr jsonReq \<Rightarrow>
     (case url_Parse env (endpoint c) of
        Inl perr \<Rightarrow> (None, Some NilDereference, [])
      | Inr baseUrl \<Rightarrow>
     (case http_NewRequest env ''POST'' (url_String env (CreateSnapshot_baseUrl baseUrl req)) jsonReq of
        Inl err \<Rightarrow> (None, Some err, [])
      | Inr httpReq0 \<Rightarrow>
     (let httpReq = httpReq0\<lparr>RequestCtx := Some ctx\<rparr>;
          httpReq = httpReq\<lparr>Header := Header httpReq ++ xGoogMetadata c\<rparr>;
          httpReq = httpReq\<lparr>Header := (Header httpReq)(''Content-Type'' \<mapsto> [''application/json''])\<rparr>
      in (case httpClient c of
            None \<Rightarrow> (None, Some NilDereference, [])
          | Some client \<Rightarrow>
         (case client httpReq of
            Inl err \<Rightarrow> (None, Some err, [HttpDo httpReq (Inl err)])
          | Inr httpRsp \<Rightarrow>
              if StatusCode httpRsp \<noteq> http_StatusOK
              then (None, Some (FmtErrorf (Status httpRsp)), [HttpDo httpReq (Inr httpRsp), BodyClose])
              else (case Body httpRsp of
                      Inl err \<Rightarrow>
                        (None, Some err, [HttpDo httpReq (Inr httpRsp), BodyReadAll, BodyClose])
                    | Inr buf \<Rightarrow>
                        (case protojson_Unmarshal env buf of
                           (rsp, uerr) \<Rightarrow>
                             (Some rsp, uerr,
                              [HttpDo httpReq (Inr httpRsp), BodyReadAll, JsonUnmarshal buf,
                               BodyClose])))))))))"

record DeleteDiskRequest =
  del_Disk :: "string"
  del_Project :: "string"
  del_RequestId :: "string option"
  del_Zone :: "string"

definition Delete_baseUrl :: "URL \<Rightarrow> DeleteDiskRequest option \<Rightarrow> URL" where
  "Delete_baseUrl baseUrl req =
     (let baseUrl = baseUrl\<lparr>Path := Path baseUrl
            @ ''/compute/v1/projects/''
            @ Sprintf_v_string (getField del_Project [] req)
            @ ''/zones/''
            @ Sprintf_v_string (getField del_Zone [] req)
            @ ''/disks/''
            @ Sprintf_v_string (getField del_Disk [] req)\<rparr>;
          params = [];
          params = (if isSet del_RequestId req
                    then url_Values_Add ''requestId''
                           (Sprintf_v_string (getOptField del_RequestId [] req)) params
                    else params)
      in baseUrl\<lparr>RawQuery := url_Values_Encode params\<rparr>)"

definition Delete ::
  "(DeleteDiskRequest option, 'r) rest_env \<Rightarrow> disksRESTClient \<Rightarrow> go_context \<Rightarrow>
   DeleteDiskRequest option \<Rightarrow> 'r call_result" where
  "Delete env c ctx req =
     (case protojson_Marshal env req of
        Inl err \<Rightarrow> (None, Some err, [])
      | Inr jsonReq \<Rightarrow>
     (case url_Parse env (endpoint c) of
        Inl perr \<Rightarrow> (None, Some NilDereference, [])
      | Inr baseUrl \<Rightarrow>
     (case http_NewRequest env ''DELETE'' (url_String env (Delete_baseUrl baseUrl req)) jsonReq of
        Inl err \<Rightarrow> (None, Some err, [])
      | Inr httpReq0 \<Rightarrow>
     (let httpReq = httpReq0\<lparr>RequestCtx := Some ctx\<rparr>;
          httpReq = httpReq\<lparr>Header := Header httpReq ++ xGoogMetadata c\<rparr>;
          httpReq = httpReq\<lparr>Header := (Header httpReq)(''Content-Type'' \<mapsto> [''application/json''])\<rparr>
      in (case httpClient c of
            None \<Rightarrow> (None, Some NilDereference, [])
          | Some client \<Rightarrow>
         (case client httpReq of
            Inl err \<Rightarrow> (None, Some err, [HttpDo httpReq (Inl err)])
          | Inr httpRsp \<Rightarrow>
              if StatusCode httpRsp \<noteq> http_StatusOK
              then (None, Some (FmtErrorf (Status httpRsp)), [HttpDo httpReq (Inr httpRsp), BodyClose])
              else (case Body httpRsp of
                      Inl err \<Rightarrow>
                        (None, Some err, [HttpDo httpReq (Inr httpRsp), BodyReadAll, BodyClose])
                    | Inr buf \<Rightarrow>
                        (case protojson_Unmarshal env buf of
                           (rsp, uerr) \<Rightarrow>
                             (Some rsp, uerr,
                              [HttpDo httpReq (Inr httpRsp), BodyReadAll, JsonUnmarshal buf,
                               BodyClose])))))))))"

record GetDiskRequest =
  get_Disk :: "string"
  get_Project :: "string"
  get_Zone :: "string"

definition Get_baseUrl :: "URL \<Rightarrow> GetDiskRequest option \<Rightarrow> URL" where
  "Get_baseUrl baseUrl req =
     baseUrl\<lparr>Path := Path baseUrl
            @ ''/compute/v1/projects/''
            @ Sprintf_v_string (getField get_Project [] req)
            @ ''/zones/''
            @ Sprintf_v_string (getField get_Zone [] req)
            @ ''/disks/''
            @ Sprintf_v_string (getField get_Disk [] req)\<rparr>"

definition Get ::
  "(GetDiskRequest option, 'r) rest_env \<Rightarrow> disksRESTClient \<Rightarrow> go_context \<Rightarrow>
   GetDiskRequest option \<Rightarrow> 'r call_result" where
  "Get env c ctx req =
     (case protojson_Marshal env req of
        Inl err \<Rightarrow> (None, Some err, [])
      | Inr jsonReq \<Rightarrow>
     (case url_Parse env (endpoint c) of
        Inl perr \<Rightarrow> (None, Some NilDereference, [])
      | Inr baseUrl \<Rightarrow>
     (case http_NewRequest env ''GET'' (url_String env (Get_baseUrl baseUrl req)) jsonReq of
        Inl err \<Rightarrow> (None, Some err, [])
      | Inr httpReq0 \<Rightarrow>
     (let httpReq = httpReq0\<lparr>RequestCtx := Some ctx\<rparr>;
          httpReq = httpReq\<lparr>Header := Header httpReq ++ xGoogMetadata c\<rparr>;
          httpReq = httpReq\<lparr>Header := (Header httpReq)(''Content-Type'' \<mapsto> [''application/json''])\<rparr>
      in (case httpClient c of
            None \<Rightarrow> (None, Some NilDereference, [])
          | Some client \<Rightarrow>
         (case client httpReq of
            Inl err \<Rightarrow> (None, Some err, [HttpDo httpReq (Inl err)])
          | Inr httpRsp \<Rightarrow>
              if StatusCode httpRsp \<noteq> http_StatusOK
              then (None, Some (FmtErrorf (Status httpRsp)), [HttpDo httpReq (Inr httpRsp), BodyClose])
              else (case Body httpRsp of
                      Inl err \<Rightarrow>
                        (None, Some err, [HttpDo httpReq (Inr httpRsp), BodyReadAll, BodyClose])
                    | Inr buf \<Rightarrow>
                        (case protojson_Unmarshal env buf of
                           (rsp, uerr) \<Rightarrow>
                             (Some rsp, uerr,
                              [HttpDo httpReq (Inr httpRsp), BodyReadAll, JsonUnmarshal buf,
                               BodyClose])))))))))"

record GetIamPolicyDiskRequest =
  gip_OptionsRequestedPolicyVersion :: "32 word option"
  gip_Project :: "string"
  gip_Resource :: "string"
  gip_Zone :: "string"

definition GetIamPolicy_baseUrl :: "URL \<Rightarrow> GetIamPolicyDiskRequest option \<Rightarrow> URL" where
  "GetIamPolicy_baseUrl baseUrl req =
     (let baseUrl = baseUrl\<lparr>Path := Path baseUrl
            @ ''/compute/v1/projects/''
            @ Sprintf_v_string (getField gip_Project [] req)
            @ ''/zones/''
            @ Sprintf_v_string (getField gip_Zone [] req)
            @ ''/disks/''
            @ Sprintf_v_string (getField gip_Resource [] req)
            @ ''/getIamPolicy''\<rparr>;
          params = [];
          params = (if isSet gip_OptionsRequestedPolicyVersion req
                    then url_Values_Add ''optionsRequestedPolicyVersion''
                           (Sprintf_v_int32 (getOptField gip_OptionsRequestedPolicyVersion 0 req)) params
                    else params)
      in baseUrl\<lparr>RawQuery := url_Values_Encode params\<rparr>)"

definition GetIamPolicy ::
  "(GetIamPolicyDiskRequest option, 'r) rest_env \<Rightarrow> disksRESTClient \<Rightarrow> go_context \<Rightarrow>
   GetIamPolicyDiskRequest option \<Rightarrow> 'r call_result" where
  "GetIamPolicy env c ctx req =
     (case protojson_Marshal env req of
        Inl err \<Rightarrow> (None, Some err, [])
      | Inr jsonReq \<Rightarrow>
     (case url_Parse env (endpoint c) of
        Inl perr \<Rightarrow> (None, Some NilDereference, [])
      | Inr baseUrl \<Rightarrow>
     (case http_NewRequest env ''GET'' (url_String env (GetIamPolicy_baseUrl baseUrl req)) jsonReq of
        Inl err \<Rightarrow> (None, Some err, [])
      | Inr httpReq0 \<Rightarrow>
     (let httpReq = httpReq0\<lparr>RequestCtx := Some ctx\<rparr>;
          httpReq = httpReq\<lparr>Header := Header httpReq ++ xGoogMetadata c\<rparr>;
          httpReq = httpReq\<lparr>Header := (Header httpReq)(''Content-Type'' \<mapsto> [''application/json''])\<rparr>
      in (case httpClient c of
            None \<Rightarrow> (None, Some NilDereference, [])
          | Some client \<Rightarrow>
         (case client httpReq of
            Inl err \<Rightarrow> (None, Some err, [HttpDo httpReq (Inl err)])
          | Inr httpRsp \<Rightarrow>
              if StatusCode httpRsp \<noteq> http_StatusOK
              then (None, Some (FmtErrorf (Status httpRsp)), [HttpDo httpReq (Inr httpRsp), BodyClose])
              else (case Body httpRsp of
                      Inl err \<Rightarrow>
                        (None, Some err, [HttpDo httpReq (Inr httpRsp), BodyReadAll, BodyClose])
                    | Inr buf \<Rightarrow>
                        (case protojson_Unmarshal env buf of
                           (rsp, uerr) \<Rightarrow>
                             (Some rsp, uerr,
                              [HttpDo httpReq (Inr httpRsp), BodyReadAll, JsonUnmarshal buf,
                               BodyClose])))))))))"

record 'b InsertDiskRequest =
  ins_DiskResource :: "'b option"
  ins_Project :: "string"
  ins_RequestId :: "string option"
  ins_SourceImage :: "string option"
  ins_Zone :: "string"

definition Insert_baseUrl :: "URL \<Rightarrow> 'b InsertDiskRequest option \<Rightarrow> URL" where
  "Insert_baseUrl baseUrl req =
     (let baseUrl = baseUrl\<lparr>Path := Path baseUrl
            @ ''/compute/v1/projects/''
            @ Sprintf_v_string (getField ins_Project [] req)
            @ ''/zones/''
            @ Sprintf_v_string (getField ins_Zone [] req)
            @ ''/disks''\<rparr>;
          params = [];
          params = (if isSet ins_RequestId req
                    then url_Values_Add ''requestId''
                           (Sprintf_v_string (getOptField ins_RequestId [] req)) params
                    else params);
          params = (if isSet ins_SourceImage req
                    then url_Values_Add ''sourceImage''
                           (Sprintf_v_string (getOptField ins_SourceImage [] req)) params
                    else params)
      in baseUrl\<lparr>RawQuery := url_Values_Encode params\<rparr>)"

definition Insert ::
  "('b option, 'r) rest_env \<Rightarrow> disksRESTClient \<Rightarrow> go_context \<Rightarrow>
   'b InsertDiskRequest option \<Rightarrow> 'r call_result" where
  "Insert env c ctx req =
     (case protojson_Marshal env (getPointer ins_DiskResource req) of
        Inl err \<Rightarrow> (None, Some err, [])
      | Inr jsonReq \<Rightarrow>
     (case url_Parse env (endpoint c) of
        Inl perr \<Rightarrow> (None, Some NilDereference, [])
      | Inr baseUrl \<Rightarrow>
     (case http_NewRequest env ''POST'' (url_String env (Insert_baseUrl baseUrl req)) jsonReq of
        Inl err \<Rightarrow> (None, Some err, [])
      | Inr httpReq0 \<Rightarrow>
     (let httpReq = httpReq0\<lparr>RequestCtx := Some ctx\<rparr>;
          httpReq = httpReq\<lparr>Header := Header httpReq ++ xGoogMetadata c\<rparr>;
          httpReq = httpReq\<lparr>Header := (Header httpReq)(''Content-Type'' \<mapsto> [''application/json''])\<rparr>
      in (case httpClient c of
            None \<Rightarrow> (None, Some NilDereference, [])
          | Some client \<Rightarrow>
         (case client httpReq of
            Inl err \<Rightarrow> (None, Some err, [HttpDo httpReq (Inl err)])
          | Inr httpRsp \<Rightarrow>
              if StatusCode httpRsp \<noteq> http_StatusOK
              then (None, Some (FmtErrorf (Status httpRsp)), [HttpDo httpReq (Inr httpRsp), BodyClose])
              else (case Body httpRsp of
                      Inl err \<Rightarrow>
                        (None, Some err, [HttpDo httpReq (Inr httpRsp), BodyReadAll, BodyClose])
                    | Inr buf \<Rightarrow>
                        (case protojson_Unmarshal env buf of
                           (rsp, uerr) \<Rightarrow>
                             (Some rsp, uerr,
                              [HttpDo httpReq (Inr httpRsp), BodyReadAll, JsonUnmarshal buf,
                               BodyClose])))))))))"

record ListDisksRequest =
  ld_Filter :: "string option"
  ld_MaxResults :: "32 word option"
  ld_OrderBy :: "string option"
  ld_PageToken :: "string option"
  ld_Project :: "string"
  ld_ReturnPartialSuccess :: "bool option"
  ld_Zone :: "string"

definition List_baseUrl :: "URL \<Rightarrow> ListDisksRequest option \<Rightarrow> URL" where
  "List_baseUrl baseUrl req =
     (let baseUrl = baseUrl\<lparr>Path := Path baseUrl
            @ ''/compute/v1/projects/''
            @ Sprintf_v_string (getField ld_Project [] req)
            @ ''/zones/''
            @ Sprintf_v_string (getField ld_Zone [] req)
            @ ''/disks''\<rparr>;
          params = [];
          params = (if isSet ld_Filter req
                    then url_Values_Add ''filter''
                           (Sprintf_v_string (getOptField ld_Filter [] req)) params
                    else params);
          params = (if isSet ld_MaxResults req
                    then url_Values_Add ''maxResults''
                           (Sprintf_v_uint32 (getOptField ld_MaxResults 0 req)) params
                    else params);
          params = (if isSet ld_OrderBy req
                    then url_Values_Add ''orderBy''
                           (Sprintf_v_string (getOptField ld_OrderBy [] req)) params
                    else params);
          params = (if isSet ld_PageToken req
                    then url_Values_Add ''pageToken''
                           (Sprintf_v_string (getOptField ld_PageToken [] req)) params
                    else params);
          params = (if isSet ld_ReturnPartialSuccess req
                    then url_Values_Add ''returnPartialSuccess''
                           (Sprintf_v_bool (getOptField ld_ReturnPartialSuccess False req)) params
                    else params)
      in baseUrl\<lparr>RawQuery := url_Values_Encode params\<rparr>)"

definition List ::
  "(ListDisksRequest option, 'r) rest_env \<Rightarrow> disksRESTClient \<Rightarrow> go_context \<Rightarrow>
   ListDisksRequest option \<Rightarrow> 'r call_result" where
  "List env c ctx req =
     (case protojson_Marshal env req of
        Inl err \<Rightarrow> (None, Some err, [])
      | Inr jsonReq \<Rightarrow>
     (case url_Parse env (endpoint c) of
        Inl perr \<Rightarrow> (None, Some NilDereference, [])
      | Inr baseUrl \<Rightarrow>
     (case http_NewRequest env ''GET'' (url_String env (List_baseUrl baseUrl req)) jsonReq of
        Inl err \<Rightarrow> (None, Some err, [])
      | Inr httpReq0 \<Rightarrow>
     (let httpReq = httpReq0\<lparr>RequestCtx := Some ctx\<rparr>;
          httpReq = httpReq\<lparr>Header := Header httpReq ++ xGoogMetadata c\<rparr>;
          httpReq = httpReq\<lparr>Header := (Header httpReq)(''Content-Type'' \<mapsto> [''application/json''])\<rparr>
      in (case httpClient c of
            None \<Rightarrow> (None, Some NilDereference, [])
          | Some client \<Rightarrow>
         (case client httpReq of
            Inl err \<Rightarrow> (None, Some err, [HttpDo httpReq (Inl err)])
          | Inr httpRsp \<Rightarrow>
              if StatusCode httpRsp \<noteq> http_StatusOK
              then (None, Some (FmtErrorf (Status httpRsp)), [HttpDo httpReq (Inr httpRsp), BodyClose])
              else (case Body httpRsp of
                      Inl err \<Rightarrow>
                        (None, Some err, [HttpDo httpReq (Inr httpRsp), BodyReadAll, BodyClose])
                    | Inr buf \<Rightarrow>
                        (case protojson_Unmarshal env buf of
                           (rsp, uerr) \<Rightarrow>
                             (Some rsp, uerr,
                              [HttpDo httpReq (Inr httpRsp), BodyReadAll, JsonUnmarshal buf,
                               BodyClose])))))))))"

record 'b RemoveResourcePoliciesDiskRequest =
  rrp_Disk :: "string"
  rrp_DisksRemoveResourcePoliciesRequestResource :: "'b option"
  rrp_Project :: "string"
  rrp_RequestId :: "string option"
  rrp_Zone :: "string"

definition RemoveResourcePolicies_baseUrl :: "URL \<Rightarrow> 'b RemoveResourcePoliciesDiskRequest option \<Rightarrow> URL" where
  "RemoveResourcePolicies_baseUrl baseUrl req =
     (let baseUrl = baseUrl\<lparr>Path := Path baseUrl
            @ ''/compute/v1/projects/''
            @ Sprintf_v_string (getField rrp_Project [] req)
            @ ''/zones/''
            @ Sprintf_v_string (getField rrp_Zone [] req)
            @ ''/disks/''
            @ Sprintf_v_string (getField rrp_Disk [] req)
            @ ''/removeResourcePolicies''\<rparr>;
          params = [];
          params = (if isSet rrp_RequestId req
                    then url_Values_Add ''requestId''
                           (Sprintf_v_string (getOptField rrp_RequestId [] req)) params
                    else params)
      in baseUrl\<lparr>RawQuery := url_Values_Encode params\<rparr>)"

definition RemoveResourcePolicies ::
  "('b option, 'r) rest_env \<Rightarrow> disksRESTClient \<Rightarrow> go_context \<Rightarrow>
   'b RemoveResourcePoliciesDiskRequest option \<Rightarrow> 'r call_result" where
  "RemoveResourcePolicies env c ctx req =
     (case protojson_Marshal env (getPointer rrp_DisksRemoveResourcePoliciesRequestResource req) of
        Inl err \<Rightarrow> (None, Some err, [])
      | Inr jsonReq \<Rightarrow>
     (case url_Parse env (endpoint c) of
        Inl perr \<Rightarrow> (None, Some NilDereference, [])
      | Inr baseUrl \<Rightarrow>
     (case http_NewRequest env ''POST'' (url_String env (RemoveResourcePolicies_baseUrl baseUrl req)) jsonReq of
        Inl err \<Rightarrow> (None, Some err, [])
      | Inr httpReq0 \<Rightarrow>
     (let httpReq = httpReq0\<lparr>RequestCtx := Some ctx\<rparr>;
          httpReq = httpReq\<lparr>Header := Header httpReq ++ xGoogMetadata c\<rparr>;
          httpReq = httpReq\<lparr>Header := (Header httpReq)(''Content-Type'' \<mapsto> [''application/json''])\<rparr>
      in (case httpClient c of
            None \<Rightarrow> (None, Some NilDereference, [])
          | Some client \<Rightarrow>
         (case client httpReq of
            Inl err \<Rightarrow> (None, Some err, [HttpDo httpReq (Inl err)])
          | Inr httpRsp \<Rightarrow>
              if StatusCode httpRsp \<noteq> http_StatusOK
              then (None, Some (FmtErrorf (Status httpRsp)), [HttpDo httpReq (Inr httpRsp), BodyClose])
              else (case Body httpRsp of
                      Inl err \<Rightarrow>
                        (None, Some err, [HttpDo httpReq (Inr httpRsp), BodyReadAll, BodyClose])
                    | Inr buf \<Rightarrow>
                        (case protojson_Unmarshal env buf of
                           (rsp, uerr) \<Rightarrow>
                             (Some rsp, uerr,
                              [HttpDo httpReq (Inr httpRsp), BodyReadAll, JsonUnmarshal buf,
                               BodyClose])))))))))"

record 'b ResizeDiskRequest =
  rs_Disk :: "string"
  rs_DisksResizeRequestResource :: "'b option"
  rs_Project :: "string"
  rs_RequestId :: "string option"
  rs_Zone :: "string"

definition Resize_baseUrl :: "URL \<Rightarrow> 'b ResizeDiskRequest option \<Rightarrow> URL" where
  "Resize_baseUrl baseUrl req =
     (let baseUrl = baseUrl\<lparr>Path := Path baseUrl
            @ ''/compute/v1/projects/''
            @ Sprintf_v_string (getField rs_Project [] req)
            @ ''/zones/''
            @ Sprintf_v_string (getField rs_Zone [] req)
            @ ''/disks/''
            @ Sprintf_v_string (getField rs_Disk [] req)
            @ ''/resize''\<rparr>;
          params = [];
          params = (if isSet rs_RequestId req
                    then url_Values_Add ''requestId''
                           (Sprintf_v_string (getOptField rs_RequestId [] req)) params
                    else params)
      in baseUrl\<lparr>RawQuery := url_Values_Encode params\<rparr>)"

definition Resize ::
  "('b option, 'r) rest_env \<Rightarrow> disksRESTClient \<Rightarrow> go_context \<Rightarrow>
   'b ResizeDiskRequest option \<Rightarrow> 'r call_result" where
  "Resize env c ctx req =
     (case protojson_Marshal env (getPointer rs_DisksResizeRequestResource req) of
        Inl err \<Rightarrow> (None, Some err, [])
      | Inr jsonReq \<Rightarrow>
     (case url_Parse env (endpoint c) of
        Inl perr \<Rightarrow> (None, Some NilDereference, [])
      | Inr baseUrl \<Rightarrow>
     (case http_NewRequest env ''POST'' (url_String env (Resize_baseUrl baseUrl req)) jsonReq of
        Inl err \<Rightarrow> (None, Some err, [])
      | Inr httpReq0 \<Rightarrow>
     (let httpReq = httpReq0\<lparr>RequestCtx := Some ctx\<rparr>;
          httpReq = httpReq\<lparr>Header := Header httpReq ++ xGoogMetadata c\<rparr>;
          httpReq = httpReq\<lparr>Header := (Header httpReq)(''Content-Type'' \<mapsto> [''application/json''])\<rparr>
      in (case httpClient c of
            None \<Rightarrow> (None, Some NilDereference, [])
          | Some client \<Rightarrow>
         (case client httpReq of
            Inl err \<Rightarrow> (None, Some err, [HttpDo httpReq (Inl err)])
          | Inr httpRsp \<Rightarrow>
              if StatusCode httpRsp \<noteq> http_StatusOK
              then (None, Some (FmtErrorf (Status httpRsp)), [HttpDo httpReq (Inr httpRsp), BodyClose])
              else (case Body httpRsp of
                      Inl err \<Rightarrow>
                        (None, Some err, [HttpDo httpReq (Inr httpRsp), BodyReadAll, BodyClose])
                    | Inr buf \<Rightarrow>
                        (case protojson_Unmarshal env buf of
                           (rsp, uerr) \<Rightarrow>
                             (Some rsp, uerr,
                              [HttpDo httpReq (Inr httpRsp), BodyReadAll, JsonUnmarshal buf,
                               BodyClose])))))))))"

record 'b SetIamPolicyDiskRequest =
  sip_Project :: "string"
  sip_Resource :: "string"
  sip_Zone :: "string"
  sip_ZoneSetPolicyRequestResource :: "'b option"

definition SetIamPolicy_baseUrl :: "URL \<Rightarrow> 'b SetIamPolicyDiskRequest option \<Rightarrow> URL" where
  "SetIamPolicy_baseUrl baseUrl req =
     baseUrl\<lparr>Path := Path baseUrl
            @ ''/compute/v1/projects/''
            @ Sprintf_v_string (getField sip_Project [] req)
            @ ''/zones/''
            @ Sprintf_v_string (getField sip_Zone [] req)
            @ ''/disks/''
            @ Sprintf_v_string (getField sip_Resource [] req)
            @ ''/setIamPolicy''\<rparr>"

definition SetIamPolicy ::
  "('b option, 'r) rest_env \<Rightarrow> disksRESTClient \<Rightarrow> go_context \<Rightarrow>
   'b SetIamPolicyDiskRequest option \<Rightarrow> 'r call_result" where
  "SetIamPolicy env c ctx req =
     (case protojson_Marshal env (getPointer sip_ZoneSetPolicyRequestResource req) of
        Inl err \<Rightarrow> (None, Some err, [])
      | Inr jsonReq \<Rightarrow>
     (case url_Parse env (endpoint c) of
        Inl perr \<Rightarrow> (None, Some NilDereference, [])
      | Inr baseUrl \<Rightarrow>
     (case http_NewRequest env ''POST'' (url_String env (SetIamPolicy_baseUrl baseUrl req)) jsonReq of
        Inl err \<Rightarrow> (None, Some err, [])
      | Inr httpReq0 \<Rightarrow>
     (let httpReq = httpReq0\<lparr>RequestCtx := Some ctx\<rparr>;
          httpReq = httpReq\<lparr>Header := Header httpReq ++ xGoogMetadata c\<rparr>;
          httpReq = httpReq\<lparr>Header := (Header httpReq)(''Content-Type'' \<mapsto> [''application/json''])\<rparr>
      in (case httpClient c of
            None \<Rightarrow> (None, Some NilDereference, [])
          | Some client \<Rightarrow>
         (case client httpReq of
            Inl err \<Rightarrow> (None, Some err, [HttpDo httpReq (Inl err)])
          | Inr httpRsp \<Rightarrow>
              if StatusCode httpRsp \<noteq> http_StatusOK
              then (None, Some (FmtErrorf (Status httpRsp)), [HttpDo httpReq (Inr httpRsp), BodyClose])
              else (case Body httpRsp of
                      Inl err \<Rightarrow>
                        (None, Some err, [HttpDo httpReq (Inr httpRsp), BodyReadAll, BodyClose])
                    | Inr buf \<Rightarrow>
                        (case protojson_Unmarshal env buf of
                           (rsp, uerr) \<Rightarrow>
                             (Some rsp, uerr,
                              [HttpDo httpReq (Inr httpRsp), BodyReadAll, JsonUnmarshal buf,
                               BodyClose])))))))))"

record 'b SetLabelsDiskRequest =
  sl_Project :: "string"
  sl_RequestId :: "string option"
  sl_Resource :: "string"
  sl_Zone :: "string"
  sl_ZoneSetLabelsRequestResource :: "'b option"

definition SetLabels_baseUrl :: "URL \<Rightarrow> 'b SetLabelsDiskRequest option \<Rightarrow> URL" where
  "SetLabels_baseUrl baseUrl req =
     (let baseUrl = baseUrl\<lparr>Path := Path baseUrl
            @ ''/compute/v1/projects/''
            @ Sprintf_v_string (getField sl_Project [] req)
            @ ''/zones/''
            @ Sprintf_v_string (getField sl_Zone [] req)
            @ ''/disks/''
            @ Sprintf_v_string (getField sl_Resource [] req)
            @ ''/setLabels''\<rparr>;
          params = [];
          params = (if isSet sl_RequestId req
                    then url_Values_Add ''requestId''
                           (Sprintf_v_string (getOptField sl_RequestId [] req)) params
                    else params)
      in baseUrl\<lparr>RawQuery := url_Values_Encode params\<rparr>)"

definition SetLabels ::
  "('b option, 'r) rest_env \<Rightarrow> disksRESTClient \<Rightarrow> go_context \<Rightarrow>
   'b SetLabelsDiskRequest option \<Rightarrow> 'r call_result" where
  "SetLabels env c ctx req =
     (case protojson_Marshal env (getPointer sl_ZoneSetLabelsRequestResource req) of
        Inl err \<Rightarrow> (None, Some err, [])
      | Inr jsonReq \<Rightarrow>
     (case url_Parse env (endpoint c) of
        Inl perr \<Rightarrow> (None, Some NilDereference, [])
      | Inr baseUrl \<Rightarrow>
     (case http_NewRequest env ''POST'' (url_String env (SetLabels_baseUrl baseUrl req)) jsonReq of
        Inl err \<Rightarrow> (None, Some err, [])
      | Inr httpReq0 \<Rightarrow>
     (let httpReq = httpReq0\<lparr>RequestCtx := Some ctx\<rparr>;
          httpReq = httpReq\<lparr>Header := Header httpReq ++ xGoogMetadata c\<rparr>;
          httpReq = httpReq\<lparr>Header := (Header httpReq)(''Content-Type'' \<mapsto> [''application/json''])\<rparr>
      in (case httpClient c of
            None \<Rightarrow> (None, Some NilDereference, [])
          | Some client \<Rightarrow>
         (case client httpReq of
            Inl err \<Rightarrow> (None, Some err, [HttpDo httpReq (Inl err)])
          | Inr httpRsp \<Rightarrow>
              if StatusCode httpRsp \<noteq> http_StatusOK
              then (None, Some (FmtErrorf (Status httpRsp)), [HttpDo httpReq (Inr httpRsp), BodyClose])
              else (case Body httpRsp of
                      Inl err \<Rightarrow>
                        (None, Some err, [HttpDo httpReq (Inr httpRsp), BodyReadAll, BodyClose])
                    | Inr buf \<Rightarrow>
                        (case protojson_Unmarshal env buf of
                           (rsp, uerr) \<Rightarrow>
                             (Some rsp, uerr,
                              [HttpDo httpReq (Inr httpRsp), BodyReadAll, JsonUnmarshal buf,
                               BodyClose])))))))))"

record 'b TestIamPermissionsDiskRequest =
  tip_Project :: "string"
  tip_Resource :: "string"
  tip_TestPermissionsRequestResource :: "'b option"
  tip_Zone :: "string"

definition TestIamPermissions_baseUrl :: "URL \<Rightarrow> 'b TestIamPermissionsDiskRequest option \<Rightarrow> URL" where
  "TestIamPermissions_baseUrl baseUrl req =
     baseUrl\<lparr>Path := Path baseUrl
            @ ''/compute/v1/projects/''
            @ Sprintf_v_string (getField tip_Project [] req)
            @ ''/zones/''
            @ Sprintf_v_string (getField tip_Zone [] req)
            @ ''/disks/''
            @ Sprintf_v_string (getField tip_Resource [] req)
            @ ''/testIamPermissions''\<rparr>"

definition TestIamPermissions ::
  "('b option, 'r) rest_env \<Rightarrow> disksRESTClient \<Rightarrow> go_context \<Rightarrow>
   'b TestIamPermissionsDiskRequest option \<Rightarrow> 'r call_result" where
  "TestIamPermissions env c ctx req =
     (case protojson_Marshal env (getPointer tip_TestPermissionsRequestResource req) of
        Inl err \<Rightarrow> (None, Some err, [])
      | Inr jsonReq \<Rightarrow>
     (case url_Parse env (endpoint c) of
        Inl perr \<Rightarrow> (None, Some NilDereference, [])
      | Inr baseUrl \<Rightarrow>
     (case http_NewRequest env ''POST'' (url_String env (TestIamPermissions_baseUrl baseUrl req)) jsonReq of
        Inl err \<Rightarrow> (None, Some err, [])
      | Inr httpReq0 \<Rightarrow>
     (let httpReq = httpReq0\<lparr>RequestCtx := Some ctx\<rparr>;
          httpReq = httpReq\<lparr>Header := Header httpReq ++ xGoogMetadata c\<rparr>;
          httpReq = httpReq\<lparr>Header := (Header httpReq)(''Content-Type'' \<mapsto> [''application/json''])\<rparr>
      in (case httpClient c of
            None \<Rightarrow> (None, Some NilDereference, [])
          | Some client \<Rightarrow>
         (case client httpReq of
            Inl err \<Rightarrow> (None, Some err, [HttpDo httpReq (Inl err)])
          | Inr httpRsp \<Rightarrow>
              if StatusCode httpRsp \<noteq> http_StatusOK
              then (None, Some (FmtErrorf (Status httpRsp)), [HttpDo httpReq (Inr httpRsp), BodyClose])
              else (case Body httpRsp of
                      Inl err \<Rightarrow>
                        (None, Some err, [HttpDo httpReq (Inr httpRsp), BodyReadAll, BodyClose])
                    | Inr buf \<Rightarrow>
                        (case protojson_Unmarshal env buf of
                           (rsp, uerr) \<Rightarrow>
                             (Some rsp, uerr,
                              [HttpDo httpReq (Inr httpRsp), BodyReadAll, JsonUnmarshal buf,
                               BodyClose])))))))))"

subsection \<open>The request a method sends\<close>

text \<open>
  What every method does to the request that \<open>http.NewRequest\<close> made before it
  hands it to \<open>Do\<close>: it attaches the context, copies the \<open>x-goog\<close> metadata into
  the header and sets the content type.
\<close>

definition sentRequest :: "Request \<Rightarrow> go_context \<Rightarrow> disksRESTClient \<Rightarrow> Request" where
  "sentRequest httpReq0 ctx c =
     httpReq0\<lparr>RequestCtx := Some ctx,
              Header := (Header httpReq0 ++ xGoogMetadata c)
                          (''Content-Type'' \<mapsto> [''application/json''])\<rparr>"

subsection \<open>The query string in words\<close>

text \<open>
  A parameter contributes \<open>key=value\<close>, with the value escaped, exactly when its
  field is set; the contributions are joined with \<open>&\<close>.
\<close>

definition queryParam :: "string \<Rightarrow> string option \<Rightarrow> string list" where
  "queryParam key v = (case v of None \<Rightarrow> [] | Some x \<Rightarrow> [key @ ''='' @ url_QueryEscape x])"

fun joinAmp :: "string list \<Rightarrow> string" where
  "joinAmp [] = []"
| "joinAmp [p] = p"
| "joinAmp (p # q # ps) = p @ ''&'' @ joinAmp (q # ps)"

section \<open>Auxiliary facts\<close>

lemma ToLower_server_timing: "strings_ToLower ''server-timing'' = ''server-timing''"
  by (simp add: strings_ToLower_def lowerByte_def)

lemma foldl_digits_ge: "n \<le> foldl (\<lambda>n c. n * 10 + digitVal c) n s"
proof (induction s arbitrary: n)
  case Nil
  show ?case by simp
next
  case (Cons c s)
  have "n \<le> n * 10 + digitVal c" by simp
  also have "\<dots> \<le> foldl (\<lambda>n c. n * 10 + digitVal c) (n * 10 + digitVal c) s" by (rule Cons.IH)
  finally show ?case by simp
qed

lemma parseUint_loop_digits:
  "list_all isDigit s \<Longrightarrow> foldl (\<lambda>n c. n * 10 + digitVal c) n s < 2 ^ 64 \<Longrightarrow>
   parseUint_loop n s = Inr (foldl (\<lambda>n c. n * 10 + digitVal c) n s)"
proof (induction s arbitrary: n)
  case Nil
  show ?case by simp
next
  case (Cons c s)
  let ?n1 = "n * 10 + digitVal c"
  have "?n1 \<le> foldl (\<lambda>n c. n * 10 + digitVal c) ?n1 s" by (rule foldl_digits_ge)
  with Cons.prems(2) have small: "?n1 < 2 ^ 64" by simp
  then have n10: "n * 10 < 2 ^ 64" by simp
  then have cut: "\<not> n \<ge> maxUint64 div 10 + 1" by (simp add: maxUint64_def)
  have m1: "(n * 10) mod 2 ^ 64 = n * 10" using n10 by simp
  have m2: "?n1 mod 2 ^ 64 = ?n1" using small by simp
  have le: "\<not> ?n1 > maxUint64" using small by (simp add: maxUint64_def)
  have "parseUint_loop n (c # s) = parseUint_loop ?n1 s"
    using Cons.prems(1) cut m1 m2 le by (simp add: Let_def)
  also have "\<dots> = Inr (foldl (\<lambda>n c. n * 10 + digitVal c) ?n1 s)"
    using Cons.prems by (intro Cons.IH) simp_all
  finally show ?case by simp
qed

lemma atoi_fast_loop_digits:
  "list_all isDigit s \<Longrightarrow>
   atoi_fast_loop (int n) s = Some (int (foldl (\<lambda>n c. n * 10 + digitVal c) n s))"
proof (induction s arbitrary: n)
  case Nil
  show ?case by simp
next
  case (Cons c s)
  from Cons.prems have d: "isDigit c" and ds: "list_all isDigit s" by simp_all
  show ?case using Cons.IH [OF ds, of "n * 10 + digitVal c"] d by simp
qed

lemma isDigit_not_sign: "isDigit c \<Longrightarrow> c \<noteq> CHR ''-'' \<and> c \<noteq> CHR ''+''"
  by (auto simp: isDigit_def)

lemma Atoi_digits:
  assumes "s \<noteq> []" and "list_all isDigit s" and "decimal s < 2 ^ 63"
  shows "strconv_Atoi s = (int (decimal s), None)"
proof -
  from assms(1) obtain c cs where s: "s = c # cs" by (cases s) auto
  with assms(2) have "isDigit c" by simp
  then have sign: "hd s \<noteq> CHR ''-''" "hd s \<noteq> CHR ''+''" using s isDigit_not_sign by auto
  have fast: "atoi_fast_loop 0 s = Some (int (decimal s))"
    using atoi_fast_loop_digits [OF assms(2), of 0] by (simp add: decimal_def)
  have "foldl (\<lambda>n c. n * 10 + digitVal c) 0 s < 2 ^ 64"
    using assms(3) by (simp add: decimal_def)
  then have slow: "parseUint_loop 0 s = Inr (decimal s)"
    using parseUint_loop_digits [OF assms(2), of 0] by (simp add: decimal_def)
  have pu: "strconv_ParseUint s = (decimal s, None)"
    using assms(1) slow by (simp add: strconv_ParseUint_def)
  have pi: "strconv_ParseInt s = (int (decimal s), None)"
    using assms(1,3) sign pu by (simp add: strconv_ParseInt_def intSize_def)
  show ?thesis
    using sign fast pi by (simp add: strconv_Atoi_def)
qed

lemma map_of_map_insert:
  "map_of (map_insert k v m) =
     (case map_of m k of None \<Rightarrow> (map_of m)(k \<mapsto> v) | Some old \<Rightarrow> map_of m)"
  by (auto simp: map_insert_def map_add_def fun_eq_iff split: option.splits)

lemma map_of_map_upsert: "map_of (map_upsert k v m) = (map_of m)(k \<mapsto> v)"
  by (simp add: map_upsert_def update_conv')

lemma copy_orig_Inr: "copy_orig kvs m = Inr m' \<Longrightarrow> map_of m' = map_of (m @ kvs)"
proof (induction kvs arbitrary: m)
  case Nil
  then show ?case by simp
next
  case (Cons kv kvs)
  obtain k v where kv: "kv = (k, v)" by (cases kv)
  from Cons.prems kv have "copy_orig kvs (map_insert k v m) = Inr m'"
    by (simp split: if_splits)
  then have "map_of m' = map_of (map_insert k v m @ kvs)" by (rule Cons.IH)
  also have "\<dots> = map_of (m @ kv # kvs)"
    by (auto simp: kv map_of_map_insert map_add_def fun_eq_iff split: option.splits)
  finally show ?case .
qed

lemma copy_orig_valid:
  "list_all (\<lambda>(k, v). checkKeyName k \<and> checkValue v) kvs \<Longrightarrow> \<exists>m'. copy_orig kvs m = Inr m'"
  by (induction kvs arbitrary: m) auto

lemma tag_New_success:
  assumes "tag_New ctx mus = (ctx', None)"
  shows "\<exists>m m'. copy_orig (ctxTags ctx) [] = Inr m \<and> apply_mutators mus m = Inr m' \<and>
           ctx' = tag_NewContext ctx (Some m')"
  using assms by (auto simp: tag_New_def ctxTags_def split: sum.splits)


lemma bitLength_le: "n < 2 ^ k \<Longrightarrow> bitLength n \<le> k"
proof (induction k arbitrary: n)
  case 0
  then show ?case by (simp add: bitLength.simps)
next
  case (Suc k)
  show ?case
  proof (cases "n = 0")
    case True
    then show ?thesis by (simp add: bitLength.simps)
  next
    case False
    from Suc.prems have "n div 2 < 2 ^ k" by simp
    then have "bitLength (n div 2) \<le> k" by (rule Suc.IH)
    with False show ?thesis by (subst bitLength.simps) simp
  qed
qed

lemma float64_exact_below: "\<bar>v\<bar> < 2 ^ 53 \<Longrightarrow> float64_of_int64 v = v"
proof -
  assume "\<bar>v\<bar> < 2 ^ 53"
  then have "nat \<bar>v\<bar> < 2 ^ 53" by simp
  then have "bitLength (nat \<bar>v\<bar>) - 53 = 0" using bitLength_le by simp
  then have "float64_of_int64 v = sgn v * \<bar>v\<bar>"
    by (simp add: float64_of_int64_def Let_def)
  then show ?thesis by (simp add: mult_sgn_abs)
qed

lemma bitLength_2_53: "bitLength 9007199254740992 = 54"
  by (simp add: bitLength.simps)

lemma float64_exact: "0 \<le> v \<Longrightarrow> v \<le> 2 ^ 53 \<Longrightarrow> float64_of_int64 v = v"
proof -
  assume "0 \<le> v" and "v \<le> 2 ^ 53"
  then consider "\<bar>v\<bar> < 2 ^ 53" | "v = 9007199254740992" by fastforce
  then show ?thesis
  proof cases
    case 1
    then show ?thesis by (rule float64_exact_below)
  next
    case 2
    then show ?thesis by (simp add: float64_of_int64_def bitLength_2_53)
  qed
qed

lemma float64_1 [simp]: "float64_of_int64 1 = 1"
  by (simp add: float64_exact_below)

lemma float64_42 [simp]: "float64_of_int64 42 = 42"
  by (simp add: float64_exact_below)

lemma measures_differ: "GFEHeaderMissingCount \<noteq> GFELatency"
proof
  assume "GFEHeaderMissingCount = GFELatency"
  then have "m_name GFEHeaderMissingCount = m_name GFELatency" by simp
  then show False
    by (simp add: GFEHeaderMissingCount_def GFELatency_def stats_Int64_def)
qed

lemma tag_New_Insert:
  assumes "tag_New ctx [tag_Insert k v] = (ctx', None)"
  shows "\<exists>m'. ctx' = tag_NewContext ctx (Some m') \<and>
           map_of m' = (case map_of (ctxTags ctx) k of
                          None \<Rightarrow> (map_of (ctxTags ctx))(k \<mapsto> v)
                        | Some old \<Rightarrow> map_of (ctxTags ctx))"
proof -
  from tag_New_success [OF assms] obtain m m' where
    c: "copy_orig (ctxTags ctx) [] = Inr m" and
    a: "apply_mutators [tag_Insert k v] m = Inr m'" and
    r: "ctx' = tag_NewContext ctx (Some m')" by blast
  from copy_orig_Inr [OF c] have mm: "map_of m = map_of (ctxTags ctx)" by simp
  from a have "m' = map_insert k v m" by (simp split: if_splits)
  then have "map_of m' = (case map_of (ctxTags ctx) k of
                          None \<Rightarrow> (map_of (ctxTags ctx))(k \<mapsto> v)
                        | Some old \<Rightarrow> map_of (ctxTags ctx))"
    by (simp add: map_of_map_insert mm split: option.splits)
  with r show ?thesis by blast
qed

lemma tag_New_Insert_valid:
  assumes "validTags ctx" and "checkValue v"
  shows "\<exists>ctx'. tag_New ctx [tag_Insert k v] = (ctx', None)"
proof -
  from assms(1) obtain m where "copy_orig (ctxTags ctx) [] = Inr m"
    using copy_orig_valid [of "ctxTags ctx" "[]"] by (auto simp: validTags_def)
  then show ?thesis using assms(2) by (simp add: tag_New_def ctxTags_def)
qed

lemma ctxTags_NewContext_FromContext [simp]:
  "ctxTags (tag_NewContext ctx (tag_FromContext ctx)) = ctxTags ctx"
  by (simp add: ctxTags_def tag_NewContext_def tag_FromContext_def)

lemma NewContext_twice [simp]:
  "tag_NewContext (tag_NewContext ctx m) m' = tag_NewContext ctx m'"
  by (simp add: tag_NewContext_def)

lemma capture_present:
  assumes "md_Get md ''server-timing'' = v # vs"
  shows "captureGFELatencyStats ctx md keyMethod s =
     (let (gfeLatency, err) = strconv_Atoi (strings_TrimPrefix v ''gfet4t7; dur='')
      in if \<not> strings_HasPrefix v ''gfet4t7; dur='' \<or> err \<noteq> None then (err, s)
         else (case tag_New (tag_NewContext ctx (tag_FromContext ctx)) [tag_Insert tagKeyMethod keyMethod] of
                 (ctx2, Some err2) \<Rightarrow> (Some err2, s)
               | (ctx2, None) \<Rightarrow> (None, recordStat ctx2 GFELatency gfeLatency s)))"
  using assms by (simp add: captureGFELatencyStats_def Let_def split: prod.splits)

lemma capture_recorded:
  assumes "md_Get md ''server-timing'' = v # vs"
      and "strings_HasPrefix v ''gfet4t7; dur=''"
      and "captureGFELatencyStats ctx md keyMethod s = (None, s')"
  shows "\<exists>n m'. s' = recordStat (tag_NewContext ctx (Some m')) GFELatency n s \<and>
           strconv_Atoi (strings_TrimPrefix v ''gfet4t7; dur='') = (n, None) \<and>
           map_of m' = (case map_of (ctxTags ctx) tagKeyMethod of
                          None \<Rightarrow> (map_of (ctxTags ctx))(tagKeyMethod \<mapsto> keyMethod)
                        | Some old \<Rightarrow> map_of (ctxTags ctx))"
proof -
  obtain n err where at: "strconv_Atoi (strings_TrimPrefix v ''gfet4t7; dur='') = (n, err)"
    by (cases "strconv_Atoi (strings_TrimPrefix v ''gfet4t7; dur='')")
  obtain ctx2 err2 where tn:
    "tag_New (tag_NewContext ctx (tag_FromContext ctx)) [tag_Insert tagKeyMethod keyMethod] = (ctx2, err2)"
    by (cases "tag_New (tag_NewContext ctx (tag_FromContext ctx)) [tag_Insert tagKeyMethod keyMethod]")
  from assms(3) have e1: "err = None"
    using assms(2) at tn by (cases err; cases err2) (simp_all add: capture_present [OF assms(1)])
  from assms(3) have e2: "err2 = None" and s': "s' = recordStat ctx2 GFELatency n s"
    using assms(2) at tn e1 by (cases err2; simp add: capture_present [OF assms(1)])+
  from tag_New_Insert [OF tn [unfolded e2]] obtain m' where
    "ctx2 = tag_NewContext ctx (Some m')" and
    "map_of m' = (case map_of (ctxTags ctx) tagKeyMethod of
                          None \<Rightarrow> (map_of (ctxTags ctx))(tagKeyMethod \<mapsto> keyMethod)
                        | Some old \<Rightarrow> map_of (ctxTags ctx))"
    by (auto split: option.splits)
  with s' at e1 show ?thesis by blast
qed


lemma HasPrefix_append: "strings_HasPrefix (p @ s) p"
  by (simp add: strings_HasPrefix_def)

lemma TrimPrefix_append: "strings_TrimPrefix (p @ s) p = s"
  by (simp add: strings_TrimPrefix_def strings_HasPrefix_def)

lemma apply_four_upserts:
  assumes "apply_mutators [tag_Upsert k1 v1, tag_Upsert k2 v2, tag_Upsert k3 v3, tag_Upsert k4 v4] m = Inr m'"
  shows "map_of m' = (map_of m)(k1 \<mapsto> v1, k2 \<mapsto> v2, k3 \<mapsto> v3, k4 \<mapsto> v4)"
  using assms by (auto simp: map_of_map_upsert split: if_splits)

lemma ctxTags_NewContext_Some [simp]: "ctxTags (tag_NewContext ctx (Some m)) = m"
  by (simp add: ctxTags_def tag_NewContext_def tag_FromContext_def)

lemma capture_eval_42:
  "captureGFELatencyStats \<lparr>tagMap = Some m\<rparr>
       (Map.empty(''server-timing'' \<mapsto> [''gfet4t7; dur=42''])) ''Read'' s
   = (case copy_orig m [] of
        Inl err \<Rightarrow> (Some err, s)
      | Inr m1 \<Rightarrow> (None, s\<lparr>recorded := recorded s @
          [\<lparr>r_measure = GFELatency, r_number = 42,
            r_tags = Some (map_insert ''grpc_client_method'' ''Read'' m1)\<rparr>]\<rparr>))"
proof -
  have small: "strconv_Atoi ''42'' = (42, None)"
    by (simp add: strconv_Atoi_def isDigit_def digitVal_def)
  show ?thesis
    by (simp add: captureGFELatencyStats_def md_Get_def ToLower_server_timing
        strings_TrimPrefix_def strings_HasPrefix_def small tag_New_def tag_NewContext_def
        tag_FromContext_def checkValue_def isASCII_def recordStat_def tagKeyMethod_def
        split: sum.splits)
qed

text \<open>
  A present header that is rejected: the function returns whatever error
  \<open>strconv.Atoi\<close> gave for the trimmed value, and records nothing.
\<close>

lemma capture_malformed_header:
  assumes "md_Get md ''server-timing'' = v # vs"
      and "\<not> strings_HasPrefix v ''gfet4t7; dur=''
           \<or> snd (strconv_Atoi (strings_TrimPrefix v ''gfet4t7; dur='')) \<noteq> None"
  shows "captureGFELatencyStats ctx md keyMethod s =
           (snd (strconv_Atoi (strings_TrimPrefix v ''gfet4t7; dur='')), s)"
  using assms(2) by (auto simp: capture_present [OF assms(1)] split: prod.splits)

text \<open>
  The capture neither reads nor writes the flag \<open>gfeLatencyMetricsEnabled\<close>: run
  with another value of the flag it returns the same error and records the same
  measurements. The test of the flag is left to the callers.
\<close>

lemma capture_independent_of_flag:
  "captureGFELatencyStats ctx md keyMethod (s\<lparr>gfeLatencyMetricsEnabled := b\<rparr>) =
     (fst (captureGFELatencyStats ctx md keyMethod s),
      (snd (captureGFELatencyStats ctx md keyMethod s))\<lparr>gfeLatencyMetricsEnabled := b\<rparr>)"
  by (simp add: captureGFELatencyStats_def recordStat_def Let_def split: prod.splits option.splits)

text \<open>Valid tags stay valid through \<open>tag.New\<close>, and the four upserts of the common
  tags succeed on valid values.\<close>

lemma valid_map_insert:
  "list_all (\<lambda>(k, v). checkKeyName k \<and> checkValue v) m \<Longrightarrow> checkKeyName k \<Longrightarrow> checkValue v \<Longrightarrow>
   list_all (\<lambda>(k, v). checkKeyName k \<and> checkValue v) (map_insert k v m)"
  by (simp add: map_insert_def)

lemma valid_map_upsert:
  "list_all (\<lambda>(k, v). checkKeyName k \<and> checkValue v) m \<Longrightarrow> checkKeyName k \<Longrightarrow> checkValue v \<Longrightarrow>
   list_all (\<lambda>(k, v). checkKeyName k \<and> checkValue v) (map_upsert k v m)"
  unfolding map_upsert_def by (induction m) (auto simp: AList.update.simps)

lemma copy_orig_keeps_valid:
  "list_all (\<lambda>(k, v). checkKeyName k \<and> checkValue v) kvs \<Longrightarrow>
   list_all (\<lambda>(k, v). checkKeyName k \<and> checkValue v) m \<Longrightarrow>
   \<exists>m'. copy_orig kvs m = Inr m' \<and> list_all (\<lambda>(k, v). checkKeyName k \<and> checkValue v) m'"
proof (induction kvs arbitrary: m)
  case Nil
  then show ?case by simp
next
  case (Cons kv kvs)
  obtain k v where kv: "kv = (k, v)" by (cases kv)
  from Cons.prems(1) kv have k: "checkKeyName k" and v: "checkValue v"
    and rest: "list_all (\<lambda>(k, v). checkKeyName k \<and> checkValue v) kvs" by simp_all
  from valid_map_insert [OF Cons.prems(2) k v]
  have "list_all (\<lambda>(k, v). checkKeyName k \<and> checkValue v) (map_insert k v m)" .
  from Cons.IH [OF rest this] show ?case using k v kv by simp
qed

lemma common_keys_valid:
  "checkKeyName tagKeyClientID" "checkKeyName tagKeyDatabase" "checkKeyName tagKeyInstance"
  "checkKeyName tagKeyLibVersion" "checkKeyName tagKeyMethod"
  by (simp_all add: checkKeyName_def isASCII_def tagKeyClientID_def tagKeyDatabase_def
      tagKeyInstance_def tagKeyLibVersion_def tagKeyMethod_def)

lemma common_keys_differ:
  "tagKeyMethod \<noteq> tagKeyClientID" "tagKeyMethod \<noteq> tagKeyDatabase"
  "tagKeyMethod \<noteq> tagKeyInstance" "tagKeyMethod \<noteq> tagKeyLibVersion"
  by (simp_all add: tagKeyMethod_def tagKeyClientID_def tagKeyDatabase_def
      tagKeyInstance_def tagKeyLibVersion_def)

lemma tag_New_common_tags:
  assumes tags: "validTags ctx"
      and vals: "checkValue (clientID ct)" "checkValue (database ct)"
                "checkValue (instance' ct)" "checkValue (libVersion ct)"
  shows "\<exists>m. tag_New ctx
             [tag_Upsert tagKeyClientID (clientID ct),
              tag_Upsert tagKeyDatabase (database ct),
              tag_Upsert tagKeyInstance (instance' ct),
              tag_Upsert tagKeyLibVersion (libVersion ct)] = (tag_NewContext ctx (Some m), None)
           \<and> list_all (\<lambda>(k, v). checkKeyName k \<and> checkValue v) m
           \<and> map_of m = (map_of (ctxTags ctx))(tagKeyClientID \<mapsto> clientID ct,
                 tagKeyDatabase \<mapsto> database ct, tagKeyInstance \<mapsto> instance' ct,
                 tagKeyLibVersion \<mapsto> libVersion ct)"
proof -
  let ?P = "list_all (\<lambda>(k, v). checkKeyName k \<and> checkValue v)"
  from tags have "?P (ctxTags ctx)" by (simp add: validTags_def)
  from copy_orig_keeps_valid [OF this, of "[]"] obtain m0 where
    c: "copy_orig (ctxTags ctx) [] = Inr m0" and v0: "?P m0" by auto
  from copy_orig_Inr [OF c] have mm: "map_of m0 = map_of (ctxTags ctx)" by simp
  let ?m1 = "map_upsert tagKeyClientID (clientID ct) m0"
  let ?m2 = "map_upsert tagKeyDatabase (database ct) ?m1"
  let ?m3 = "map_upsert tagKeyInstance (instance' ct) ?m2"
  let ?m4 = "map_upsert tagKeyLibVersion (libVersion ct) ?m3"
  have v1: "?P ?m1" by (rule valid_map_upsert [OF v0 common_keys_valid(1) vals(1)])
  have v2: "?P ?m2" by (rule valid_map_upsert [OF v1 common_keys_valid(2) vals(2)])
  have v3: "?P ?m3" by (rule valid_map_upsert [OF v2 common_keys_valid(3) vals(3)])
  have v4: "?P ?m4" by (rule valid_map_upsert [OF v3 common_keys_valid(4) vals(4)])
  have t: "tag_New ctx
             [tag_Upsert tagKeyClientID (clientID ct),
              tag_Upsert tagKeyDatabase (database ct),
              tag_Upsert tagKeyInstance (instance' ct),
              tag_Upsert tagKeyLibVersion (libVersion ct)] = (tag_NewContext ctx (Some ?m4), None)"
    using c vals by (simp add: tag_New_def ctxTags_def)
  have mo: "map_of ?m4 = (map_of (ctxTags ctx))(tagKeyClientID \<mapsto> clientID ct,
                 tagKeyDatabase \<mapsto> database ct, tagKeyInstance \<mapsto> instance' ct,
                 tagKeyLibVersion \<mapsto> libVersion ct)"
    by (simp add: map_of_map_upsert mm)
  from t v4 mo show ?thesis by blast
qed

section \<open>Properties of the GFE latency capture\<close>

text \<open>
  C3. When the \<open>server-timing\<close> value list of the metadata is empty (the header is
  absent), \<open>captureGFELatencyStats\<close> returns no error, records exactly one
  measurement, the number 1 on \<open>GFEHeaderMissingCount\<close> with the tags of the given
  context, and adds nothing on \<open>GFELatency\<close>.
\<close>

theorem capture_header_absent:
  assumes "md_Get md ''server-timing'' = []"
  shows "captureGFELatencyStats ctx md keyMethod s =
           (None, s\<lparr>recorded := recorded s @
              [\<lparr>r_measure = GFEHeaderMissingCount, r_number = 1, r_tags = tag_FromContext ctx\<rparr>]\<rparr>)
         \<and> filter (\<lambda>r. r_measure r = GFELatency) (recorded (snd (captureGFELatencyStats ctx md keyMethod s)))
             = filter (\<lambda>r. r_measure r = GFELatency) (recorded s)"
  using assms measures_differ by (simp add: captureGFELatencyStats_def recordStat_def)

theorem capture_header_absent_witness:
  "md_Get Map.empty ''server-timing'' = []
   \<and> captureGFELatencyStats \<lparr>tagMap = None\<rparr> Map.empty ''Read''
        \<lparr>gfeLatencyMetricsEnabled = True, registry = (), recorded = [], effects = []\<rparr> =
       (None, \<lparr>gfeLatencyMetricsEnabled = True, registry = (), recorded =
          [\<lparr>r_measure = GFEHeaderMissingCount, r_number = 1, r_tags = None\<rparr>], effects = []\<rparr>)"
proof -
  have h: "md_Get Map.empty ''server-timing'' = []" by (simp add: md_Get_def)
  show ?thesis
    using h capture_header_absent [OF h, of "\<lparr>tagMap = None\<rparr>" "''Read''"
        "\<lparr>gfeLatencyMetricsEnabled = True, registry = (), recorded = [], effects = []\<rparr>"]
    by (simp add: tag_FromContext_def)
qed

text \<open>
  C1 says that a first \<open>server-timing\<close> value without the prefix
  \<open>gfet4t7; dur=\<close>, or with a suffix that is no integer, makes
  \<open>captureGFELatencyStats\<close> return a non-nil error and record nothing on
  \<open>GFELatency\<close>. The function returns the error of \<open>strconv.Atoi\<close>, also when
  only the prefix test failed: for the value \<open>42\<close> the prefix is missing,
  \<open>TrimPrefix\<close> leaves the value as it is, \<open>Atoi\<close> succeeds, and the error
  returned is nil. Nothing is recorded.
\<close>

theorem capture_bare_integer_returns_nil:
  "md_Get (Map.empty(''server-timing'' \<mapsto> [''42''])) ''server-timing'' = [''42'']
   \<and> \<not> strings_HasPrefix ''42'' ''gfet4t7; dur=''
   \<and> captureGFELatencyStats ctx (Map.empty(''server-timing'' \<mapsto> [''42''])) keyMethod s = (None, s)"
  by (simp add: captureGFELatencyStats_def md_Get_def ToLower_server_timing
      strings_TrimPrefix_def strings_HasPrefix_def strconv_Atoi_def isDigit_def digitVal_def)

theorem capture_bare_integer_returns_nil_witness:
  "captureGFELatencyStats \<lparr>tagMap = None\<rparr> (Map.empty(''server-timing'' \<mapsto> [''42''])) ''Read''
     \<lparr>gfeLatencyMetricsEnabled = True, registry = (), recorded = [], effects = []\<rparr>
   = (None, \<lparr>gfeLatencyMetricsEnabled = True, registry = (), recorded = [], effects = []\<rparr>)"
  using capture_bare_integer_returns_nil [of "\<lparr>tagMap = None\<rparr>" "''Read''"
        "\<lparr>gfeLatencyMetricsEnabled = True, registry = (), recorded = [], effects = []\<rparr>"]
  by simp

text \<open>
  C2, as amended. Let the first \<open>server-timing\<close> value be \<open>gfet4t7; dur=\<close>
  followed by a non-empty string \<open>N\<close> of decimal digits whose number is below
  \<open>2 ^ 63\<close>, let the method name be a valid tag value (at most 255 bytes of
  printable ASCII), and let the context carry valid tags only and no
  \<open>grpc_client_method\<close> tag. Then \<open>captureGFELatencyStats\<close> returns no error
  and records exactly one measurement on \<open>GFELatency\<close>: the number of \<open>N\<close>
  converted to \<open>float64\<close>, which is that number itself whenever it is at most
  \<open>2 ^ 53\<close>, with the tags of the context and \<open>grpc_client_method\<close> bound to the
  method name.
\<close>

theorem capture_well_formed_header:
  assumes header: "md_Get md ''server-timing'' = (''gfet4t7; dur='' @ N) # vs"
      and digits: "N \<noteq> []" "list_all isDigit N"
      and range: "decimal N < 2 ^ 63"
      and valid: "checkValue keyMethod"
      and tags: "validTags ctx"
      and fresh: "map_of (ctxTags ctx) tagKeyMethod = None"
  shows "\<exists>m'. captureGFELatencyStats ctx md keyMethod s =
           (None, s\<lparr>recorded := recorded s @
              [\<lparr>r_measure = GFELatency, r_number = float64_of_int64 (int (decimal N)),
                r_tags = Some m'\<rparr>]\<rparr>)
         \<and> map_of m' = (map_of (ctxTags ctx))(tagKeyMethod \<mapsto> keyMethod)
         \<and> (decimal N \<le> 2 ^ 53 \<longrightarrow> float64_of_int64 (int (decimal N)) = int (decimal N))"
proof -
  let ?ctx1 = "tag_NewContext ctx (tag_FromContext ctx)"
  have at: "strconv_Atoi (strings_TrimPrefix (''gfet4t7; dur='' @ N) ''gfet4t7; dur='') = (int (decimal N), None)"
    using Atoi_digits [OF digits range] by (simp only: TrimPrefix_append)
  have pre: "strings_HasPrefix (''gfet4t7; dur='' @ N) ''gfet4t7; dur=''"
    by (rule HasPrefix_append)
  have "validTags ?ctx1" using tags by (simp add: validTags_def)
  from tag_New_Insert_valid [OF this valid] obtain ctx2 where
    tn: "tag_New ?ctx1 [tag_Insert tagKeyMethod keyMethod] = (ctx2, None)" by blast
  from tag_New_Insert [OF tn] fresh obtain m' where
    c2: "ctx2 = tag_NewContext ctx (Some m')" and
    m': "map_of m' = (map_of (ctxTags ctx))(tagKeyMethod \<mapsto> keyMethod)"
    by auto
  have "captureGFELatencyStats ctx md keyMethod s = (None, recordStat ctx2 GFELatency (int (decimal N)) s)"
    using at pre tn by (simp only: capture_present [OF header]) simp
  then have r: "captureGFELatencyStats ctx md keyMethod s =
           (None, s\<lparr>recorded := recorded s @
              [\<lparr>r_measure = GFELatency, r_number = float64_of_int64 (int (decimal N)),
                r_tags = Some m'\<rparr>]\<rparr>)"
    by (simp add: c2 recordStat_def tag_FromContext_def tag_NewContext_def)
  have x: "decimal N \<le> 2 ^ 53 \<longrightarrow> float64_of_int64 (int (decimal N)) = int (decimal N)"
  proof
    assume "decimal N \<le> 2 ^ 53"
    then have "int (decimal N) \<le> 2 ^ 53" by (simp add: of_nat_le_iff [of "decimal N" "2 ^ 53", simplified])
    then show "float64_of_int64 (int (decimal N)) = int (decimal N)"
      by (intro float64_exact) simp_all
  qed
  from r m' x show ?thesis by blast
qed

text \<open>The header \<open>gfet4t7; dur=42\<close> and the method \<open>Read\<close>, in a context that
  carries a client id.\<close>

theorem capture_well_formed_header_witness:
  "md_Get (Map.empty(''server-timing'' \<mapsto> [''gfet4t7; dur=42''])) ''server-timing''
     = (''gfet4t7; dur='' @ ''42'') # []
   \<and> ''42'' \<noteq> [] \<and> list_all isDigit ''42'' \<and> decimal ''42'' < 2 ^ 63
   \<and> checkValue ''Read''
   \<and> validTags \<lparr>tagMap = Some [(''client_id'', ''client-1'')]\<rparr>
   \<and> map_of (ctxTags \<lparr>tagMap = Some [(''client_id'', ''client-1'')]\<rparr>) tagKeyMethod = None
   \<and> decimal ''42'' \<le> 2 ^ 53
   \<and> (\<exists>m'. captureGFELatencyStats \<lparr>tagMap = Some [(''client_id'', ''client-1'')]\<rparr>
               (Map.empty(''server-timing'' \<mapsto> [''gfet4t7; dur=42''])) ''Read''
               \<lparr>gfeLatencyMetricsEnabled = True, registry = (), recorded = [], effects = []\<rparr>
             = (None, \<lparr>gfeLatencyMetricsEnabled = True, registry = (), recorded =
                  [\<lparr>r_measure = GFELatency, r_number = 42, r_tags = Some m'\<rparr>], effects = []\<rparr>)
           \<and> map_of m' = [''client_id'' \<mapsto> ''client-1'', ''grpc_client_method'' \<mapsto> ''Read''])"
proof -
  let ?md = "Map.empty(''server-timing'' \<mapsto> [''gfet4t7; dur=42''])"
  let ?ctx = "\<lparr>tagMap = Some [(''client_id'', ''client-1'')]\<rparr>"
  have h1: "md_Get ?md ''server-timing'' = (''gfet4t7; dur='' @ ''42'') # []"
    by (simp add: md_Get_def ToLower_server_timing)
  have h2: "''42'' \<noteq> []" and h3: "list_all isDigit ''42''" by (simp_all add: isDigit_def)
  have d: "decimal ''42'' = 42" by (simp add: decimal_def digitVal_def)
  have h4: "decimal ''42'' < 2 ^ 63" by (simp add: d)
  have h5: "checkValue ''Read''" by (simp add: checkValue_def isASCII_def)
  have h6: "validTags ?ctx"
    by (simp add: validTags_def ctxTags_def tag_FromContext_def checkValue_def checkKeyName_def isASCII_def)
  have h7: "map_of (ctxTags ?ctx) tagKeyMethod = None"
    by (simp add: ctxTags_def tag_FromContext_def tagKeyMethod_def)
  have h8: "decimal ''42'' \<le> 2 ^ 53" by (simp add: d)
  from capture_well_formed_header [OF h1 h2 h3 h4 h5 h6 h7,
      of "\<lparr>gfeLatencyMetricsEnabled = True, registry = (), recorded = [], effects = []\<rparr>"] h8
  have "\<exists>m'. captureGFELatencyStats ?ctx ?md ''Read''
               \<lparr>gfeLatencyMetricsEnabled = True, registry = (), recorded = [], effects = []\<rparr>
             = (None, \<lparr>gfeLatencyMetricsEnabled = True, registry = (), recorded =
                  [\<lparr>r_measure = GFELatency, r_number = 42, r_tags = Some m'\<rparr>], effects = []\<rparr>)
           \<and> map_of m' = [''client_id'' \<mapsto> ''client-1'', ''grpc_client_method'' \<mapsto> ''Read'']"
    by (auto simp: d ctxTags_def tag_FromContext_def tagKeyMethod_def)
  with h1 h2 h3 h4 h5 h6 h7 h8 show ?thesis by blast
qed

text \<open>
  C2 as stated fails without these conditions: a method name that is no valid tag
  value (a line feed) makes \<open>tag.New\<close> fail and nothing is recorded; a
  \<open>grpc_client_method\<close> tag already in the context is kept, since the method tag
  is added with \<open>tag.Insert\<close>; the digits of \<open>2 ^ 63\<close> are out of the range of
  \<open>int\<close>; and \<open>2 ^ 53 + 1\<close> is recorded as \<open>2 ^ 53\<close>, the nearest \<open>float64\<close>.
\<close>

theorem capture_well_formed_header_counterexample:
  "captureGFELatencyStats \<lparr>tagMap = None\<rparr>
       (Map.empty(''server-timing'' \<mapsto> [''gfet4t7; dur=42''])) [CHR 0x0A]
       \<lparr>gfeLatencyMetricsEnabled = True, registry = (), recorded = [], effects = []\<rparr>
     = (Some errInvalidValue,
        \<lparr>gfeLatencyMetricsEnabled = True, registry = (), recorded = [], effects = []\<rparr>)
   \<and> captureGFELatencyStats \<lparr>tagMap = Some [(''grpc_client_method'', ''Commit'')]\<rparr>
       (Map.empty(''server-timing'' \<mapsto> [''gfet4t7; dur=42''])) ''Read''
       \<lparr>gfeLatencyMetricsEnabled = True, registry = (), recorded = [], effects = []\<rparr>
     = (None, \<lparr>gfeLatencyMetricsEnabled = True, registry = (), recorded =
          [\<lparr>r_measure = GFELatency, r_number = 42,
            r_tags = Some [(''grpc_client_method'', ''Commit'')]\<rparr>], effects = []\<rparr>)
   \<and> captureGFELatencyStats \<lparr>tagMap = None\<rparr>
       (Map.empty(''server-timing'' \<mapsto> [''gfet4t7; dur=9223372036854775808''])) ''Read''
       \<lparr>gfeLatencyMetricsEnabled = True, registry = (), recorded = [], effects = []\<rparr>
     = (Some (NumError ''Atoi'' ''9223372036854775808'' ErrRange),
        \<lparr>gfeLatencyMetricsEnabled = True, registry = (), recorded = [], effects = []\<rparr>)
   \<and> captureGFELatencyStats \<lparr>tagMap = None\<rparr>
       (Map.empty(''server-timing'' \<mapsto> [''gfet4t7; dur=9007199254740993''])) ''Read''
       \<lparr>gfeLatencyMetricsEnabled = True, registry = (), recorded = [], effects = []\<rparr>
     = (None, \<lparr>gfeLatencyMetricsEnabled = True, registry = (), recorded =
          [\<lparr>r_measure = GFELatency, r_number = 9007199254740992,
            r_tags = Some [(''grpc_client_method'', ''Read'')]\<rparr>], effects = []\<rparr>)"
proof -
  have big: "strconv_Atoi ''9223372036854775808''
      = (9223372036854775807, Some (NumError ''Atoi'' ''9223372036854775808'' ErrRange))"
    by (simp add: strconv_Atoi_def strconv_ParseInt_def strconv_ParseUint_def isDigit_def
        digitVal_def maxUint64_def intSize_def)
  have small: "strconv_Atoi ''42'' = (42, None)"
    by (simp add: strconv_Atoi_def isDigit_def digitVal_def)
  have uneven: "strconv_Atoi ''9007199254740993'' = (9007199254740993, None)"
    by (simp add: strconv_Atoi_def isDigit_def digitVal_def)
  have "bitLength 9007199254740993 = 54"
    by (simp add: bitLength.simps)
  then have rounded: "float64_of_int64 9007199254740993 = 9007199254740992"
    by (simp add: float64_of_int64_def)
  show ?thesis
    by (simp add: captureGFELatencyStats_def md_Get_def ToLower_server_timing
        strings_TrimPrefix_def strings_HasPrefix_def big small uneven rounded tag_New_def
        tag_NewContext_def tag_FromContext_def checkValue_def checkKeyName_def isASCII_def
        map_insert_def recordStat_def tagKeyMethod_def)
qed

text \<open>
  C4, as amended. Let the context carry valid tags only and let the four values of
  the given \<open>commonTags\<close> be valid tag values, so that \<open>tag.New\<close> succeeds. Then
  \<open>createContextAndCaptureGFELatencyMetrics\<close> records under a tag map \<open>m\<close> that
  binds \<open>client_id\<close>, \<open>database\<close>, \<open>instance_id\<close> and \<open>library_version\<close> to
  the values of the \<open>commonTags\<close>, whatever the incoming context bound them to
  (\<open>tag.Upsert\<close>), and every other key as the incoming context did. When the header
  is absent, the measurement on \<open>GFEHeaderMissingCount\<close> carries \<open>m\<close>. When the
  header is present with its prefix and a number, and the method name is a valid tag
  value, the measurement on \<open>GFELatency\<close> carries \<open>m\<close> with
  \<open>grpc_client_method\<close> bound to the method name only if the incoming context did
  not bind it: a value bound there is kept (\<open>tag.Insert\<close>).
\<close>

theorem common_tags_upsert_method_tag_insert:
  assumes tags: "validTags ctx"
      and vals: "checkValue (clientID ct)" "checkValue (database ct)"
                "checkValue (instance' ct)" "checkValue (libVersion ct)"
  shows "\<exists>m. map_of m = (map_of (ctxTags ctx))(tagKeyClientID \<mapsto> clientID ct,
                 tagKeyDatabase \<mapsto> database ct, tagKeyInstance \<mapsto> instance' ct,
                 tagKeyLibVersion \<mapsto> libVersion ct)
         \<and> (md_Get md ''server-timing'' = [] \<longrightarrow>
              createContextAndCaptureGFELatencyMetrics ctx ct md keyMethod s =
                (None, s\<lparr>recorded := recorded s @
                   [\<lparr>r_measure = GFEHeaderMissingCount, r_number = 1, r_tags = Some m\<rparr>]\<rparr>))
         \<and> (\<forall>v vs n. md_Get md ''server-timing'' = v # vs
                \<and> strings_HasPrefix v ''gfet4t7; dur=''
                \<and> strconv_Atoi (strings_TrimPrefix v ''gfet4t7; dur='') = (n, None)
                \<and> checkValue keyMethod \<longrightarrow>
              (\<exists>m'. createContextAndCaptureGFELatencyMetrics ctx ct md keyMethod s =
                      (None, s\<lparr>recorded := recorded s @
                         [\<lparr>r_measure = GFELatency, r_number = float64_of_int64 n,
                           r_tags = Some m'\<rparr>]\<rparr>)
                  \<and> map_of m' = (case map_of (ctxTags ctx) tagKeyMethod of
                                   None \<Rightarrow> (map_of m)(tagKeyMethod \<mapsto> keyMethod)
                                 | Some old \<Rightarrow> map_of m)))"
proof -
  from tag_New_common_tags [OF tags vals] obtain m where
    t: "tag_New ctx
             [tag_Upsert tagKeyClientID (clientID ct),
              tag_Upsert tagKeyDatabase (database ct),
              tag_Upsert tagKeyInstance (instance' ct),
              tag_Upsert tagKeyLibVersion (libVersion ct)] = (tag_NewContext ctx (Some m), None)"
    and vm: "list_all (\<lambda>(k, v). checkKeyName k \<and> checkValue v) m"
    and mo: "map_of m = (map_of (ctxTags ctx))(tagKeyClientID \<mapsto> clientID ct,
                 tagKeyDatabase \<mapsto> database ct, tagKeyInstance \<mapsto> instance' ct,
                 tagKeyLibVersion \<mapsto> libVersion ct)"
    by blast
  let ?ctxGFE = "tag_NewContext ctx (Some m)"
  have cr: "createContextAndCaptureGFELatencyMetrics ctx ct md keyMethod s =
              captureGFELatencyStats ?ctxGFE md keyMethod s"
    by (simp add: createContextAndCaptureGFELatencyMetrics_def t)
  have meth: "map_of m tagKeyMethod = map_of (ctxTags ctx) tagKeyMethod"
    using common_keys_differ by (simp add: mo)
  have absent: "md_Get md ''server-timing'' = [] \<longrightarrow>
              createContextAndCaptureGFELatencyMetrics ctx ct md keyMethod s =
                (None, s\<lparr>recorded := recorded s @
                   [\<lparr>r_measure = GFEHeaderMissingCount, r_number = 1, r_tags = Some m\<rparr>]\<rparr>)"
    by (simp add: cr captureGFELatencyStats_def recordStat_def tag_FromContext_def
        tag_NewContext_def)
  have present: "\<exists>m'. createContextAndCaptureGFELatencyMetrics ctx ct md keyMethod s =
                      (None, s\<lparr>recorded := recorded s @
                         [\<lparr>r_measure = GFELatency, r_number = float64_of_int64 n,
                           r_tags = Some m'\<rparr>]\<rparr>)
                  \<and> map_of m' = (case map_of (ctxTags ctx) tagKeyMethod of
                                   None \<Rightarrow> (map_of m)(tagKeyMethod \<mapsto> keyMethod)
                                 | Some old \<Rightarrow> map_of m)"
    if header: "md_Get md ''server-timing'' = v # vs"
      and pre: "strings_HasPrefix v ''gfet4t7; dur=''"
      and at: "strconv_Atoi (strings_TrimPrefix v ''gfet4t7; dur='') = (n, None)"
      and valid: "checkValue keyMethod"
    for v vs n
  proof -
    let ?ctx1 = "tag_NewContext ?ctxGFE (tag_FromContext ?ctxGFE)"
    have c1: "ctxTags ?ctx1 = m"
      by (simp add: ctxTags_def tag_FromContext_def tag_NewContext_def)
    have "validTags ?ctx1" unfolding validTags_def c1 by (rule vm)
    from tag_New_Insert_valid [OF this valid] obtain ctx2 where
      tn: "tag_New ?ctx1 [tag_Insert tagKeyMethod keyMethod] = (ctx2, None)" by blast
    from tag_New_Insert [OF tn, unfolded c1] obtain m' where
      c2: "ctx2 = tag_NewContext ?ctx1 (Some m')" and
      m': "map_of m' = (case map_of m tagKeyMethod of
                          None \<Rightarrow> (map_of m)(tagKeyMethod \<mapsto> keyMethod)
                        | Some old \<Rightarrow> map_of m)"
      by blast
    have "captureGFELatencyStats ?ctxGFE md keyMethod s =
            (None, recordStat ctx2 GFELatency n s)"
      using at pre tn by (simp only: capture_present [OF header]) simp
    then have r: "createContextAndCaptureGFELatencyMetrics ctx ct md keyMethod s =
                      (None, s\<lparr>recorded := recorded s @
                         [\<lparr>r_measure = GFELatency, r_number = float64_of_int64 n,
                           r_tags = Some m'\<rparr>]\<rparr>)"
      by (simp add: cr c2 recordStat_def tag_FromContext_def tag_NewContext_def)
    from m' meth have "map_of m' = (case map_of (ctxTags ctx) tagKeyMethod of
                                   None \<Rightarrow> (map_of m)(tagKeyMethod \<mapsto> keyMethod)
                                 | Some old \<Rightarrow> map_of m)"
      by simp
    with r show ?thesis by blast
  qed
  from mo absent present show ?thesis by blast
qed

text \<open>A context that binds \<open>database\<close> and \<open>grpc_client_method\<close> already, once
  without the header and once with \<open>gfet4t7; dur=42\<close>.\<close>

theorem common_tags_upsert_method_tag_insert_witness:
  "validTags \<lparr>tagMap = Some [(''database'', ''stale''), (''grpc_client_method'', ''Commit'')]\<rparr>
   \<and> checkValue ''client-1'' \<and> checkValue ''d'' \<and> checkValue ''i'' \<and> checkValue ''1.0''
   \<and> md_Get Map.empty ''server-timing'' = []
   \<and> (\<exists>m. createContextAndCaptureGFELatencyMetrics
          \<lparr>tagMap = Some [(''database'', ''stale''), (''grpc_client_method'', ''Commit'')]\<rparr>
          \<lparr>clientID = ''client-1'', database = ''d'', instance' = ''i'', libVersion = ''1.0''\<rparr>
          Map.empty ''Read''
          \<lparr>gfeLatencyMetricsEnabled = True, registry = (), recorded = [], effects = []\<rparr>
        = (None, \<lparr>gfeLatencyMetricsEnabled = True, registry = (), recorded =
             [\<lparr>r_measure = GFEHeaderMissingCount, r_number = 1, r_tags = Some m\<rparr>],
             effects = []\<rparr>)
        \<and> map_of m ''client_id'' = Some ''client-1'' \<and> map_of m ''database'' = Some ''d''
        \<and> map_of m ''instance_id'' = Some ''i'' \<and> map_of m ''library_version'' = Some ''1.0''
        \<and> map_of m ''grpc_client_method'' = Some ''Commit'')
   \<and> md_Get (Map.empty(''server-timing'' \<mapsto> [''gfet4t7; dur=42''])) ''server-timing''
        = [''gfet4t7; dur=42'']
   \<and> strings_HasPrefix ''gfet4t7; dur=42'' ''gfet4t7; dur=''
   \<and> strconv_Atoi (strings_TrimPrefix ''gfet4t7; dur=42'' ''gfet4t7; dur='') = (42, None)
   \<and> checkValue ''Read''
   \<and> (\<exists>m'. createContextAndCaptureGFELatencyMetrics
          \<lparr>tagMap = Some [(''database'', ''stale''), (''grpc_client_method'', ''Commit'')]\<rparr>
          \<lparr>clientID = ''client-1'', database = ''d'', instance' = ''i'', libVersion = ''1.0''\<rparr>
          (Map.empty(''server-timing'' \<mapsto> [''gfet4t7; dur=42''])) ''Read''
          \<lparr>gfeLatencyMetricsEnabled = True, registry = (), recorded = [], effects = []\<rparr>
        = (None, \<lparr>gfeLatencyMetricsEnabled = True, registry = (), recorded =
             [\<lparr>r_measure = GFELatency, r_number = 42, r_tags = Some m'\<rparr>],
             effects = []\<rparr>)
        \<and> map_of m' ''client_id'' = Some ''client-1'' \<and> map_of m' ''database'' = Some ''d''
        \<and> map_of m' ''instance_id'' = Some ''i'' \<and> map_of m' ''library_version'' = Some ''1.0''
        \<and> map_of m' ''grpc_client_method'' = Some ''Commit'')"
proof -
  let ?ctx = "\<lparr>tagMap = Some [(''database'', ''stale''), (''grpc_client_method'', ''Commit'')]\<rparr>"
  let ?ct = "\<lparr>clientID = ''client-1'', database = ''d'', instance' = ''i'', libVersion = ''1.0''\<rparr>"
  let ?md = "Map.empty(''server-timing'' \<mapsto> [''gfet4t7; dur=42''])"
  let ?s = "\<lparr>gfeLatencyMetricsEnabled = True, registry = (), recorded = [], effects = []\<rparr>
              :: unit telemetry"
  have h0: "validTags ?ctx"
    by (simp add: validTags_def ctxTags_def tag_FromContext_def checkValue_def checkKeyName_def
        isASCII_def)
  have h1: "checkValue (clientID ?ct)" and h2: "checkValue (database ?ct)"
    and h3: "checkValue (instance' ?ct)" and h4: "checkValue (libVersion ?ct)"
    by (simp_all add: checkValue_def isASCII_def)
  have a: "md_Get Map.empty ''server-timing'' = []" by (simp add: md_Get_def)
  have p1: "md_Get ?md ''server-timing'' = [''gfet4t7; dur=42'']"
    by (simp add: md_Get_def ToLower_server_timing)
  have p2: "strings_HasPrefix ''gfet4t7; dur=42'' ''gfet4t7; dur=''"
    by (simp add: strings_HasPrefix_def)
  have p3: "strconv_Atoi (strings_TrimPrefix ''gfet4t7; dur=42'' ''gfet4t7; dur='') = (42, None)"
    by (simp add: strings_TrimPrefix_def strings_HasPrefix_def strconv_Atoi_def isDigit_def
        digitVal_def)
  have p4: "checkValue ''Read''" by (simp add: checkValue_def isASCII_def)
  have keys: "tagKeyClientID = ''client_id''" "tagKeyDatabase = ''database''"
    "tagKeyInstance = ''instance_id''" "tagKeyLibVersion = ''library_version''"
    "tagKeyMethod = ''grpc_client_method''"
    by (simp_all add: tagKeyClientID_def tagKeyDatabase_def tagKeyInstance_def
        tagKeyLibVersion_def tagKeyMethod_def)
  have tg: "ctxTags ?ctx = [(''database'', ''stale''), (''grpc_client_method'', ''Commit'')]"
    by (simp add: ctxTags_def tag_FromContext_def)
  from common_tags_upsert_method_tag_insert [OF h0 h1 h2 h3 h4, of "Map.empty" "''Read''" ?s] a
  obtain m where
    "map_of m = (map_of (ctxTags ?ctx))(tagKeyClientID \<mapsto> clientID ?ct,
       tagKeyDatabase \<mapsto> database ?ct, tagKeyInstance \<mapsto> instance' ?ct,
       tagKeyLibVersion \<mapsto> libVersion ?ct)"
    and "createContextAndCaptureGFELatencyMetrics ?ctx ?ct Map.empty ''Read'' ?s =
           (None, ?s\<lparr>recorded := recorded ?s @
              [\<lparr>r_measure = GFEHeaderMissingCount, r_number = 1, r_tags = Some m\<rparr>]\<rparr>)"
    by blast
  then have first: "\<exists>m. createContextAndCaptureGFELatencyMetrics ?ctx ?ct Map.empty ''Read'' ?s
        = (None, \<lparr>gfeLatencyMetricsEnabled = True, registry = (), recorded =
             [\<lparr>r_measure = GFEHeaderMissingCount, r_number = 1, r_tags = Some m\<rparr>],
             effects = []\<rparr>)
        \<and> map_of m ''client_id'' = Some ''client-1'' \<and> map_of m ''database'' = Some ''d''
        \<and> map_of m ''instance_id'' = Some ''i'' \<and> map_of m ''library_version'' = Some ''1.0''
        \<and> map_of m ''grpc_client_method'' = Some ''Commit''"
    by (intro exI [of _ m]) (simp add: keys tg)
  from common_tags_upsert_method_tag_insert [OF h0 h1 h2 h3 h4, of ?md "''Read''" ?s]
  obtain m where
    mo: "map_of m = (map_of (ctxTags ?ctx))(tagKeyClientID \<mapsto> clientID ?ct,
       tagKeyDatabase \<mapsto> database ?ct, tagKeyInstance \<mapsto> instance' ?ct,
       tagKeyLibVersion \<mapsto> libVersion ?ct)"
    and pr: "\<forall>v vs n. md_Get ?md ''server-timing'' = v # vs
                \<and> strings_HasPrefix v ''gfet4t7; dur=''
                \<and> strconv_Atoi (strings_TrimPrefix v ''gfet4t7; dur='') = (n, None)
                \<and> checkValue ''Read'' \<longrightarrow>
              (\<exists>m'. createContextAndCaptureGFELatencyMetrics ?ctx ?ct ?md ''Read'' ?s =
                      (None, ?s\<lparr>recorded := recorded ?s @
                         [\<lparr>r_measure = GFELatency, r_number = float64_of_int64 n,
                           r_tags = Some m'\<rparr>]\<rparr>)
                  \<and> map_of m' = (case map_of (ctxTags ?ctx) tagKeyMethod of
                                   None \<Rightarrow> (map_of m)(tagKeyMethod \<mapsto> ''Read'')
                                 | Some old \<Rightarrow> map_of m))"
    by blast
  from pr p1 p2 p3 p4 obtain m' where
    "createContextAndCaptureGFELatencyMetrics ?ctx ?ct ?md ''Read'' ?s =
                      (None, ?s\<lparr>recorded := recorded ?s @
                         [\<lparr>r_measure = GFELatency, r_number = float64_of_int64 42,
                           r_tags = Some m'\<rparr>]\<rparr>)"
    and "map_of m' = (case map_of (ctxTags ?ctx) tagKeyMethod of
                                   None \<Rightarrow> (map_of m)(tagKeyMethod \<mapsto> ''Read'')
                                 | Some old \<Rightarrow> map_of m)"
    by blast
  then have second: "\<exists>m'. createContextAndCaptureGFELatencyMetrics ?ctx ?ct ?md ''Read'' ?s
        = (None, \<lparr>gfeLatencyMetricsEnabled = True, registry = (), recorded =
             [\<lparr>r_measure = GFELatency, r_number = 42, r_tags = Some m'\<rparr>],
             effects = []\<rparr>)
        \<and> map_of m' ''client_id'' = Some ''client-1'' \<and> map_of m' ''database'' = Some ''d''
        \<and> map_of m' ''instance_id'' = Some ''i'' \<and> map_of m' ''library_version'' = Some ''1.0''
        \<and> map_of m' ''grpc_client_method'' = Some ''Commit''"
    by (intro exI [of _ m']) (simp add: keys tg mo)
  from h0 h1 h2 h3 h4 a first p1 p2 p3 p4 second show ?thesis by simp
qed

text \<open>
  C4 as stated claims that the method tag overwrites as well. In a context that binds
  \<open>grpc_client_method\<close> to \<open>Commit\<close>, capturing for the method \<open>Read\<close>
  records the latency under \<open>Commit\<close>.
\<close>

theorem method_tag_kept_counterexample:
  "fst (createContextAndCaptureGFELatencyMetrics
          \<lparr>tagMap = Some [(''grpc_client_method'', ''Commit'')]\<rparr>
          \<lparr>clientID = ''client-1'', database = ''d'', instance' = ''i'', libVersion = ''1.0''\<rparr>
          (Map.empty(''server-timing'' \<mapsto> [''gfet4t7; dur=42''])) ''Read''
          \<lparr>gfeLatencyMetricsEnabled = True, registry = (), recorded = [], effects = []\<rparr>) = None
   \<and> map (\<lambda>r. map_option (\<lambda>m. map_of m ''grpc_client_method'') (r_tags r))
        (recorded (snd (createContextAndCaptureGFELatencyMetrics
          \<lparr>tagMap = Some [(''grpc_client_method'', ''Commit'')]\<rparr>
          \<lparr>clientID = ''client-1'', database = ''d'', instance' = ''i'', libVersion = ''1.0''\<rparr>
          (Map.empty(''server-timing'' \<mapsto> [''gfet4t7; dur=42''])) ''Read''
          \<lparr>gfeLatencyMetricsEnabled = True, registry = (), recorded = [], effects = []\<rparr>)))
      = [Some (Some ''Commit'')]"
  by (simp add: createContextAndCaptureGFELatencyMetrics_def tag_New_def tag_NewContext_def
      tag_FromContext_def checkValue_def checkKeyName_def isASCII_def map_insert_def
      map_upsert_def tagKeyClientID_def tagKeyDatabase_def tagKeyInstance_def
      tagKeyLibVersion_def capture_eval_42)

section \<open>Properties of the enabled flag\<close>

text \<open>
  C6. Each of \<open>EnableGfeLatencyView\<close>, \<open>EnableGfeHeaderMissingCountView\<close> and
  \<open>EnableGfeLatencyAndHeaderMissingCountViews\<close> first writes true to the flag and
  then calls \<open>view.Register\<close> with its views, and has no other effect of the two
  kinds; it returns the error of \<open>view.Register\<close>, and whatever the registry did,
  the flag reads true afterwards. \<open>DisableGfeLatencyAndHeaderMissingCountViews\<close>
  first writes false to the flag and then calls \<open>view.Unregister\<close>; the flag reads
  false afterwards.
\<close>

theorem enable_sets_flag_disable_clears_flag:
  "effects (snd (EnableGfeLatencyView view_Register s))
     = effects s @ [FlagWrite True, ViewRegister [GFELatencyView]]
   \<and> fst (EnableGfeLatencyView view_Register s)
     = fst (view_Register [GFELatencyView] (registry s))
   \<and> getGFELatencyMetricsFlag (snd (EnableGfeLatencyView view_Register s)) = True
   \<and> effects (snd (EnableGfeHeaderMissingCountView view_Register s))
     = effects s @ [FlagWrite True, ViewRegister [GFEHeaderMissingCountView]]
   \<and> fst (EnableGfeHeaderMissingCountView view_Register s)
     = fst (view_Register [GFEHeaderMissingCountView] (registry s))
   \<and> getGFELatencyMetricsFlag (snd (EnableGfeHeaderMissingCountView view_Register s)) = True
   \<and> effects (snd (EnableGfeLatencyAndHeaderMissingCountViews view_Register s))
     = effects s @ [FlagWrite True, ViewRegister [GFELatencyView, GFEHeaderMissingCountView]]
   \<and> fst (EnableGfeLatencyAndHeaderMissingCountViews view_Register s)
     = fst (view_Register [GFELatencyView, GFEHeaderMissingCountView] (registry s))
   \<and> getGFELatencyMetricsFlag (snd (EnableGfeLatencyAndHeaderMissingCountViews view_Register s)) = True
   \<and> effects (DisableGfeLatencyAndHeaderMissingCountViews view_Unregister s)
     = effects s @ [FlagWrite False, ViewUnregister [GFELatencyView, GFEHeaderMissingCountView]]
   \<and> getGFELatencyMetricsFlag (DisableGfeLatencyAndHeaderMissingCountViews view_Unregister s) = False"
  by (simp add: EnableGfeLatencyView_def EnableGfeHeaderMissingCountView_def
      EnableGfeLatencyAndHeaderMissingCountViews_def DisableGfeLatencyAndHeaderMissingCountViews_def
      getGFELatencyMetricsFlag_def setGFELatencyMetricsFlag_def Let_def split: prod.splits)

text \<open>
  C7. When one of the three enable functions returns an error, that error is the one
  \<open>view.Register\<close> returned for its views, and the flag reads true all the same:
  nothing resets it.
\<close>

theorem flag_stays_set_when_registration_fails:
  "(fst (EnableGfeLatencyView view_Register s) = Some err \<longrightarrow>
      fst (view_Register [GFELatencyView] (registry s)) = Some err
      \<and> getGFELatencyMetricsFlag (snd (EnableGfeLatencyView view_Register s)))
   \<and> (fst (EnableGfeHeaderMissingCountView view_Register s) = Some err \<longrightarrow>
      fst (view_Register [GFEHeaderMissingCountView] (registry s)) = Some err
      \<and> getGFELatencyMetricsFlag (snd (EnableGfeHeaderMissingCountView view_Register s)))
   \<and> (fst (EnableGfeLatencyAndHeaderMissingCountViews view_Register s) = Some err \<longrightarrow>
      fst (view_Register [GFELatencyView, GFEHeaderMissingCountView] (registry s)) = Some err
      \<and> getGFELatencyMetricsFlag (snd (EnableGfeLatencyAndHeaderMissingCountViews view_Register s)))"
  by (simp add: EnableGfeLatencyView_def EnableGfeHeaderMissingCountView_def
      EnableGfeLatencyAndHeaderMissingCountViews_def
      getGFELatencyMetricsFlag_def setGFELatencyMetricsFlag_def Let_def split: prod.splits)

theorem flag_stays_set_when_registration_fails_witness:
  "fst (EnableGfeLatencyView (\<lambda>vs r. (Some (ExternalError ''conflicting view''), r))
          \<lparr>gfeLatencyMetricsEnabled = False, registry = (), recorded = [], effects = []\<rparr>)
     = Some (ExternalError ''conflicting view'')
   \<and> getGFELatencyMetricsFlag (snd (EnableGfeLatencyView
          (\<lambda>vs r. (Some (ExternalError ''conflicting view''), r))
          \<lparr>gfeLatencyMetricsEnabled = False, registry = (), recorded = [], effects = []\<rparr>))
   \<and> fst (EnableGfeHeaderMissingCountView (\<lambda>vs r. (Some (ExternalError ''conflicting view''), r))
          \<lparr>gfeLatencyMetricsEnabled = False, registry = (), recorded = [], effects = []\<rparr>)
     = Some (ExternalError ''conflicting view'')
   \<and> getGFELatencyMetricsFlag (snd (EnableGfeHeaderMissingCountView
          (\<lambda>vs r. (Some (ExternalError ''conflicting view''), r))
          \<lparr>gfeLatencyMetricsEnabled = False, registry = (), recorded = [], effects = []\<rparr>))
   \<and> fst (EnableGfeLatencyAndHeaderMissingCountViews
          (\<lambda>vs r. (Some (ExternalError ''conflicting view''), r))
          \<lparr>gfeLatencyMetricsEnabled = False, registry = (), recorded = [], effects = []\<rparr>)
     = Some (ExternalError ''conflicting view'')
   \<and> getGFELatencyMetricsFlag (snd (EnableGfeLatencyAndHeaderMissingCountViews
          (\<lambda>vs r. (Some (ExternalError ''conflicting view''), r))
          \<lparr>gfeLatencyMetricsEnabled = False, registry = (), recorded = [], effects = []\<rparr>))"
proof -
  let ?reg = "\<lambda>(vs :: View list) (r :: unit). (Some (ExternalError ''conflicting view''), r)"
  let ?s = "\<lparr>gfeLatencyMetricsEnabled = False, registry = (), recorded = [], effects = []\<rparr> :: unit telemetry"
  have f1: "fst (EnableGfeLatencyView ?reg ?s) = Some (ExternalError ''conflicting view'')"
    by (simp add: EnableGfeLatencyView_def Let_def)
  have f2: "fst (EnableGfeHeaderMissingCountView ?reg ?s) = Some (ExternalError ''conflicting view'')"
    by (simp add: EnableGfeHeaderMissingCountView_def Let_def)
  have f3: "fst (EnableGfeLatencyAndHeaderMissingCountViews ?reg ?s) = Some (ExternalError ''conflicting view'')"
    by (simp add: EnableGfeLatencyAndHeaderMissingCountViews_def Let_def)
  from flag_stays_set_when_registration_fails [of ?reg ?s "ExternalError ''conflicting view''"] f1 f2 f3
  show ?thesis by blast
qed

section \<open>Properties of the common tags\<close>

text \<open>
  C8. When \<open>parseDatabaseName\<close> fails on the database name of the session client,
  \<open>getCommonTags\<close> returns nil; when it succeeds, the result carries the client id,
  the parsed database and instance names and the constant \<open>version.Repo\<close>.
\<close>

theorem getCommonTags_skips_or_fills:
  "(snd (parseDatabaseName (sc_database sc)) \<noteq> None \<longrightarrow>
      getCommonTags parseDatabaseName version_Repo sc = None)
   \<and> (parseDatabaseName (sc_database sc) = ((project, inst, db), None) \<longrightarrow>
      getCommonTags parseDatabaseName version_Repo sc =
        Some \<lparr>clientID = sc_id sc, database = db, instance' = inst, libVersion = version_Repo\<rparr>)"
  by (auto simp: getCommonTags_def split: prod.splits option.splits)

theorem getCommonTags_skips_or_fills_witness:
  "snd ((\<lambda>db. if db = ''projects/p/instances/i/databases/d'' then ((''p'', ''i'', ''d''), None)
               else (([], [], []), Some (ExternalError ''Failed to parse database name'')))
        (sc_database \<lparr>sc_id = ''client-2'', sc_database = ''d''\<rparr>)) \<noteq> None
   \<and> getCommonTags
        (\<lambda>db. if db = ''projects/p/instances/i/databases/d'' then ((''p'', ''i'', ''d''), None)
               else (([], [], []), Some (ExternalError ''Failed to parse database name'')))
        ''1.0'' \<lparr>sc_id = ''client-2'', sc_database = ''d''\<rparr> = None
   \<and> (\<lambda>db. if db = ''projects/p/instances/i/databases/d'' then ((''p'', ''i'', ''d''), None)
               else (([], [], []), Some (ExternalError ''Failed to parse database name'')))
        (sc_database \<lparr>sc_id = ''client-1'', sc_database = ''projects/p/instances/i/databases/d''\<rparr>)
       = ((''p'', ''i'', ''d''), None)
   \<and> getCommonTags
        (\<lambda>db. if db = ''projects/p/instances/i/databases/d'' then ((''p'', ''i'', ''d''), None)
               else (([], [], []), Some (ExternalError ''Failed to parse database name'')))
        ''1.0'' \<lparr>sc_id = ''client-1'', sc_database = ''projects/p/instances/i/databases/d''\<rparr>
       = Some \<lparr>clientID = ''client-1'', database = ''d'', instance' = ''i'', libVersion = ''1.0''\<rparr>"
proof -
  let ?parse = "\<lambda>db. if db = ''projects/p/instances/i/databases/d'' then ((''p'', ''i'', ''d''), None)
               else (([], [], []), Some (ExternalError ''Failed to parse database name''))"
  let ?bad = "\<lparr>sc_id = ''client-2'', sc_database = ''d''\<rparr>"
  let ?good = "\<lparr>sc_id = ''client-1'', sc_database = ''projects/p/instances/i/databases/d''\<rparr>"
  have b: "snd (?parse (sc_database ?bad)) \<noteq> None" by simp
  have g: "?parse (sc_database ?good) = ((''p'', ''i'', ''d''), None)" by simp
  from getCommonTags_skips_or_fills [of ?parse ?bad "''1.0''"] b
  have r1: "getCommonTags ?parse ''1.0'' ?bad = None" by blast
  from getCommonTags_skips_or_fills [of ?parse ?good "''1.0''" "''p''" "''i''" "''d''"] g
  have r2: "getCommonTags ?parse ''1.0'' ?good =
      Some \<lparr>clientID = ''client-1'', database = ''d'', instance' = ''i'', libVersion = ''1.0''\<rparr>"
    by simp
  from b r1 g r2 show ?thesis by blast
qed

section \<open>Properties of the REST client\<close>

text \<open>The five parameter names of \<open>List\<close> are in sorted order already, and
  escaping leaves them as they are.\<close>

lemma key_order:
  "''filter'' \<le> ''maxResults''" "''filter'' \<le> ''orderBy''" "''filter'' \<le> ''pageToken''"
  "''filter'' \<le> ''returnPartialSuccess''" "''maxResults'' \<le> ''orderBy''"
  "''maxResults'' \<le> ''pageToken''" "''maxResults'' \<le> ''returnPartialSuccess''"
  "''orderBy'' \<le> ''pageToken''" "''orderBy'' \<le> ''returnPartialSuccess''"
  "''pageToken'' \<le> ''returnPartialSuccess''"
  by simp_all

lemma escape_keys:
  "url_QueryEscape ''filter'' = ''filter''" "url_QueryEscape ''maxResults'' = ''maxResults''"
  "url_QueryEscape ''orderBy'' = ''orderBy''" "url_QueryEscape ''pageToken'' = ''pageToken''"
  "url_QueryEscape ''returnPartialSuccess'' = ''returnPartialSuccess''"
  by (simp_all add: url_QueryEscape_def escapeByte_def shouldEscape_def)

text \<open>The path and the query string of the URL that the statements of \<open>List\<close>
  between \<open>url.Parse\<close> and \<open>http.NewRequest\<close> build.\<close>

lemma List_baseUrl_path_and_query:
  "Path (List_baseUrl baseUrl (Some req)) =
     Path baseUrl @ ''/compute/v1/projects/'' @ ld_Project req @ ''/zones/'' @ ld_Zone req @ ''/disks''
   \<and> RawQuery (List_baseUrl baseUrl (Some req)) =
     joinAmp (queryParam ''filter'' (ld_Filter req)
            @ queryParam ''maxResults'' (map_option Sprintf_v_uint32 (ld_MaxResults req))
            @ queryParam ''orderBy'' (ld_OrderBy req)
            @ queryParam ''pageToken'' (ld_PageToken req)
            @ queryParam ''returnPartialSuccess'' (map_option Sprintf_v_bool (ld_ReturnPartialSuccess req)))"
proof
  show "Path (List_baseUrl baseUrl (Some req)) =
     Path baseUrl @ ''/compute/v1/projects/'' @ ld_Project req @ ''/zones/'' @ ld_Zone req @ ''/disks''"
    by (simp add: List_baseUrl_def Let_def getField_def Sprintf_v_string_def)
  show "RawQuery (List_baseUrl baseUrl (Some req)) =
     joinAmp (queryParam ''filter'' (ld_Filter req)
            @ queryParam ''maxResults'' (map_option Sprintf_v_uint32 (ld_MaxResults req))
            @ queryParam ''orderBy'' (ld_OrderBy req)
            @ queryParam ''pageToken'' (ld_PageToken req)
            @ queryParam ''returnPartialSuccess'' (map_option Sprintf_v_bool (ld_ReturnPartialSuccess req)))"
    by (cases "ld_Filter req"; cases "ld_MaxResults req"; cases "ld_OrderBy req";
        cases "ld_PageToken req"; cases "ld_ReturnPartialSuccess req")
       (simp_all add: List_baseUrl_def Let_def isSet_def getOptField_def getField_def
          url_Values_Add_def url_Values_Encode_def queryParam_def Sprintf_v_string_def
          key_order escape_keys)
qed

text \<open>
  C9. Let a \<open>ListDisksRequest\<close> be serialized and the endpoint be parsed. Then there
  is a URL \<open>u\<close> with the scheme and host of the endpoint, with the path of the
  endpoint followed by \<open>/compute/v1/projects/{project}/zones/{zone}/disks\<close>, and
  with a query string that consists of \<open>key=value\<close> for exactly those of
  \<open>filter\<close>, \<open>maxResults\<close>, \<open>orderBy\<close>, \<open>pageToken\<close> and
  \<open>returnPartialSuccess\<close> whose field is set, with the value of the field (printed
  with \<open>%v\<close> and escaped), joined with \<open>&\<close>, such that \<open>List\<close> calls
  \<open>http.NewRequest\<close> with \<open>GET\<close> and the \<open>String\<close> of \<open>u\<close>: it returns the
  error of that call, or else its first effect is to hand the request made, with the
  context and the headers set, to \<open>Do\<close>.
\<close>

theorem List_url_path_and_query:
  assumes marshal: "protojson_Marshal env (Some req) = Inr jsonReq"
      and parse: "url_Parse env (endpoint c) = Inr baseUrl"
  shows "\<exists>u. Scheme u = Scheme baseUrl \<and> Host u = Host baseUrl
         \<and> Path u = Path baseUrl @ ''/compute/v1/projects/'' @ ld_Project req
                      @ ''/zones/'' @ ld_Zone req @ ''/disks''
         \<and> RawQuery u =
             joinAmp (queryParam ''filter'' (ld_Filter req)
                    @ queryParam ''maxResults'' (map_option Sprintf_v_uint32 (ld_MaxResults req))
                    @ queryParam ''orderBy'' (ld_OrderBy req)
                    @ queryParam ''pageToken'' (ld_PageToken req)
                    @ queryParam ''returnPartialSuccess''
                        (map_option Sprintf_v_bool (ld_ReturnPartialSuccess req)))
         \<and> (\<forall>err. http_NewRequest env ''GET'' (url_String env u) jsonReq = Inl err \<longrightarrow>
                List env c ctx (Some req) = (None, Some err, []))
         \<and> (\<forall>httpReq0 client.
                http_NewRequest env ''GET'' (url_String env u) jsonReq = Inr httpReq0
                \<and> httpClient c = Some client \<longrightarrow>
                (\<exists>rest. snd (snd (List env c ctx (Some req))) =
                   HttpDo (sentRequest httpReq0 ctx c) (client (sentRequest httpReq0 ctx c))
                   # rest))"
proof -
  let ?u = "List_baseUrl baseUrl (Some req)"
  have sh: "Scheme ?u = Scheme baseUrl \<and> Host ?u = Host baseUrl"
    by (simp add: List_baseUrl_def Let_def)
  have fail: "\<forall>err. http_NewRequest env ''GET'' (url_String env ?u) jsonReq = Inl err \<longrightarrow>
                List env c ctx (Some req) = (None, Some err, [])"
    using marshal parse by (simp add: List_def)
  have send: "\<forall>httpReq0 client.
                http_NewRequest env ''GET'' (url_String env ?u) jsonReq = Inr httpReq0
                \<and> httpClient c = Some client \<longrightarrow>
                (\<exists>rest. snd (snd (List env c ctx (Some req))) =
                   HttpDo (sentRequest httpReq0 ctx c) (client (sentRequest httpReq0 ctx c))
                   # rest)"
    using marshal parse
    by (auto simp: List_def Let_def sentRequest_def split: sum.splits prod.splits)
  from sh List_baseUrl_path_and_query [of baseUrl req] fail send show ?thesis by blast
qed

text \<open>A request with \<open>filter\<close>, \<open>maxResults\<close>, \<open>pageToken\<close> and
  \<open>returnPartialSuccess\<close> set and \<open>orderBy\<close> not set.\<close>

theorem List_url_path_and_query_witness:
  "protojson_Marshal
     \<lparr>protojson_Marshal = (\<lambda>m. Inr ''{}''),
        protojson_Unmarshal = (\<lambda>buf. (buf, None)),
        url_Parse = (\<lambda>s. Inr \<lparr>Scheme = ''https'', Host = s, Path = [], RawQuery = []\<rparr>),
        url_String = (\<lambda>u. Scheme u @ ''://'' @ Host u @ Path u @ ''?'' @ RawQuery u),
        http_NewRequest = (\<lambda>m u b. Inr \<lparr>Method = m, RequestURL = u, RequestBody = b,
                                         Header = Map.empty, RequestCtx = None\<rparr>)\<rparr>
     (Some \<lparr>ld_Filter = Some ''name = a'', ld_MaxResults = Some 500, ld_OrderBy = None,
             ld_PageToken = Some ''tok'', ld_Project = ''p'',
             ld_ReturnPartialSuccess = Some True, ld_Zone = ''z''\<rparr>) = Inr ''{}''
   \<and> url_Parse
     \<lparr>protojson_Marshal = (\<lambda>m :: ListDisksRequest option. Inr ''{}''),
        protojson_Unmarshal = (\<lambda>buf. (buf, None)),
        url_Parse = (\<lambda>s. Inr \<lparr>Scheme = ''https'', Host = s, Path = [], RawQuery = []\<rparr>),
        url_String = (\<lambda>u. Scheme u @ ''://'' @ Host u @ Path u @ ''?'' @ RawQuery u),
        http_NewRequest = (\<lambda>m u b. Inr \<lparr>Method = m, RequestURL = u, RequestBody = b,
                                         Header = Map.empty, RequestCtx = None\<rparr>)\<rparr>
     (endpoint \<lparr>endpoint = ''compute.googleapis.com'',
                 httpClient = Some (\<lambda>q. Inr \<lparr>StatusCode = 200, Status = ''200 OK'',
                                               Body = Inr ''{}''\<rparr>),
                 xGoogMetadata = Map.empty\<rparr>)
     = Inr \<lparr>Scheme = ''https'', Host = ''compute.googleapis.com'', Path = [], RawQuery = []\<rparr>
   \<and> (\<exists>rest. snd (snd (List
       \<lparr>protojson_Marshal = (\<lambda>m. Inr ''{}''),
          protojson_Unmarshal = (\<lambda>buf. (buf, None)),
          url_Parse = (\<lambda>s. Inr \<lparr>Scheme = ''https'', Host = s, Path = [], RawQuery = []\<rparr>),
          url_String = (\<lambda>u. Scheme u @ ''://'' @ Host u @ Path u @ ''?'' @ RawQuery u),
          http_NewRequest = (\<lambda>m u b. Inr \<lparr>Method = m, RequestURL = u, RequestBody = b,
                                           Header = Map.empty, RequestCtx = None\<rparr>)\<rparr>
       \<lparr>endpoint = ''compute.googleapis.com'',
          httpClient = Some (\<lambda>q. Inr \<lparr>StatusCode = 200, Status = ''200 OK'', Body = Inr ''{}''\<rparr>),
          xGoogMetadata = Map.empty\<rparr>
       \<lparr>tagMap = None\<rparr>
       (Some \<lparr>ld_Filter = Some ''name = a'', ld_MaxResults = Some 500, ld_OrderBy = None,
               ld_PageToken = Some ''tok'', ld_Project = ''p'',
               ld_ReturnPartialSuccess = Some True, ld_Zone = ''z''\<rparr>)))
     = HttpDo
         \<lparr>Method = ''GET'',
            RequestURL = ''https://compute.googleapis.com/compute/v1/projects/p/zones/z/disks?filter=name+%3D+a&maxResults=500&pageToken=tok&returnPartialSuccess=true'',
            RequestBody = ''{}'',
            Header = [''Content-Type'' \<mapsto> [''application/json'']],
            RequestCtx = Some \<lparr>tagMap = None\<rparr>\<rparr>
         (Inr \<lparr>StatusCode = 200, Status = ''200 OK'', Body = Inr ''{}''\<rparr>)
       # rest)"
proof -
  let ?env = "\<lparr>protojson_Marshal = (\<lambda>m :: ListDisksRequest option. Inr ''{}''),
          protojson_Unmarshal = (\<lambda>buf. (buf, None)),
          url_Parse = (\<lambda>s. Inr \<lparr>Scheme = ''https'', Host = s, Path = [], RawQuery = []\<rparr>),
          url_String = (\<lambda>u. Scheme u @ ''://'' @ Host u @ Path u @ ''?'' @ RawQuery u),
          http_NewRequest = (\<lambda>m u b. Inr \<lparr>Method = m, RequestURL = u, RequestBody = b,
                                           Header = Map.empty, RequestCtx = None\<rparr>)\<rparr>"
  let ?rsp = "\<lparr>StatusCode = 200, Status = ''200 OK'', Body = Inr ''{}''\<rparr>"
  let ?c = "\<lparr>endpoint = ''compute.googleapis.com'', httpClient = Some (\<lambda>q. Inr ?rsp),
          xGoogMetadata = Map.empty\<rparr>"
  let ?ctx = "\<lparr>tagMap = None\<rparr>"
  let ?req = "\<lparr>ld_Filter = Some ''name = a'', ld_MaxResults = Some 500, ld_OrderBy = None,
               ld_PageToken = Some ''tok'', ld_Project = ''p'',
               ld_ReturnPartialSuccess = Some True, ld_Zone = ''z''\<rparr>"
  let ?base = "\<lparr>Scheme = ''https'', Host = ''compute.googleapis.com'', Path = [], RawQuery = []\<rparr>"
  let ?url = "''https://compute.googleapis.com/compute/v1/projects/p/zones/z/disks?filter=name+%3D+a&maxResults=500&pageToken=tok&returnPartialSuccess=true''"
  have h1: "protojson_Marshal ?env (Some ?req) = Inr ''{}''" by simp
  have h2: "url_Parse ?env (endpoint ?c) = Inr ?base" by simp
  have q: "joinAmp (queryParam ''filter'' (ld_Filter ?req)
                    @ queryParam ''maxResults'' (map_option Sprintf_v_uint32 (ld_MaxResults ?req))
                    @ queryParam ''orderBy'' (ld_OrderBy ?req)
                    @ queryParam ''pageToken'' (ld_PageToken ?req)
                    @ queryParam ''returnPartialSuccess''
                        (map_option Sprintf_v_bool (ld_ReturnPartialSuccess ?req)))
           = ''filter=name+%3D+a&maxResults=500&pageToken=tok&returnPartialSuccess=true''"
    by (simp add: queryParam_def url_QueryEscape_def escapeByte_def shouldEscape_def
        upperhex_def Sprintf_v_uint32_def Sprintf_v_bool_def formatDecimal.simps
        decimalDigits_def)
  from List_url_path_and_query [OF h1 h2, of ?ctx] obtain u where
    u1: "Scheme u = Scheme ?base" "Host u = Host ?base"
    and u2: "Path u = Path ?base @ ''/compute/v1/projects/'' @ ld_Project ?req
                      @ ''/zones/'' @ ld_Zone ?req @ ''/disks''"
    and u3: "RawQuery u =
             joinAmp (queryParam ''filter'' (ld_Filter ?req)
                    @ queryParam ''maxResults'' (map_option Sprintf_v_uint32 (ld_MaxResults ?req))
                    @ queryParam ''orderBy'' (ld_OrderBy ?req)
                    @ queryParam ''pageToken'' (ld_PageToken ?req)
                    @ queryParam ''returnPartialSuccess''
                        (map_option Sprintf_v_bool (ld_ReturnPartialSuccess ?req)))"
    and u4: "\<forall>httpReq0 client.
                http_NewRequest ?env ''GET'' (url_String ?env u) ''{}'' = Inr httpReq0
                \<and> httpClient ?c = Some client \<longrightarrow>
                (\<exists>rest. snd (snd (List ?env ?c ?ctx (Some ?req))) =
                   HttpDo (sentRequest httpReq0 ?ctx ?c) (client (sentRequest httpReq0 ?ctx ?c))
                   # rest)"
    by blast
  have su: "Scheme u = ''https''" and hu: "Host u = ''compute.googleapis.com''"
    using u1 by simp_all
  have pu: "Path u = ''/compute/v1/projects/p/zones/z/disks''"
    using u2 by simp
  have qu: "RawQuery u
      = ''filter=name+%3D+a&maxResults=500&pageToken=tok&returnPartialSuccess=true''"
    using u3 by (simp only: q)
  have n: "http_NewRequest ?env ''GET'' (url_String ?env u) ''{}''
        = Inr \<lparr>Method = ''GET'', RequestURL = ?url, RequestBody = ''{}'',
               Header = Map.empty, RequestCtx = None\<rparr>"
    by (simp add: su hu pu qu)
  from u4 n have "\<exists>rest. snd (snd (List ?env ?c ?ctx (Some ?req))) =
      HttpDo (sentRequest \<lparr>Method = ''GET'', RequestURL = ?url, RequestBody = ''{}'',
               Header = Map.empty, RequestCtx = None\<rparr> ?ctx ?c) (Inr ?rsp) # rest"
    by simp
  then have "\<exists>rest. snd (snd (List ?env ?c ?ctx (Some ?req))) =
      HttpDo \<lparr>Method = ''GET'', RequestURL = ?url, RequestBody = ''{}'',
               Header = [''Content-Type'' \<mapsto> [''application/json'']],
               RequestCtx = Some ?ctx\<rparr> (Inr ?rsp) # rest"
    by (simp add: sentRequest_def)
  with h1 h2 show ?thesis by simp
qed

text \<open>
  C10. For each of the thirteen methods: when the request has been built (the
  message is serialized, the endpoint is parsed and \<open>http.NewRequest\<close> has made the
  request for the URL of the method), the client is open and \<open>Do\<close> answers the
  request sent with a response whose status code is not 200, the method returns a nil
  result together with \<open>fmt.Errorf\<close> of the status text, and its only effects are
  the call of \<open>Do\<close> and the closing of the body: the body is neither read nor
  deserialized.
\<close>

theorem non_ok_status_returns_status_error:
  assumes client: "httpClient c = Some client"
      and answer: "client (sentRequest newReq ctx c) = Inr httpRsp"
      and status: "StatusCode httpRsp \<noteq> http_StatusOK"
  shows "(protojson_Marshal envAddResourcePolicies (getPointer arp_DisksAddResourcePoliciesRequestResource reqAddResourcePolicies) = Inr jsonReq
      \<and> url_Parse envAddResourcePolicies (endpoint c) = Inr baseUrl
      \<and> http_NewRequest envAddResourcePolicies ''POST''
            (url_String envAddResourcePolicies (AddResourcePolicies_baseUrl baseUrl reqAddResourcePolicies)) jsonReq = Inr newReq
      \<longrightarrow> AddResourcePolicies envAddResourcePolicies c ctx reqAddResourcePolicies =
            (None, Some (FmtErrorf (Status httpRsp)),
             [HttpDo (sentRequest newReq ctx c) (Inr httpRsp), BodyClose]))
   \<and> (protojson_Marshal envAggregatedList reqAggregatedList = Inr jsonReq
      \<and> url_Parse envAggregatedList (endpoint c) = Inr baseUrl
      \<and> http_NewRequest envAggregatedList ''GET''
            (url_String envAggregatedList (AggregatedList_baseUrl baseUrl reqAggregatedList)) jsonReq = Inr newReq
      \<longrightarrow> AggregatedList envAggregatedList c ctx reqAggregatedList =
            (None, Some (FmtErrorf (Status httpRsp)),
             [HttpDo (sentRequest newReq ctx c) (Inr httpRsp), BodyClose]))
   \<and> (protojson_Marshal envCreateSnapshot (getPointer cs_SnapshotResource reqCreateSnapshot) = Inr jsonReq
      \<and> url_Parse envCreateSnapshot (endpoint c) = Inr baseUrl
      \<and> http_NewRequest envCreateSnapshot ''POST''
            (url_String envCreateSnapshot (CreateSnapshot_baseUrl baseUrl reqCreateSnapshot)) jsonReq = Inr newReq
      \<longrightarrow> CreateSnapshot envCreateSnapshot c ctx reqCreateSnapshot =
            (None, Some (FmtErrorf (Status httpRsp)),
             [HttpDo (sentRequest newReq ctx c) (Inr httpRsp), BodyClose]))
   \<and> (protojson_Marshal envDelete reqDelete = Inr jsonReq
      \<and> url_Parse envDelete (endpoint c) = Inr baseUrl
      \<and> http_NewRequest envDelete ''DELETE''
            (url_String envDelete (Delete_baseUrl baseUrl reqDelete)) jsonReq = Inr newReq
      \<longrightarrow> Delete envDelete c ctx reqDelete =
            (None, Some (FmtErrorf (Status httpRsp)),
             [HttpDo (sentRequest newReq ctx c) (Inr httpRsp), BodyClose]))
   \<and> (protojson_Marshal envGet reqGet = Inr jsonReq
      \<and> url_Parse envGet (endpoint c) = Inr baseUrl
      \<and> http_NewRequest envGet ''GET''
            (url_String envGet (Get_baseUrl baseUrl reqGet)) jsonReq = Inr newReq
      \<longrightarrow> Get envGet c ctx reqGet =
            (None, Some (FmtErrorf (Status httpRsp)),
             [HttpDo (sentRequest newReq ctx c) (Inr httpRsp), BodyClose]))
   \<and> (protojson_Marshal envGetIamPolicy reqGetIamPolicy = Inr jsonReq
      \<and> url_Parse envGetIamPolicy (endpoint c) = Inr baseUrl
      \<and> http_NewRequest envGetIamPolicy ''GET''
            (url_String envGetIamPolicy (GetIamPolicy_baseUrl baseUrl reqGetIamPolicy)) jsonReq = Inr newReq
      \<longrightarrow> GetIamPolicy envGetIamPolicy c ctx reqGetIamPolicy =
            (None, Some (FmtErrorf (Status httpRsp)),
             [HttpDo (sentRequest newReq ctx c) (Inr httpRsp), BodyClose]))
   \<and> (protojson_Marshal envInsert (getPointer ins_DiskResource reqInsert) = Inr jsonReq
      \<and> url_Parse envInsert (endpoint c) = Inr baseUrl
      \<and> http_NewRequest envInsert ''POST''
            (url_String envInsert (Insert_baseUrl baseUrl reqInsert)) jsonReq = Inr newReq
      \<longrightarrow> Insert envInsert c ctx reqInsert =
            (None, Some (FmtErrorf (Status httpRsp)),
             [HttpDo (sentRequest newReq ctx c) (Inr httpRsp), BodyClose]))
   \<and> (protojson_Marshal envList reqList = Inr jsonReq
      \<and> url_Parse envList (endpoint c) = Inr baseUrl
      \<and> http_NewRequest envList ''GET''
            (url_String envList (List_baseUrl baseUrl reqList)) jsonReq = Inr newReq
      \<longrightarrow> List envList c ctx reqList =
            (None, Some (FmtErrorf (Status httpRsp)),
             [HttpDo (sentRequest newReq ctx c) (Inr httpRsp), BodyClose]))
   \<and> (protojson_Marshal envRemoveResourcePolicies (getPointer rrp_DisksRemoveResourcePoliciesRequestResource reqRemoveResourcePolicies) = Inr jsonReq
      \<and> url_Parse envRemoveResourcePolicies (endpoint c) = Inr baseUrl
      \<and> http_NewRequest envRemoveResourcePolicies ''POST''
            (url_String envRemoveResourcePolicies (RemoveResourcePolicies_baseUrl baseUrl reqRemoveResourcePolicies)) jsonReq = Inr newReq
      \<longrightarrow> RemoveResourcePolicies envRemoveResourcePolicies c ctx reqRemoveResourcePolicies =
            (None, Some (FmtErrorf (Status httpRsp)),
             [HttpDo (sentRequest newReq ctx c) (Inr httpRsp), BodyClose]))
   \<and> (protojson_Marshal envResize (getPointer rs_DisksResizeRequestResource reqResize) = Inr jsonReq
      \<and> url_Parse envResize (endpoint c) = Inr baseUrl
      \<and> http_NewRequest envResize ''POST''
            (url_String envResize (Resize_baseUrl baseUrl reqResize)) jsonReq = Inr newReq
      \<longrightarrow> Resize envResize c ctx reqResize =
            (None, Some (FmtErrorf (Status httpRsp)),
             [HttpDo (sentRequest newReq ctx c) (Inr httpRsp), BodyClose]))
   \<and> (protojson_Marshal envSetIamPolicy (getPointer sip_ZoneSetPolicyRequestResource reqSetIamPolicy) = Inr jsonReq
      \<and> url_Parse envSetIamPolicy (endpoint c) = Inr baseUrl
      \<and> http_NewRequest envSetIamPolicy ''POST''
            (url_String envSetIamPolicy (SetIamPolicy_baseUrl baseUrl reqSetIamPolicy)) jsonReq = Inr newReq
      \<longrightarrow> SetIamPolicy envSetIamPolicy c ctx reqSetIamPolicy =
            (None, Some (FmtErrorf (Status httpRsp)),
             [HttpDo (sentRequest newReq ctx c) (Inr httpRsp), BodyClose]))
   \<and> (protojson_Marshal envSetLabels (getPointer sl_ZoneSetLabelsRequestResource reqSetLabels) = Inr jsonReq
      \<and> url_Parse envSetLabels (endpoint c) = Inr baseUrl
      \<and> http_NewRequest envSetLabels ''POST''
            (url_String envSetLabels (SetLabels_baseUrl baseUrl reqSetLabels)) jsonReq = Inr newReq
      \<longrightarrow> SetLabels envSetLabels c ctx reqSetLabels =
            (None, Some (FmtErrorf (Status httpRsp)),
             [HttpDo (sentRequest newReq ctx c) (Inr httpRsp), BodyClose]))
   \<and> (protojson_Marshal envTestIamPermissions (getPointer tip_TestPermissionsRequestResource reqTestIamPermissions) = Inr jsonReq
      \<and> url_Parse envTestIamPermissions (endpoint c) = Inr baseUrl
      \<and> http_NewRequest envTestIamPermissions ''POST''
            (url_String envTestIamPermissions (TestIamPermissions_baseUrl baseUrl reqTestIamPermissions)) jsonReq = Inr newReq
      \<longrightarrow> TestIamPermissions envTestIamPermissions c ctx reqTestIamPermissions =
            (None, Some (FmtErrorf (Status httpRsp)),
             [HttpDo (sentRequest newReq ctx c) (Inr httpRsp), BodyClose]))"
  using assms
  by (simp_all add: sentRequest_def
       AddResourcePolicies_def
       AggregatedList_def
       CreateSnapshot_def
       Delete_def
       Get_def
       GetIamPolicy_def
       Insert_def
       List_def
       RemoveResourcePolicies_def
       Resize_def
       SetIamPolicy_def
       SetLabels_def
       TestIamPermissions_def)

text \<open>Each of the thirteen methods, answered with \<open>404 Not Found\<close>.\<close>

theorem non_ok_status_returns_status_error_witness:
  "StatusCode \<lparr>StatusCode = 404, Status = ''404 Not Found'', Body = Inr ''{}''\<rparr> \<noteq> http_StatusOK
   \<and> AddResourcePolicies
       \<lparr>protojson_Marshal = (\<lambda>m. Inr ''{}''),
          protojson_Unmarshal = (\<lambda>buf. (buf, None)),
          url_Parse = (\<lambda>s. Inr \<lparr>Scheme = ''https'', Host = s, Path = [], RawQuery = []\<rparr>),
          url_String = (\<lambda>u. Scheme u @ ''://'' @ Host u @ Path u @ ''?'' @ RawQuery u),
          http_NewRequest = (\<lambda>m u b. Inr \<lparr>Method = m, RequestURL = u, RequestBody = b,
                                           Header = Map.empty, RequestCtx = None\<rparr>)\<rparr>
       \<lparr>endpoint = ''compute.googleapis.com'',
          httpClient = Some (\<lambda>q. Inr \<lparr>StatusCode = 404, Status = ''404 Not Found'', Body = Inr ''{}''\<rparr>),
          xGoogMetadata = Map.empty\<rparr>
       \<lparr>tagMap = None\<rparr>
       (Some \<lparr>arp_Disk = ''d'', arp_DisksAddResourcePoliciesRequestResource = Some ''b'', arp_Project = ''p'', arp_RequestId = Some ''r'', arp_Zone = ''z''\<rparr>)
     = (None, Some (FmtErrorf ''404 Not Found''),
        [HttpDo
           \<lparr>Method = ''POST'',
              RequestURL = ''https://compute.googleapis.com/compute/v1/projects/p/zones/z/disks/d/addResourcePolicies?requestId=r'',
              RequestBody = ''{}'',
              Header = [''Content-Type'' \<mapsto> [''application/json'']],
              RequestCtx = Some \<lparr>tagMap = None\<rparr>\<rparr>
           (Inr \<lparr>StatusCode = 404, Status = ''404 Not Found'', Body = Inr ''{}''\<rparr>),
         BodyClose])
   \<and> AggregatedList
       \<lparr>protojson_Marshal = (\<lambda>m. Inr ''{}''),
          protojson_Unmarshal = (\<lambda>buf. (buf, None)),
          url_Parse = (\<lambda>s. Inr \<lparr>Scheme = ''https'', Host = s, Path = [], RawQuery = []\<rparr>),
          url_String = (\<lambda>u. Scheme u @ ''://'' @ Host u @ Path u @ ''?'' @ RawQuery u),
          http_NewRequest = (\<lambda>m u b. Inr \<lparr>Method = m, RequestURL = u, RequestBody = b,
                                           Header = Map.empty, RequestCtx = None\<rparr>)\<rparr>
       \<lparr>endpoint = ''compute.googleapis.com'',
          httpClient = Some (\<lambda>q. Inr \<lparr>StatusCode = 404, Status = ''404 Not Found'', Body = Inr ''{}''\<rparr>),
          xGoogMetadata = Map.empty\<rparr>
       \<lparr>tagMap = None\<rparr>
       (Some \<lparr>al_Filter = Some ''f'', al_IncludeAllScopes = Some True, al_MaxResults = Some 5, al_OrderBy = Some ''o'', al_PageToken = Some ''p'', al_Project = ''p'', al_ReturnPartialSuccess = Some True\<rparr>)
     = (None, Some (FmtErrorf ''404 Not Found''),
        [HttpDo
           \<lparr>Method = ''GET'',
              RequestURL = ''https://compute.googleapis.com/compute/v1/projects/p/aggregated/disks?filter=f&includeAllScopes=true&maxResults=5&orderBy=o&pageToken=p&returnPartialSuccess=true'',
              RequestBody = ''{}'',
              Header = [''Content-Type'' \<mapsto> [''application/json'']],
              RequestCtx = Some \<lparr>tagMap = None\<rparr>\<rparr>
           (Inr \<lparr>StatusCode = 404, Status = ''404 Not Found'', Body = Inr ''{}''\<rparr>),
         BodyClose])
   \<and> CreateSnapshot
       \<lparr>protojson_Marshal = (\<lambda>m. Inr ''{}''),
          protojson_Unmarshal = (\<lambda>buf. (buf, None)),
          url_Parse = (\<lambda>s. Inr \<lparr>Scheme = ''https'', Host = s, Path = [], RawQuery = []\<rparr>),
          url_String = (\<lambda>u. Scheme u @ ''://'' @ Host u @ Path u @ ''?'' @ RawQuery u),
          http_NewRequest = (\<lambda>m u b. Inr \<lparr>Method = m, RequestURL = u, RequestBody = b,
                                           Header = Map.empty, RequestCtx = None\<rparr>)\<rparr>
       \<lparr>endpoint = ''compute.googleapis.com'',
          httpClient = Some (\<lambda>q. Inr \<lparr>StatusCode = 404, Status = ''404 Not Found'', Body = Inr ''{}''\<rparr>),
          xGoogMetadata = Map.empty\<rparr>
       \<lparr>tagMap = None\<rparr>
       (Some \<lparr>cs_Disk = ''d'', cs_GuestFlush = Some True, cs_Project = ''p'', cs_RequestId = Some ''r'', cs_SnapshotResource = Some ''b'', cs_Zone = ''z''\<rparr>)
     = (None, Some (FmtErrorf ''404 Not Found''),
        [HttpDo
           \<lparr>Method = ''POST'',
              RequestURL = ''https://compute.googleapis.com/compute/v1/projects/p/zones/z/disks/d/createSnapshot?guestFlush=true&requestId=r'',
              RequestBody = ''{}'',
              Header = [''Content-Type'' \<mapsto> [''application/json'']],
              RequestCtx = Some \<lparr>tagMap = None\<rparr>\<rparr>
           (Inr \<lparr>StatusCode = 404, Status = ''404 Not Found'', Body = Inr ''{}''\<rparr>),
         BodyClose])
   \<and> Delete
       \<lparr>protojson_Marshal = (\<lambda>m. Inr ''{}''),
          protojson_Unmarshal = (\<lambda>buf. (buf, None)),
          url_Parse = (\<lambda>s. Inr \<lparr>Scheme = ''https'', Host = s, Path = [], RawQuery = []\<rparr>),
          url_String = (\<lambda>u. Scheme u @ ''://'' @ Host u @ Path u @ ''?'' @ RawQuery u),
          http_NewRequest = (\<lambda>m u b. Inr \<lparr>Method = m, RequestURL = u, RequestBody = b,
                                           Header = Map.empty, RequestCtx = None\<rparr>)\<rparr>
       \<lparr>endpoint = ''compute.googleapis.com'',
          httpClient = Some (\<lambda>q. Inr \<lparr>StatusCode = 404, Status = ''404 Not Found'', Body = Inr ''{}''\<rparr>),
          xGoogMetadata = Map.empty\<rparr>
       \<lparr>tagMap = None\<rparr>
       (Some \<lparr>del_Disk = ''d'', del_Project = ''p'', del_RequestId = Some ''r'', del_Zone = ''z''\<rparr>)
     = (None, Some (FmtErrorf ''404 Not Found''),
        [HttpDo
           \<lparr>Method = ''DELETE'',
              RequestURL = ''https://compute.googleapis.com/compute/v1/projects/p/zones/z/disks/d?requestId=r'',
              RequestBody = ''{}'',
              Header = [''Content-Type'' \<mapsto> [''application/json'']],
              RequestCtx = Some \<lparr>tagMap = None\<rparr>\<rparr>
           (Inr \<lparr>StatusCode = 404, Status = ''404 Not Found'', Body = Inr ''{}''\<rparr>),
         BodyClose])
   \<and> Get
       \<lparr>protojson_Marshal = (\<lambda>m. Inr ''{}''),
          protojson_Unmarshal = (\<lambda>buf. (buf, None)),
          url_Parse = (\<lambda>s. Inr \<lparr>Scheme = ''https'', Host = s, Path = [], RawQuery = []\<rparr>),
          url_String = (\<lambda>u. Scheme u @ ''://'' @ Host u @ Path u @ ''?'' @ RawQuery u),
          http_NewRequest = (\<lambda>m u b. Inr \<lparr>Method = m, RequestURL = u, RequestBody = b,
                                           Header = Map.empty, RequestCtx = None\<rparr>)\<rparr>
       \<lparr>endpoint = ''compute.googleapis.com'',
          httpClient = Some (\<lambda>q. Inr \<lparr>StatusCode = 404, Status = ''404 Not Found'', Body = Inr ''{}''\<rparr>),
          xGoogMetadata = Map.empty\<rparr>
       \<lparr>tagMap = None\<rparr>
       (Some \<lparr>get_Disk = ''d'', get_Project = ''p'', get_Zone = ''z''\<rparr>)
     = (None, Some (FmtErrorf ''404 Not Found''),
        [HttpDo
           \<lparr>Method = ''GET'',
              RequestURL = ''https://compute.googleapis.com/compute/v1/projects/p/zones/z/disks/d?'',
              RequestBody = ''{}'',
              Header = [''Content-Type'' \<mapsto> [''application/json'']],
              RequestCtx = Some \<lparr>tagMap = None\<rparr>\<rparr>
           (Inr \<lparr>StatusCode = 404, Status = ''404 Not Found'', Body = Inr ''{}''\<rparr>),
         BodyClose])
   \<and> GetIamPolicy
       \<lparr>protojson_Marshal = (\<lambda>m. Inr ''{}''),
          protojson_Unmarshal = (\<lambda>buf. (buf, None)),
          url_Parse = (\<lambda>s. Inr \<lparr>Scheme = ''https'', Host = s, Path = [], RawQuery = []\<rparr>),
          url_String = (\<lambda>u. Scheme u @ ''://'' @ Host u @ Path u @ ''?'' @ RawQuery u),
          http_NewRequest = (\<lambda>m u b. Inr \<lparr>Method = m, RequestURL = u, RequestBody = b,
                                           Header = Map.empty, RequestCtx = None\<rparr>)\<rparr>
       \<lparr>endpoint = ''compute.googleapis.com'',
          httpClient = Some (\<lambda>q. Inr \<lparr>StatusCode = 404, Status = ''404 Not Found'', Body = Inr ''{}''\<rparr>),
          xGoogMetadata = Map.empty\<rparr>
       \<lparr>tagMap = None\<rparr>
       (Some \<lparr>gip_OptionsRequestedPolicyVersion = Some 3, gip_Project = ''p'', gip_Resource = ''d'', gip_Zone = ''z''\<rparr>)
     = (None, Some (FmtErrorf ''404 Not Found''),
        [HttpDo
           \<lparr>Method = ''GET'',
              RequestURL = ''https://compute.googleapis.com/compute/v1/projects/p/zones/z/disks/d/getIamPolicy?optionsRequestedPolicyVersion=3'',
              RequestBody = ''{}'',
              Header = [''Content-Type'' \<mapsto> [''application/json'']],
              RequestCtx = Some \<lparr>tagMap = None\<rparr>\<rparr>
           (Inr \<lparr>StatusCode = 404, Status = ''404 Not Found'', Body = Inr ''{}''\<rparr>),
         BodyClose])
   \<and> Insert
       \<lparr>protojson_Marshal = (\<lambda>m. Inr ''{}''),
          protojson_Unmarshal = (\<lambda>buf. (buf, None)),
          url_Parse = (\<lambda>s. Inr \<lparr>Scheme = ''https'', Host = s, Path = [], RawQuery = []\<rparr>),
          url_String = (\<lambda>u. Scheme u @ ''://'' @ Host u @ Path u @ ''?'' @ RawQuery u),
          http_NewRequest = (\<lambda>m u b. Inr \<lparr>Method = m, RequestURL = u, RequestBody = b,
                                           Header = Map.empty, RequestCtx = None\<rparr>)\<rparr>
       \<lparr>endpoint = ''compute.googleapis.com'',
          httpClient = Some (\<lambda>q. Inr \<lparr>StatusCode = 404, Status = ''404 Not Found'', Body = Inr ''{}''\<rparr>),
          xGoogMetadata = Map.empty\<rparr>
       \<lparr>tagMap = None\<rparr>
       (Some \<lparr>ins_DiskResource = Some ''b'', ins_Project = ''p'', ins_RequestId = Some ''r'', ins_SourceImage = Some ''s'', ins_Zone = ''z''\<rparr>)
     = (None, Some (FmtErrorf ''404 Not Found''),
        [HttpDo
           \<lparr>Method = ''POST'',
              RequestURL = ''https://compute.googleapis.com/compute/v1/projects/p/zones/z/disks?requestId=r&sourceImage=s'',
              RequestBody = ''{}'',
              Header = [''Content-Type'' \<mapsto> [''application/json'']],
              RequestCtx = Some \<lparr>tagMap = None\<rparr>\<rparr>
           (Inr \<lparr>StatusCode = 404, Status = ''404 Not Found'', Body = Inr ''{}''\<rparr>),
         BodyClose])
   \<and> List
       \<lparr>protojson_Marshal = (\<lambda>m. Inr ''{}''),
          protojson_Unmarshal = (\<lambda>buf. (buf, None)),
          url_Parse = (\<lambda>s. Inr \<lparr>Scheme = ''https'', Host = s, Path = [], RawQuery = []\<rparr>),
          url_String = (\<lambda>u. Scheme u @ ''://'' @ Host u @ Path u @ ''?'' @ RawQuery u),
          http_NewRequest = (\<lambda>m u b. Inr \<lparr>Method = m, RequestURL = u, RequestBody = b,
                                           Header = Map.empty, RequestCtx = None\<rparr>)\<rparr>
       \<lparr>endpoint = ''compute.googleapis.com'',
          httpClient = Some (\<lambda>q. Inr \<lparr>StatusCode = 404, Status = ''404 Not Found'', Body = Inr ''{}''\<rparr>),
          xGoogMetadata = Map.empty\<rparr>
       \<lparr>tagMap = None\<rparr>
       (Some \<lparr>ld_Filter = Some ''f'', ld_MaxResults = Some 5, ld_OrderBy = Some ''o'', ld_PageToken = Some ''p'', ld_Project = ''p'', ld_ReturnPartialSuccess = Some True, ld_Zone = ''z''\<rparr>)
     = (None, Some (FmtErrorf ''404 Not Found''),
        [HttpDo
           \<lparr>Method = ''GET'',
              RequestURL = ''https://compute.googleapis.com/compute/v1/projects/p/zones/z/disks?filter=f&maxResults=5&orderBy=o&pageToken=p&returnPartialSuccess=true'',
              RequestBody = ''{}'',
              Header = [''Content-Type'' \<mapsto> [''application/json'']],
              RequestCtx = Some \<lparr>tagMap = None\<rparr>\<rparr>
           (Inr \<lparr>StatusCode = 404, Status = ''404 Not Found'', Body = Inr ''{}''\<rparr>),
         BodyClose])
   \<and> RemoveResourcePolicies
       \<lparr>protojson_Marshal = (\<lambda>m. Inr ''{}''),
          protojson_Unmarshal = (\<lambda>buf. (buf, None)),
          url_Parse = (\<lambda>s. Inr \<lparr>Scheme = ''https'', Host = s, Path = [], RawQuery = []\<rparr>),
          url_String = (\<lambda>u. Scheme u @ ''://'' @ Host u @ Path u @ ''?'' @ RawQuery u),
          http_NewRequest = (\<lambda>m u b. Inr \<lparr>Method = m, RequestURL = u, RequestBody = b,
                                           Header = Map.empty, RequestCtx = None\<rparr>)\<rparr>
       \<lparr>endpoint = ''compute.googleapis.com'',
          httpClient = Some (\<lambda>q. Inr \<lparr>StatusCode = 404, Status = ''404 Not Found'', Body = Inr ''{}''\<rparr>),
          xGoogMetadata = Map.empty\<rparr>
       \<lparr>tagMap = None\<rparr>
       (Some \<lparr>rrp_Disk = ''d'', rrp_DisksRemoveResourcePoliciesRequestResource = Some ''b'', rrp_Project = ''p'', rrp_RequestId = Some ''r'', rrp_Zone = ''z''\<rparr>)
     = (None, Some (FmtErrorf ''404 Not Found''),
        [HttpDo
           \<lparr>Method = ''POST'',
              RequestURL = ''https://compute.googleapis.com/compute/v1/projects/p/zones/z/disks/d/removeResourcePolicies?requestId=r'',
              RequestBody = ''{}'',
              Header = [''Content-Type'' \<mapsto> [''application/json'']],
              RequestCtx = Some \<lparr>tagMap = None\<rparr>\<rparr>
           (Inr \<lparr>StatusCode = 404, Status = ''404 Not Found'', Body = Inr ''{}''\<rparr>),
         BodyClose])
   \<and> Resize
       \<lparr>protojson_Marshal = (\<lambda>m. Inr ''{}''),
          protojson_Unmarshal = (\<lambda>buf. (buf, None)),
          url_Parse = (\<lambda>s. Inr \<lparr>Scheme = ''https'', Host = s, Path = [], RawQuery = []\<rparr>),
          url_String = (\<lambda>u. Scheme u @ ''://'' @ Host u @ Path u @ ''?'' @ RawQuery u),
          http_NewRequest = (\<lambda>m u b. Inr \<lparr>Method = m, RequestURL = u, RequestBody = b,
                                           Header = Map.empty, RequestCtx = None\<rparr>)\<rparr>
       \<lparr>endpoint = ''compute.googleapis.com'',
          httpClient = Some (\<lambda>q. Inr \<lparr>StatusCode = 404, Status = ''404 Not Found'', Body = Inr ''{}''\<rparr>),
          xGoogMetadata = Map.empty\<rparr>
       \<lparr>tagMap = None\<rparr>
       (Some \<lparr>rs_Disk = ''d'', rs_DisksResizeRequestResource = Some ''b'', rs_Project = ''p'', rs_RequestId = Some ''r'', rs_Zone = ''z''\<rparr>)
     = (None, Some (FmtErrorf ''404 Not Found''),
        [HttpDo
           \<lparr>Method = ''POST'',
              RequestURL = ''https://compute.googleapis.com/compute/v1/projects/p/zones/z/disks/d/resize?requestId=r'',
              RequestBody = ''{}'',
              Header = [''Content-Type'' \<mapsto> [''application/json'']],
              RequestCtx = Some \<lparr>tagMap = None\<rparr>\<rparr>
           (Inr \<lparr>StatusCode = 404, Status = ''404 Not Found'', Body = Inr ''{}''\<rparr>),
         BodyClose])
   \<and> SetIamPolicy
       \<lparr>protojson_Marshal = (\<lambda>m. Inr ''{}''),
          protojson_Unmarshal = (\<lambda>buf. (buf, None)),
          url_Parse = (\<lambda>s. Inr \<lparr>Scheme = ''https'', Host = s, Path = [], RawQuery = []\<rparr>),
          url_String = (\<lambda>u. Scheme u @ ''://'' @ Host u @ Path u @ ''?'' @ RawQuery u),
          http_NewRequest = (\<lambda>m u b. Inr \<lparr>Method = m, RequestURL = u, RequestBody = b,
                                           Header = Map.empty, RequestCtx = None\<rparr>)\<rparr>
       \<lparr>endpoint = ''compute.googleapis.com'',
          httpClient = Some (\<lambda>q. Inr \<lparr>StatusCode = 404, Status = ''404 Not Found'', Body = Inr ''{}''\<rparr>),
          xGoogMetadata = Map.empty\<rparr>
       \<lparr>tagMap = None\<rparr>
       (Some \<lparr>sip_Project = ''p'', sip_Resource = ''d'', sip_Zone = ''z'', sip_ZoneSetPolicyRequestResource = Some ''b''\<rparr>)
     = (None, Some (FmtErrorf ''404 Not Found''),
        [HttpDo
           \<lparr>Method = ''POST'',
              RequestURL = ''https://compute.googleapis.com/compute/v1/projects/p/zones/z/disks/d/setIamPolicy?'',
              RequestBody = ''{}'',
              Header = [''Content-Type'' \<mapsto> [''application/json'']],
              RequestCtx = Some \<lparr>tagMap = None\<rparr>\<rparr>
           (Inr \<lparr>StatusCode = 404, Status = ''404 Not Found'', Body = Inr ''{}''\<rparr>),
         BodyClose])
   \<and> SetLabels
       \<lparr>protojson_Marshal = (\<lambda>m. Inr ''{}''),
          protojson_Unmarshal = (\<lambda>buf. (buf, None)),
          url_Parse = (\<lambda>s. Inr \<lparr>Scheme = ''https'', Host = s, Path = [], RawQuery = []\<rparr>),
          url_String = (\<lambda>u. Scheme u @ ''://'' @ Host u @ Path u @ ''?'' @ RawQuery u),
          http_NewRequest = (\<lambda>m u b. Inr \<lparr>Method = m, RequestURL = u, RequestBody = b,
                                           Header = Map.empty, RequestCtx = None\<rparr>)\<rparr>
       \<lparr>endpoint = ''compute.googleapis.com'',
          httpClient = Some (\<lambda>q. Inr \<lparr>StatusCode = 404, Status = ''404 Not Found'', Body = Inr ''{}''\<rparr>),
          xGoogMetadata = Map.empty\<rparr>
       \<lparr>tagMap = None\<rparr>
       (Some \<lparr>sl_Project = ''p'', sl_RequestId = Some ''r'', sl_Resource = ''d'', sl_Zone = ''z'', sl_ZoneSetLabelsRequestResource = Some ''b''\<rparr>)
     = (None, Some (FmtErrorf ''404 Not Found''),
        [HttpDo
           \<lparr>Method = ''POST'',
              RequestURL = ''https://compute.googleapis.com/compute/v1/projects/p/zones/z/disks/d/setLabels?requestId=r'',
              RequestBody = ''{}'',
              Header = [''Content-Type'' \<mapsto> [''application/json'']],
              RequestCtx = Some \<lparr>tagMap = None\<rparr>\<rparr>
           (Inr \<lparr>StatusCode = 404, Status = ''404 Not Found'', Body = Inr ''{}''\<rparr>),
         BodyClose])
   \<and> TestIamPermissions
       \<lparr>protojson_Marshal = (\<lambda>m. Inr ''{}''),
          protojson_Unmarshal = (\<lambda>buf. (buf, None)),
          url_Parse = (\<lambda>s. Inr \<lparr>Scheme = ''https'', Host = s, Path = [], RawQuery = []\<rparr>),
          url_String = (\<lambda>u. Scheme u @ ''://'' @ Host u @ Path u @ ''?'' @ RawQuery u),
          http_NewRequest = (\<lambda>m u b. Inr \<lparr>Method = m, RequestURL = u, RequestBody = b,
                                           Header = Map.empty, RequestCtx = None\<rparr>)\<rparr>
       \<lparr>endpoint = ''compute.googleapis.com'',
          httpClient = Some (\<lambda>q. Inr \<lparr>StatusCode = 404, Status = ''404 Not Found'', Body = Inr ''{}''\<rparr>),
          xGoogMetadata = Map.empty\<rparr>
       \<lparr>tagMap = None\<rparr>
       (Some \<lparr>tip_Project = ''p'', tip_Resource = ''d'', tip_TestPermissionsRequestResource = Some ''b'', tip_Zone = ''z''\<rparr>)
     = (None, Some (FmtErrorf ''404 Not Found''),
        [HttpDo
           \<lparr>Method = ''POST'',
              RequestURL = ''https://compute.googleapis.com/compute/v1/projects/p/zones/z/disks/d/testIamPermissions?'',
              RequestBody = ''{}'',
              Header = [''Content-Type'' \<mapsto> [''application/json'']],
              RequestCtx = Some \<lparr>tagMap = None\<rparr>\<rparr>
           (Inr \<lparr>StatusCode = 404, Status = ''404 Not Found'', Body = Inr ''{}''\<rparr>),
         BodyClose])"
proof -
  have hc: "httpClient \<lparr>endpoint = ''compute.googleapis.com'',
          httpClient = Some (\<lambda>q. Inr \<lparr>StatusCode = 404, Status = ''404 Not Found'', Body = Inr ''{}''\<rparr>),
          xGoogMetadata = Map.empty\<rparr>
      = Some (\<lambda>q. Inr \<lparr>StatusCode = 404, Status = ''404 Not Found'', Body = Inr ''{}''\<rparr>)" by simp
  have ha: "(Inr \<lparr>StatusCode = 404, Status = ''404 Not Found'', Body = Inr ''{}''\<rparr> :: go_error + Response) = Inr \<lparr>StatusCode = 404, Status = ''404 Not Found'', Body = Inr ''{}''\<rparr>" by simp
  have hs: "StatusCode \<lparr>StatusCode = 404, Status = ''404 Not Found'', Body = Inr ''{}''\<rparr> \<noteq> http_StatusOK" by (simp add: http_StatusOK_def)
  note t0 = non_ok_status_returns_status_error
    [where c = "\<lparr>endpoint = ''compute.googleapis.com'',
          httpClient = Some (\<lambda>q. Inr \<lparr>StatusCode = 404, Status = ''404 Not Found'', Body = Inr ''{}''\<rparr>),
          xGoogMetadata = Map.empty\<rparr>"
      and ctx = "\<lparr>tagMap = None\<rparr>"
      and client = "\<lambda>q. Inr \<lparr>StatusCode = 404, Status = ''404 Not Found'', Body = Inr ''{}''\<rparr>"
      and httpRsp = "\<lparr>StatusCode = 404, Status = ''404 Not Found'', Body = Inr ''{}''\<rparr>"
      and jsonReq = "''{}''"
      and baseUrl = "\<lparr>Scheme = ''https'', Host = ''compute.googleapis.com'', Path = [], RawQuery = []\<rparr>"
      and newReq = "\<lparr>Method = ''POST'', RequestURL = ''https://compute.googleapis.com/compute/v1/projects/p/zones/z/disks/d/addResourcePolicies?requestId=r'',
            RequestBody = ''{}'', Header = Map.empty, RequestCtx = None\<rparr>"
      and envAddResourcePolicies = "\<lparr>protojson_Marshal = (\<lambda>m. Inr ''{}''),
          protojson_Unmarshal = (\<lambda>buf. (buf, None)),
          url_Parse = (\<lambda>s. Inr \<lparr>Scheme = ''https'', Host = s, Path = [], RawQuery = []\<rparr>),
          url_String = (\<lambda>u. Scheme u @ ''://'' @ Host u @ Path u @ ''?'' @ RawQuery u),
          http_NewRequest = (\<lambda>m u b. Inr \<lparr>Method = m, RequestURL = u, RequestBody = b,
                                           Header = Map.empty, RequestCtx = None\<rparr>)\<rparr>"
      and reqAddResourcePolicies = "Some \<lparr>arp_Disk = ''d'', arp_DisksAddResourcePoliciesRequestResource = Some ''b'', arp_Project = ''p'', arp_RequestId = Some ''r'', arp_Zone = ''z''\<rparr>",
      OF hc ha hs, THEN conjunct1]
  have r0: "AddResourcePolicies
       \<lparr>protojson_Marshal = (\<lambda>m. Inr ''{}''),
          protojson_Unmarshal = (\<lambda>buf. (buf, None)),
          url_Parse = (\<lambda>s. Inr \<lparr>Scheme = ''https'', Host = s, Path = [], RawQuery = []\<rparr>),
          url_String = (\<lambda>u. Scheme u @ ''://'' @ Host u @ Path u @ ''?'' @ RawQuery u),
          http_NewRequest = (\<lambda>m u b. Inr \<lparr>Method = m, RequestURL = u, RequestBody = b,
                                           Header = Map.empty, RequestCtx = None\<rparr>)\<rparr>
       \<lparr>endpoint = ''compute.googleapis.com'',
          httpClient = Some (\<lambda>q. Inr \<lparr>StatusCode = 404, Status = ''404 Not Found'', Body = Inr ''{}''\<rparr>),
          xGoogMetadata = Map.empty\<rparr>
       \<lparr>tagMap = None\<rparr>
       (Some \<lparr>arp_Disk = ''d'', arp_DisksAddResourcePoliciesRequestResource = Some ''b'', arp_Project = ''p'', arp_RequestId = Some ''r'', arp_Zone = ''z''\<rparr>)
     = (None, Some (FmtErrorf ''404 Not Found''),
        [HttpDo
           \<lparr>Method = ''POST'',
              RequestURL = ''https://compute.googleapis.com/compute/v1/projects/p/zones/z/disks/d/addResourcePolicies?requestId=r'',
              RequestBody = ''{}'',
              Header = [''Content-Type'' \<mapsto> [''application/json'']],
              RequestCtx = Some \<lparr>tagMap = None\<rparr>\<rparr>
           (Inr \<lparr>StatusCode = 404, Status = ''404 Not Found'', Body = Inr ''{}''\<rparr>),
         BodyClose])"
    using t0
    by (simp add: AddResourcePolicies_baseUrl_def Let_def isSet_def getOptField_def getField_def getPointer_def
        url_Values_Add_def url_Values_Encode_def url_QueryEscape_def escapeByte_def
        shouldEscape_def upperhex_def Sprintf_v_string_def Sprintf_v_bool_def
        Sprintf_v_uint32_def Sprintf_v_int32_def formatDecimal.simps decimalDigits_def
        sentRequest_def)
  note t1 = non_ok_status_returns_status_error
    [where c = "\<lparr>endpoint = ''compute.googleapis.com'',
          httpClient = Some (\<lambda>q. Inr \<lparr>StatusCode = 404, Status = ''404 Not Found'', Body = Inr ''{}''\<rparr>),
          xGoogMetadata = Map.empty\<rparr>"
      and ctx = "\<lparr>tagMap = None\<rparr>"
      and client = "\<lambda>q. Inr \<lparr>StatusCode = 404, Status = ''404 Not Found'', Body = Inr ''{}''\<rparr>"
      and httpRsp = "\<lparr>StatusCode = 404, Status = ''404 Not Found'', Body = Inr ''{}''\<rparr>"
      and jsonReq = "''{}''"
      and baseUrl = "\<lparr>Scheme = ''https'', Host = ''compute.googleapis.com'', Path = [], RawQuery = []\<rparr>"
      and newReq = "\<lparr>Method = ''GET'', RequestURL = ''https://compute.googleapis.com/compute/v1/projects/p/aggregated/disks?filter=f&includeAllScopes=true&maxResults=5&orderBy=o&pageToken=p&returnPartialSuccess=true'',
            RequestBody = ''{}'', Header = Map.empty, RequestCtx = None\<rparr>"
      and envAggregatedList = "\<lparr>protojson_Marshal = (\<lambda>m. Inr ''{}''),
          protojson_Unmarshal = (\<lambda>buf. (buf, None)),
          url_Parse = (\<lambda>s. Inr \<lparr>Scheme = ''https'', Host = s, Path = [], RawQuery = []\<rparr>),
          url_String = (\<lambda>u. Scheme u @ ''://'' @ Host u @ Path u @ ''?'' @ RawQuery u),
          http_NewRequest = (\<lambda>m u b. Inr \<lparr>Method = m, RequestURL = u, RequestBody = b,
                                           Header = Map.empty, RequestCtx = None\<rparr>)\<rparr>"
      and reqAggregatedList = "Some \<lparr>al_Filter = Some ''f'', al_IncludeAllScopes = Some True, al_MaxResults = Some 5, al_OrderBy = Some ''o'', al_PageToken = Some ''p'', al_Project = ''p'', al_ReturnPartialSuccess = Some True\<rparr>",
      OF hc ha hs, THEN conjunct2, THEN conjunct1]
  have r1: "AggregatedList
       \<lparr>protojson_Marshal = (\<lambda>m. Inr ''{}''),
          protojson_Unmarshal = (\<lambda>buf. (buf, None)),
          url_Parse = (\<lambda>s. Inr \<lparr>Scheme = ''https'', Host = s, Path = [], RawQuery = []\<rparr>),
          url_String = (\<lambda>u. Scheme u @ ''://'' @ Host u @ Path u @ ''?'' @ RawQuery u),
          http_NewRequest = (\<lambda>m u b. Inr \<lparr>Method = m, RequestURL = u, RequestBody = b,
                                           Header = Map.empty, RequestCtx = None\<rparr>)\<rparr>
       \<lparr>endpoint = ''compute.googleapis.com'',
          httpClient = Some (\<lambda>q. Inr \<lparr>StatusCode = 404, Status = ''404 Not Found'', Body = Inr ''{}''\<rparr>),
          xGoogMetadata = Map.empty\<rparr>
       \<lparr>tagMap = None\<rparr>
       (Some \<lparr>al_Filter = Some ''f'', al_IncludeAllScopes = Some True, al_MaxResults = Some 5, al_OrderBy = Some ''o'', al_PageToken = Some ''p'', al_Project = ''p'', al_ReturnPartialSuccess = Some True\<rparr>)
     = (None, Some (FmtErrorf ''404 Not Found''),
        [HttpDo
           \<lparr>Method = ''GET'',
              RequestURL = ''https://compute.googleapis.com/compute/v1/projects/p/aggregated/disks?filter=f&includeAllScopes=true&maxResults=5&orderBy=o&pageToken=p&returnPartialSuccess=true'',
              RequestBody = ''{}'',
              Header = [''Content-Type'' \<mapsto> [''application/json'']],
              RequestCtx = Some \<lparr>tagMap = None\<rparr>\<rparr>
           (Inr \<lparr>StatusCode = 404, Status = ''404 Not Found'', Body = Inr ''{}''\<rparr>),
         BodyClose])"
    using t1
    by (simp add: AggregatedList_baseUrl_def Let_def isSet_def getOptField_def getField_def getPointer_def
        url_Values_Add_def url_Values_Encode_def url_QueryEscape_def escapeByte_def
        shouldEscape_def upperhex_def Sprintf_v_string_def Sprintf_v_bool_def
        Sprintf_v_uint32_def Sprintf_v_int32_def formatDecimal.simps decimalDigits_def
        sentRequest_def)
  note t2 = non_ok_status_returns_status_error
    [where c = "\<lparr>endpoint = ''compute.googleapis.com'',
          httpClient = Some (\<lambda>q. Inr \<lparr>StatusCode = 404, Status = ''404 Not Found'', Body = Inr ''{}''\<rparr>),
          xGoogMetadata = Map.empty\<rparr>"
      and ctx = "\<lparr>tagMap = None\<rparr>"
      and client = "\<lambda>q. Inr \<lparr>StatusCode = 404, Status = ''404 Not Found'', Body = Inr ''{}''\<rparr>"
      and httpRsp = "\<lparr>StatusCode = 404, Status = ''404 Not Found'', Body = Inr ''{}''\<rparr>"
      and jsonReq = "''{}''"
      and baseUrl = "\<lparr>Scheme = ''https'', Host = ''compute.googleapis.com'', Path = [], RawQuery = []\<rparr>"
      and newReq = "\<lparr>Method = ''POST'', RequestURL = ''https://compute.googleapis.com/compute/v1/projects/p/zones/z/disks/d/createSnapshot?guestFlush=true&requestId=r'',
            RequestBody = ''{}'', Header = Map.empty, RequestCtx = None\<rparr>"
      and envCreateSnapshot = "\<lparr>protojson_Marshal = (\<lambda>m. Inr ''{}''),
          protojson_Unmarshal = (\<lambda>buf. (buf, None)),
          url_Parse = (\<lambda>s. Inr \<lparr>Scheme = ''https'', Host = s, Path = [], RawQuery = []\<rparr>),
          url_String = (\<lambda>u. Scheme u @ ''://'' @ Host u @ Path u @ ''?'' @ RawQuery u),
          http_NewRequest = (\<lambda>m u b. Inr \<lparr>Method = m, RequestURL = u, RequestBody = b,
                                           Header = Map.empty, RequestCtx = None\<rparr>)\<rparr>"
      and reqCreateSnapshot = "Some \<lparr>cs_Disk = ''d'', cs_GuestFlush = Some True, cs_Project = ''p'', cs_RequestId = Some ''r'', cs_SnapshotResource = Some ''b'', cs_Zone = ''z''\<rparr>",
      OF hc ha hs, THEN conjunct2, THEN conjunct2, THEN conjunct1]
  have r2: "CreateSnapshot
       \<lparr>protojson_Marshal = (\<lambda>m. Inr ''{}''),
          protojson_Unmarshal = (\<lambda>buf. (buf, None)),
          url_Parse = (\<lambda>s. Inr \<lparr>Scheme = ''https'', Host = s, Path = [], RawQuery = []\<rparr>),
          url_String = (\<lambda>u. Scheme u @ ''://'' @ Host u @ Path u @ ''?'' @ RawQuery u),
          http_NewRequest = (\<lambda>m u b. Inr \<lparr>Method = m, RequestURL = u, RequestBody = b,
                                           Header = Map.empty, RequestCtx = None\<rparr>)\<rparr>
       \<lparr>endpoint = ''compute.googleapis.com'',
          httpClient = Some (\<lambda>q. Inr \<lparr>StatusCode = 404, Status = ''404 Not Found'', Body = Inr ''{}''\<rparr>),
          xGoogMetadata = Map.empty\<rparr>
       \<lparr>tagMap = None\<rparr>
       (Some \<lparr>cs_Disk = ''d'', cs_GuestFlush = Some True, cs_Project = ''p'', cs_RequestId = Some ''r'', cs_SnapshotResource = Some ''b'', cs_Zone = ''z''\<rparr>)
     = (None, Some (FmtErrorf ''404 Not Found''),
        [HttpDo
           \<lparr>Method = ''POST'',
              RequestURL = ''https://compute.googleapis.com/compute/v1/projects/p/zones/z/disks/d/createSnapshot?guestFlush=true&requestId=r'',
              RequestBody = ''{}'',
              Header = [''Content-Type'' \<mapsto> [''application/json'']],
              RequestCtx = Some \<lparr>tagMap = None\<rparr>\<rparr>
           (Inr \<lparr>StatusCode = 404, Status = ''404 Not Found'', Body = Inr ''{}''\<rparr>),
         BodyClose])"
    using t2
    by (simp add: CreateSnapshot_baseUrl_def Let_def isSet_def getOptField_def getField_def getPointer_def
        url_Values_Add_def url_Values_Encode_def url_QueryEscape_def escapeByte_def
        shouldEscape_def upperhex_def Sprintf_v_string_def Sprintf_v_bool_def
        Sprintf_v_uint32_def Sprintf_v_int32_def formatDecimal.simps decimalDigits_def
        sentRequest_def)
  note t3 = non_ok_status_returns_status_error
    [where c = "\<lparr>endpoint = ''compute.googleapis.com'',
          httpClient = Some (\<lambda>q. Inr \<lparr>StatusCode = 404, Status = ''404 Not Found'', Body = Inr ''{}''\<rparr>),
          xGoogMetadata = Map.empty\<rparr>"
      and ctx = "\<lparr>tagMap = None\<rparr>"
      and client = "\<lambda>q. Inr \<lparr>StatusCode = 404, Status = ''404 Not Found'', Body = Inr ''{}''\<rparr>"
      and httpRsp = "\<lparr>StatusCode = 404, Status = ''404 Not Found'', Body = Inr ''{}''\<rparr>"
      and jsonReq = "''{}''"
      and baseUrl = "\<lparr>Scheme = ''https'', Host = ''compute.googleapis.com'', Path = [], RawQuery = []\<rparr>"
      and newReq = "\<lparr>Method = ''DELETE'', RequestURL = ''https://compute.googleapis.com/compute/v1/projects/p/zones/z/disks/d?requestId=r'',
            RequestBody = ''{}'', Header = Map.empty, RequestCtx = None\<rparr>"
      and envDelete = "\<lparr>protojson_Marshal = (\<lambda>m. Inr ''{}''),
          protojson_Unmarshal = (\<lambda>buf. (buf, None)),
          url_Parse = (\<lambda>s. Inr \<lparr>Scheme = ''https'', Host = s, Path = [], RawQuery = []\<rparr>),
          url_String = (\<lambda>u. Scheme u @ ''://'' @ Host u @ Path u @ ''?'' @ RawQuery u),
          http_NewRequest = (\<lambda>m u b. Inr \<lparr>Method = m, RequestURL = u, RequestBody = b,
                                           Header = Map.empty, RequestCtx = None\<rparr>)\<rparr>"
      and reqDelete = "Some \<lparr>del_Disk = ''d'', del_Project = ''p'', del_RequestId = Some ''r'', del_Zone = ''z''\<rparr>",
      OF hc ha hs, THEN conjunct2, THEN conjunct2, THEN conjunct2, THEN conjunct1]
  have r3: "Delete
       \<lparr>protojson_Marshal = (\<lambda>m. Inr ''{}''),
          protojson_Unmarshal = (\<lambda>buf. (buf, None)),
          url_Parse = (\<lambda>s. Inr \<lparr>Scheme = ''https'', Host = s, Path = [], RawQuery = []\<rparr>),
          url_String = (\<lambda>u. Scheme u @ ''://'' @ Host u @ Path u @ ''?'' @ RawQuery u),
          http_NewRequest = (\<lambda>m u b. Inr \<lparr>Method = m, RequestURL = u, RequestBody = b,
                                           Header = Map.empty, RequestCtx = None\<rparr>)\<rparr>
       \<lparr>endpoint = ''compute.googleapis.com'',
          httpClient = Some (\<lambda>q. Inr \<lparr>StatusCode = 404, Status = ''404 Not Found'', Body = Inr ''{}''\<rparr>),
          xGoogMetadata = Map.empty\<rparr>
       \<lparr>tagMap = None\<rparr>
       (Some \<lparr>del_Disk = ''d'', del_Project = ''p'', del_RequestId = Some ''r'', del_Zone = ''z''\<rparr>)
     = (None, Some (FmtErrorf ''404 Not Found''),
        [HttpDo
           \<lparr>Method = ''DELETE'',
              RequestURL = ''https://compute.googleapis.com/compute/v1/projects/p/zones/z/disks/d?requestId=r'',
              RequestBody = ''{}'',
              Header = [''Content-Type'' \<mapsto> [''application/json'']],
              RequestCtx = Some \<lparr>tagMap = None\<rparr>\<rparr>
           (Inr \<lparr>StatusCode = 404, Status = ''404 Not Found'', Body = Inr ''{}''\<rparr>),
         BodyClose])"
    using t3
    by (simp add: Delete_baseUrl_def Let_def isSet_def getOptField_def getField_def getPointer_def
        url_Values_Add_def url_Values_Encode_def url_QueryEscape_def escapeByte_def
        shouldEscape_def upperhex_def Sprintf_v_string_def Sprintf_v_bool_def
        Sprintf_v_uint32_def Sprintf_v_int32_def formatDecimal.simps decimalDigits_def
        sentRequest_def)
  note t4 = non_ok_status_returns_status_error
    [where c = "\<lparr>endpoint = ''compute.googleapis.com'',
          httpClient = Some (\<lambda>q. Inr \<lparr>StatusCode = 404, Status = ''404 Not Found'', Body = Inr ''{}''\<rparr>),
          xGoogMetadata = Map.empty\<rparr>"
      and ctx = "\<lparr>tagMap = None\<rparr>"
      and client = "\<lambda>q. Inr \<lparr>StatusCode = 404, Status = ''404 Not Found'', Body = Inr ''{}''\<rparr>"
      and httpRsp = "\<lparr>StatusCode = 404, Status = ''404 Not Found'', Body = Inr ''{}''\<rparr>"
      and jsonReq = "''{}''"
      and baseUrl = "\<lparr>Scheme = ''https'', Host = ''compute.googleapis.com'', Path = [], RawQuery = []\<rparr>"
      and newReq = "\<lparr>Method = ''GET'', RequestURL = ''https://compute.googleapis.com/compute/v1/projects/p/zones/z/disks/d?'',
            RequestBody = ''{}'', Header = Map.empty, RequestCtx = None\<rparr>"
      and envGet = "\<lparr>protojson_Marshal = (\<lambda>m. Inr ''{}''),
          protojson_Unmarshal = (\<lambda>buf. (buf, None)),
          url_Parse = (\<lambda>s. Inr \<lparr>Scheme = ''https'', Host = s, Path = [], RawQuery = []\<rparr>),
          url_String = (\<lambda>u. Scheme u @ ''://'' @ Host u @ Path u @ ''?'' @ RawQuery u),
          http_NewRequest = (\<lambda>m u b. Inr \<lparr>Method = m, RequestURL = u, RequestBody = b,
                                           Header = Map.empty, RequestCtx = None\<rparr>)\<rparr>"
      and reqGet = "Some \<lparr>get_Disk = ''d'', get_Project = ''p'', get_Zone = ''z''\<rparr>",
      OF hc ha hs, THEN conjunct2, THEN conjunct2, THEN conjunct2, THEN conjunct2, THEN conjunct1]
  have r4: "Get
       \<lparr>protojson_Marshal = (\<lambda>m. Inr ''{}''),
          protojson_Unmarshal = (\<lambda>buf. (buf, None)),
          url_Parse = (\<lambda>s. Inr \<lparr>Scheme = ''https'', Host = s, Path = [], RawQuery = []\<rparr>),
          url_String = (\<lambda>u. Scheme u @ ''://'' @ Host u @ Path u @ ''?'' @ RawQuery u),
          http_NewRequest = (\<lambda>m u b. Inr \<lparr>Method = m, RequestURL = u, RequestBody = b,
                                           Header = Map.empty, RequestCtx = None\<rparr>)\<rparr>
       \<lparr>endpoint = ''compute.googleapis.com'',
          httpClient = Some (\<lambda>q. Inr \<lparr>StatusCode = 404, Status = ''404 Not Found'', Body = Inr ''{}''\<rparr>),
          xGoogMetadata = Map.empty\<rparr>
       \<lparr>tagMap = None\<rparr>
       (Some \<lparr>get_Disk = ''d'', get_Project = ''p'', get_Zone = ''z''\<rparr>)
     = (None, Some (FmtErrorf ''404 Not Found''),
        [HttpDo
           \<lparr>Method = ''GET'',
              RequestURL = ''https://compute.googleapis.com/compute/v1/projects/p/zones/z/disks/d?'',
              RequestBody = ''{}'',
              Header = [''Content-Type'' \<mapsto> [''application/json'']],
              RequestCtx = Some \<lparr>tagMap = None\<rparr>\<rparr>
           (Inr \<lparr>StatusCode = 404, Status = ''404 Not Found'', Body = Inr ''{}''\<rparr>),
         BodyClose])"
    using t4
    by (simp add: Get_baseUrl_def Let_def isSet_def getOptField_def getField_def getPointer_def
        url_Values_Add_def url_Values_Encode_def url_QueryEscape_def escapeByte_def
        shouldEscape_def upperhex_def Sprintf_v_string_def Sprintf_v_bool_def
        Sprintf_v_uint32_def Sprintf_v_int32_def formatDecimal.simps decimalDigits_def
        sentRequest_def)
  note t5 = non_ok_status_returns_status_error
    [where c = "\<lparr>endpoint = ''compute.googleapis.com'',
          httpClient = Some (\<lambda>q. Inr \<lparr>StatusCode = 404, Status = ''404 Not Found'', Body = Inr ''{}''\<rparr>),
          xGoogMetadata = Map.empty\<rparr>"
      and ctx = "\<lparr>tagMap = None\<rparr>"
      and client = "\<lambda>q. Inr \<lparr>StatusCode = 404, Status = ''404 Not Found'', Body = Inr ''{}''\<rparr>"
      and httpRsp = "\<lparr>StatusCode = 404, Status = ''404 Not Found'', Body = Inr ''{}''\<rparr>"
      and jsonReq = "''{}''"
      and baseUrl = "\<lparr>Scheme = ''https'', Host = ''compute.googleapis.com'', Path = [], RawQuery = []\<rparr>"
      and newReq = "\<lparr>Method = ''GET'', RequestURL = ''https://compute.googleapis.com/compute/v1/projects/p/zones/z/disks/d/getIamPolicy?optionsRequestedPolicyVersion=3'',
            RequestBody = ''{}'', Header = Map.empty, RequestCtx = None\<rparr>"
      and envGetIamPolicy = "\<lparr>protojson_Marshal = (\<lambda>m. Inr ''{}''),
          protojson_Unmarshal = (\<lambda>buf. (buf, None)),
          url_Parse = (\<lambda>s. Inr \<lparr>Scheme = ''https'', Host = s, Path = [], RawQuery = []\<rparr>),
          url_String = (\<lambda>u. Scheme u @ ''://'' @ Host u @ Path u @ ''?'' @ RawQuery u),
          http_NewRequest = (\<lambda>m u b. Inr \<lparr>Method = m, RequestURL = u, RequestBody = b,
                                           Header = Map.empty, RequestCtx = None\<rparr>)\<rparr>"
      and reqGetIamPolicy = "Some \<lparr>gip_OptionsRequestedPolicyVersion = Some 3, gip_Project = ''p'', gip_Resource = ''d'', gip_Zone = ''z''\<rparr>",
      OF hc ha hs, THEN conjunct2, THEN conjunct2, THEN conjunct2, THEN conjunct2, THEN conjunct2, THEN conjunct1]
  have r5: "GetIamPolicy
       \<lparr>protojson_Marshal = (\<lambda>m. Inr ''{}''),
          protojson_Unmarshal = (\<lambda>buf. (buf, None)),
          url_Parse = (\<lambda>s. Inr \<lparr>Scheme = ''https'', Host = s, Path = [], RawQuery = []\<rparr>),
          url_String = (\<lambda>u. Scheme u @ ''://'' @ Host u @ Path u @ ''?'' @ RawQuery u),
          http_NewRequest = (\<lambda>m u b. Inr \<lparr>Method = m, RequestURL = u, RequestBody = b,
                                           Header = Map.empty, RequestCtx = None\<rparr>)\<rparr>
       \<lparr>endpoint = ''compute.googleapis.com'',
          httpClient = Some (\<lambda>q. Inr \<lparr>StatusCode = 404, Status = ''404 Not Found'', Body = Inr ''{}''\<rparr>),
          xGoogMetadata = Map.empty\<rparr>
       \<lparr>tagMap = None\<rparr>
       (Some \<lparr>gip_OptionsRequestedPolicyVersion = Some 3, gip_Project = ''p'', gip_Resource = ''d'', gip_Zone = ''z''\<rparr>)
     = (None, Some (FmtErrorf ''404 Not Found''),
        [HttpDo
           \<lparr>Method = ''GET'',
              RequestURL = ''https://compute.googleapis.com/compute/v1/projects/p/zones/z/disks/d/getIamPolicy?optionsRequestedPolicyVersion=3'',
              RequestBody = ''{}'',
              Header = [''Content-Type'' \<mapsto> [''application/json'']],
              RequestCtx = Some \<lparr>tagMap = None\<rparr>\<rparr>
           (Inr \<lparr>StatusCode = 404, Status = ''404 Not Found'', Body = Inr ''{}''\<rparr>),
         BodyClose])"
    using t5
    by (simp add: GetIamPolicy_baseUrl_def Let_def isSet_def getOptField_def getField_def getPointer_def
        url_Values_Add_def url_Values_Encode_def url_QueryEscape_def escapeByte_def
        shouldEscape_def upperhex_def Sprintf_v_string_def Sprintf_v_bool_def
        Sprintf_v_uint32_def Sprintf_v_int32_def formatDecimal.simps decimalDigits_def
        sentRequest_def)
  note t6 = non_ok_status_returns_status_error
    [where c = "\<lparr>endpoint = ''compute.googleapis.com'',
          httpClient = Some (\<lambda>q. Inr \<lparr>StatusCode = 404, Status = ''404 Not Found'', Body = Inr ''{}''\<rparr>),
          xGoogMetadata = Map.empty\<rparr>"
      and ctx = "\<lparr>tagMap = None\<rparr>"
      and client = "\<lambda>q. Inr \<lparr>StatusCode = 404, Status = ''404 Not Found'', Body = Inr ''{}''\<rparr>"
      and httpRsp = "\<lparr>StatusCode = 404, Status = ''404 Not Found'', Body = Inr ''{}''\<rparr>"
      and jsonReq = "''{}''"
      and baseUrl = "\<lparr>Scheme = ''https'', Host = ''compute.googleapis.com'', Path = [], RawQuery = []\<rparr>"
      and newReq = "\<lparr>Method = ''POST'', RequestURL = ''https://compute.googleapis.com/compute/v1/projects/p/zones/z/disks?requestId=r&sourceImage=s'',
            RequestBody = ''{}'', Header = Map.empty, RequestCtx = None\<rparr>"
      and envInsert = "\<lparr>protojson_Marshal = (\<lambda>m. Inr ''{}''),
          protojson_Unmarshal = (\<lambda>buf. (buf, None)),
          url_Parse = (\<lambda>s. Inr \<lparr>Scheme = ''https'', Host = s, Path = [], RawQuery = []\<rparr>),
          url_String = (\<lambda>u. Scheme u @ ''://'' @ Host u @ Path u @ ''?'' @ RawQuery u),
          http_NewRequest = (\<lambda>m u b. Inr \<lparr>Method = m, RequestURL = u, RequestBody = b,
                                           Header = Map.empty, RequestCtx = None\<rparr>)\<rparr>"
      and reqInsert = "Some \<lparr>ins_DiskResource = Some ''b'', ins_Project = ''p'', ins_RequestId = Some ''r'', ins_SourceImage = Some ''s'', ins_Zone = ''z''\<rparr>",
      OF hc ha hs, THEN conjunct2, THEN conjunct2, THEN conjunct2, THEN conjunct2, THEN conjunct2, THEN conjunct2, THEN conjunct1]
  have r6: "Insert
       \<lparr>protojson_Marshal = (\<lambda>m. Inr ''{}''),
          protojson_Unmarshal = (\<lambda>buf. (buf, None)),
          url_Parse = (\<lambda>s. Inr \<lparr>Scheme = ''https'', Host = s, Path = [], RawQuery = []\<rparr>),
          url_String = (\<lambda>u. Scheme u @ ''://'' @ Host u @ Path u @ ''?'' @ RawQuery u),
          http_NewRequest = (\<lambda>m u b. Inr \<lparr>Method = m, RequestURL = u, RequestBody = b,
                                           Header = Map.empty, RequestCtx = None\<rparr>)\<rparr>
       \<lparr>endpoint = ''compute.googleapis.com'',
          httpClient = Some (\<lambda>q. Inr \<lparr>StatusCode = 404, Status = ''404 Not Found'', Body = Inr ''{}''\<rparr>),
          xGoogMetadata = Map.empty\<rparr>
       \<lparr>tagMap = None\<rparr>
       (Some \<lparr>ins_DiskResource = Some ''b'', ins_Project = ''p'', ins_RequestId = Some ''r'', ins_SourceImage = Some ''s'', ins_Zone = ''z''\<rparr>)
     = (None, Some (FmtErrorf ''404 Not Found''),
        [HttpDo
           \<lparr>Method = ''POST'',
              RequestURL = ''https://compute.googleapis.com/compute/v1/projects/p/zones/z/disks?requestId=r&sourceImage=s'',
              RequestBody = ''{}'',
              Header = [''Content-Type'' \<mapsto> [''application/json'']],
              RequestCtx = Some \<lparr>tagMap = None\<rparr>\<rparr>
           (Inr \<lparr>StatusCode = 404, Status = ''404 Not Found'', Body = Inr ''{}''\<rparr>),
         BodyClose])"
    using t6
    by (simp add: Insert_baseUrl_def Let_def isSet_def getOptField_def getField_def getPointer_def
        url_Values_Add_def url_Values_Encode_def url_QueryEscape_def escapeByte_def
        shouldEscape_def upperhex_def Sprintf_v_string_def Sprintf_v_bool_def
        Sprintf_v_uint32_def Sprintf_v_int32_def formatDecimal.simps decimalDigits_def
        sentRequest_def)
  note t7 = non_ok_status_returns_status_error
    [where c = "\<lparr>endpoint = ''compute.googleapis.com'',
          httpClient = Some (\<lambda>q. Inr \<lparr>StatusCode = 404, Status = ''404 Not Found'', Body = Inr ''{}''\<rparr>),
          xGoogMetadata = Map.empty\<rparr>"
      and ctx = "\<lparr>tagMap = None\<rparr>"
      and client = "\<lambda>q. Inr \<lparr>StatusCode = 404, Status = ''404 Not Found'', Body = Inr ''{}''\<rparr>"
      and httpRsp = "\<lparr>StatusCode = 404, Status = ''404 Not Found'', Body = Inr ''{}''\<rparr>"
      and jsonReq = "''{}''"
      and baseUrl = "\<lparr>Scheme = ''https'', Host = ''compute.googleapis.com'', Path = [], RawQuery = []\<rparr>"
      and newReq = "\<lparr>Method = ''GET'', RequestURL = ''https://compute.googleapis.com/compute/v1/projects/p/zones/z/disks?filter=f&maxResults=5&orderBy=o&pageToken=p&returnPartialSuccess=true'',
            RequestBody = ''{}'', Header = Map.empty, RequestCtx = None\<rparr>"
      and envList = "\<lparr>protojson_Marshal = (\<lambda>m. Inr ''{}''),
          protojson_Unmarshal = (\<lambda>buf. (buf, None)),
          url_Parse = (\<lambda>s. Inr \<lparr>Scheme = ''https'', Host = s, Path = [], RawQuery = []\<rparr>),
          url_String = (\<lambda>u. Scheme u @ ''://'' @ Host u @ Path u @ ''?'' @ RawQuery u),
          http_NewRequest = (\<lambda>m u b. Inr \<lparr>Method = m, RequestURL = u, RequestBody = b,
                                           Header = Map.empty, RequestCtx = None\<rparr>)\<rparr>"
      and reqList = "Some \<lparr>ld_Filter = Some ''f'', ld_MaxResults = Some 5, ld_OrderBy = Some ''o'', ld_PageToken = Some ''p'', ld_Project = ''p'', ld_ReturnPartialSuccess = Some True, ld_Zone = ''z''\<rparr>",
      OF hc ha hs, THEN conjunct2, THEN conjunct2, THEN conjunct2, THEN conjunct2, THEN conjunct2, THEN conjunct2, THEN conjunct2, THEN conjunct1]
  have r7: "List
       \<lparr>protojson_Marshal = (\<lambda>m. Inr ''{}''),
          protojson_Unmarshal = (\<lambda>buf. (buf, None)),
          url_Parse = (\<lambda>s. Inr \<lparr>Scheme = ''https'', Host = s, Path = [], RawQuery = []\<rparr>),
          url_String = (\<lambda>u. Scheme u @ ''://'' @ Host u @ Path u @ ''?'' @ RawQuery u),
          http_NewRequest = (\<lambda>m u b. Inr \<lparr>Method = m, RequestURL = u, RequestBody = b,
                                           Header = Map.empty, RequestCtx = None\<rparr>)\<rparr>
       \<lparr>endpoint = ''compute.googleapis.com'',
          httpClient = Some (\<lambda>q. Inr \<lparr>StatusCode = 404, Status = ''404 Not Found'', Body = Inr ''{}''\<rparr>),
          xGoogMetadata = Map.empty\<rparr>
       \<lparr>tagMap = None\<rparr>
       (Some \<lparr>ld_Filter = Some ''f'', ld_MaxResults = Some 5, ld_OrderBy = Some ''o'', ld_PageToken = Some ''p'', ld_Project = ''p'', ld_ReturnPartialSuccess = Some True, ld_Zone = ''z''\<rparr>)
     = (None, Some (FmtErrorf ''404 Not Found''),
        [HttpDo
           \<lparr>Method = ''GET'',
              RequestURL = ''https://compute.googleapis.com/compute/v1/projects/p/zones/z/disks?filter=f&maxResults=5&orderBy=o&pageToken=p&returnPartialSuccess=true'',
              RequestBody = ''{}'',
              Header = [''Content-Type'' \<mapsto> [''application/json'']],
              RequestCtx = Some \<lparr>tagMap = None\<rparr>\<rparr>
           (Inr \<lparr>StatusCode = 404, Status = ''404 Not Found'', Body = Inr ''{}''\<rparr>),
         BodyClose])"
    using t7
    by (simp add: List_baseUrl_def Let_def isSet_def getOptField_def getField_def getPointer_def
        url_Values_Add_def url_Values_Encode_def url_QueryEscape_def escapeByte_def
        shouldEscape_def upperhex_def Sprintf_v_string_def Sprintf_v_bool_def
        Sprintf_v_uint32_def Sprintf_v_int32_def formatDecimal.simps decimalDigits_def
        sentRequest_def)
  note t8 = non_ok_status_returns_status_error
    [where c = "\<lparr>endpoint = ''compute.googleapis.com'',
          httpClient = Some (\<lambda>q. Inr \<lparr>StatusCode = 404, Status = ''404 Not Found'', Body = Inr ''{}''\<rparr>),
          xGoogMetadata = Map.empty\<rparr>"
      and ctx = "\<lparr>tagMap = None\<rparr>"
      and client = "\<lambda>q. Inr \<lparr>StatusCode = 404, Status = ''404 Not Found'', Body = Inr ''{}''\<rparr>"
      and httpRsp = "\<lparr>StatusCode = 404, Status = ''404 Not Found'', Body = Inr ''{}''\<rparr>"
      and jsonReq = "''{}''"
      and baseUrl = "\<lparr>Scheme = ''https'', Host = ''compute.googleapis.com'', Path = [], RawQuery = []\<rparr>"
      and newReq = "\<lparr>Method = ''POST'', RequestURL = ''https://compute.googleapis.com/compute/v1/projects/p/zones/z/disks/d/removeResourcePolicies?requestId=r'',
            RequestBody = ''{}'', Header = Map.empty, RequestCtx = None\<rparr>"
      and envRemoveResourcePolicies = "\<lparr>protojson_Marshal = (\<lambda>m. Inr ''{}''),
          protojson_Unmarshal = (\<lambda>buf. (buf, None)),
          url_Parse = (\<lambda>s. Inr \<lparr>Scheme = ''https'', Host = s, Path = [], RawQuery = []\<rparr>),
          url_String = (\<lambda>u. Scheme u @ ''://'' @ Host u @ Path u @ ''?'' @ RawQuery u),
          http_NewRequest = (\<lambda>m u b. Inr \<lparr>Method = m, RequestURL = u, RequestBody = b,
                                           Header = Map.empty, RequestCtx = None\<rparr>)\<rparr>"
      and reqRemoveResourcePolicies = "Some \<lparr>rrp_Disk = ''d'', rrp_DisksRemoveResourcePoliciesRequestResource = Some ''b'', rrp_Project = ''p'', rrp_RequestId = Some ''r'', rrp_Zone = ''z''\<rparr>",
      OF hc ha hs, THEN conjunct2, THEN conjunct2, THEN conjunct2, THEN conjunct2, THEN conjunct2, THEN conjunct2, THEN conjunct2, THEN conjunct2, THEN conjunct1]
  have r8: "RemoveResourcePolicies
       \<lparr>protojson_Marshal = (\<lambda>m. Inr ''{}''),
          protojson_Unmarshal = (\<lambda>buf. (buf, None)),
          url_Parse = (\<lambda>s. Inr \<lparr>Scheme = ''https'', Host = s, Path = [], RawQuery = []\<rparr>),
          url_String = (\<lambda>u. Scheme u @ ''://'' @ Host u @ Path u @ ''?'' @ RawQuery u),
          http_NewRequest = (\<lambda>m u b. Inr \<lparr>Method = m, RequestURL = u, RequestBody = b,
                                           Header = Map.empty, RequestCtx = None\<rparr>)\<rparr>
       \<lparr>endpoint = ''compute.googleapis.com'',
          httpClient = Some (\<lambda>q. Inr \<lparr>StatusCode = 404, Status = ''404 Not Found'', Body = Inr ''{}''\<rparr>),
          xGoogMetadata = Map.empty\<rparr>
       \<lparr>tagMap = None\<rparr>
       (Some \<lparr>rrp_Disk = ''d'', rrp_DisksRemoveResourcePoliciesRequestResource = Some ''b'', rrp_Project = ''p'', rrp_RequestId = Some ''r'', rrp_Zone = ''z''\<rparr>)
     = (None, Some (FmtErrorf ''404 Not Found''),
        [HttpDo
           \<lparr>Method = ''POST'',
              RequestURL = ''https://compute.googleapis.com/compute/v1/projects/p/zones/z/disks/d/removeResourcePolicies?requestId=r'',
              RequestBody = ''{}'',
              Header = [''Content-Type'' \<mapsto> [''application/json'']],
              RequestCtx = Some \<lparr>tagMap = None\<rparr>\<rparr>
           (Inr \<lparr>StatusCode = 404, Status = ''404 Not Found'', Body = Inr ''{}''\<rparr>),
         BodyClose])"
    using t8
    by (simp add: RemoveResourcePolicies_baseUrl_def Let_def isSet_def getOptField_def getField_def getPointer_def
        url_Values_Add_def url_Values_Encode_def url_QueryEscape_def escapeByte_def
        shouldEscape_def upperhex_def Sprintf_v_string_def Sprintf_v_bool_def
        Sprintf_v_uint32_def Sprintf_v_int32_def formatDecimal.simps decimalDigits_def
        sentRequest_def)
  note t9 = non_ok_status_returns_status_error
    [where c = "\<lparr>endpoint = ''compute.googleapis.com'',
          httpClient = Some (\<lambda>q. Inr \<lparr>StatusCode = 404, Status = ''404 Not Found'', Body = Inr ''{}''\<rparr>),
          xGoogMetadata = Map.empty\<rparr>"
      and ctx = "\<lparr>tagMap = None\<rparr>"
      and client = "\<lambda>q. Inr \<lparr>StatusCode = 404, Status = ''404 Not Found'', Body = Inr ''{}''\<rparr>"
      and httpRsp = "\<lparr>StatusCode = 404, Status = ''404 Not Found'', Body = Inr ''{}''\<rparr>"
      and jsonReq = "''{}''"
      and baseUrl = "\<lparr>Scheme = ''https'', Host = ''compute.googleapis.com'', Path = [], RawQuery = []\<rparr>"
      and newReq = "\<lparr>Method = ''POST'', RequestURL = ''https://compute.googleapis.com/compute/v1/projects/p/zones/z/disks/d/resize?requestId=r'',
            RequestBody = ''{}'', Header = Map.empty, RequestCtx = None\<rparr>"
      and envResize = "\<lparr>protojson_Marshal = (\<lambda>m. Inr ''{}''),
          protojson_Unmarshal = (\<lambda>buf. (buf, None)),
          url_Parse = (\<lambda>s. Inr \<lparr>Scheme = ''https'', Host = s, Path = [], RawQuery = []\<rparr>),
          url_String = (\<lambda>u. Scheme u @ ''://'' @ Host u @ Path u @ ''?'' @ RawQuery u),
          http_NewRequest = (\<lambda>m u b. Inr \<lparr>Method = m, RequestURL = u, RequestBody = b,
                                           Header = Map.empty, RequestCtx = None\<rparr>)\<rparr>"
      and reqResize = "Some \<lparr>rs_Disk = ''d'', rs_DisksResizeRequestResource = Some ''b'', rs_Project = ''p'', rs_RequestId = Some ''r'', rs_Zone = ''z''\<rparr>",
      OF hc ha hs, THEN conjunct2, THEN conjunct2, THEN conjunct2, THEN conjunct2, THEN conjunct2, THEN conjunct2, THEN conjunct2, THEN conjunct2, THEN conjunct2, THEN conjunct1]
  have r9: "Resize
       \<lparr>protojson_Marshal = (\<lambda>m. Inr ''{}''),
          protojson_Unmarshal = (\<lambda>buf. (buf, None)),
          url_Parse = (\<lambda>s. Inr \<lparr>Scheme = ''https'', Host = s, Path = [], RawQuery = []\<rparr>),
          url_String = (\<lambda>u. Scheme u @ ''://'' @ Host u @ Path u @ ''?'' @ RawQuery u),
          http_NewRequest = (\<lambda>m u b. Inr \<lparr>Method = m, RequestURL = u, RequestBody = b,
                                           Header = Map.empty, RequestCtx = None\<rparr>)\<rparr>
       \<lparr>endpoint = ''compute.googleapis.com'',
          httpClient = Some (\<lambda>q. Inr \<lparr>StatusCode = 404, Status = ''404 Not Found'', Body = Inr ''{}''\<rparr>),
          xGoogMetadata = Map.empty\<rparr>
       \<lparr>tagMap = None\<rparr>
       (Some \<lparr>rs_Disk = ''d'', rs_DisksResizeRequestResource = Some ''b'', rs_Project = ''p'', rs_RequestId = Some ''r'', rs_Zone = ''z''\<rparr>)
     = (None, Some (FmtErrorf ''404 Not Found''),
        [HttpDo
           \<lparr>Method = ''POST'',
              RequestURL = ''https://compute.googleapis.com/compute/v1/projects/p/zones/z/disks/d/resize?requestId=r'',
              RequestBody = ''{}'',
              Header = [''Content-Type'' \<mapsto> [''application/json'']],
              RequestCtx = Some \<lparr>tagMap = None\<rparr>\<rparr>
           (Inr \<lparr>StatusCode = 404, Status = ''404 Not Found'', Body = Inr ''{}''\<rparr>),
         BodyClose])"
    using t9
    by (simp add: Resize_baseUrl_def Let_def isSet_def getOptField_def getField_def getPointer_def
        url_Values_Add_def url_Values_Encode_def url_QueryEscape_def escapeByte_def
        shouldEscape_def upperhex_def Sprintf_v_string_def Sprintf_v_bool_def
        Sprintf_v_uint32_def Sprintf_v_int32_def formatDecimal.simps decimalDigits_def
        sentRequest_def)
  note t10 = non_ok_status_returns_status_error
    [where c = "\<lparr>endpoint = ''compute.googleapis.com'',
          httpClient = Some (\<lambda>q. Inr \<lparr>StatusCode = 404, Status = ''404 Not Found'', Body = Inr ''{}''\<rparr>),
          xGoogMetadata = Map.empty\<rparr>"
      and ctx = "\<lparr>tagMap = None\<rparr>"
      and client = "\<lambda>q. Inr \<lparr>StatusCode = 404, Status = ''404 Not Found'', Body = Inr ''{}''\<rparr>"
      and httpRsp = "\<lparr>StatusCode = 404, Status = ''404 Not Found'', Body = Inr ''{}''\<rparr>"
      and jsonReq = "''{}''"
      and baseUrl = "\<lparr>Scheme = ''https'', Host = ''compute.googleapis.com'', Path = [], RawQuery = []\<rparr>"
      and newReq = "\<lparr>Method = ''POST'', RequestURL = ''https://compute.googleapis.com/compute/v1/projects/p/zones/z/disks/d/setIamPolicy?'',
            RequestBody = ''{}'', Header = Map.empty, RequestCtx = None\<rparr>"
      and envSetIamPolicy = "\<lparr>protojson_Marshal = (\<lambda>m. Inr ''{}''),
          protojson_Unmarshal = (\<lambda>buf. (buf, None)),
          url_Parse = (\<lambda>s. Inr \<lparr>Scheme = ''https'', Host = s, Path = [], RawQuery = []\<rparr>),
          url_String = (\<lambda>u. Scheme u @ ''://'' @ Host u @ Path u @ ''?'' @ RawQuery u),
          http_NewRequest = (\<lambda>m u b. Inr \<lparr>Method = m, RequestURL = u, RequestBody = b,
                                           Header = Map.empty, RequestCtx = None\<rparr>)\<rparr>"
      and reqSetIamPolicy = "Some \<lparr>sip_Project = ''p'', sip_Resource = ''d'', sip_Zone = ''z'', sip_ZoneSetPolicyRequestResource = Some ''b''\<rparr>",
      OF hc ha hs, THEN conjunct2, THEN conjunct2, THEN conjunct2, THEN conjunct2, THEN conjunct2, THEN conjunct2, THEN conjunct2, THEN conjunct2, THEN conjunct2, THEN conjunct2, THEN conjunct1]
  have r10: "SetIamPolicy
       \<lparr>protojson_Marshal = (\<lambda>m. Inr ''{}''),
          protojson_Unmarshal = (\<lambda>buf. (buf, None)),
          url_Parse = (\<lambda>s. Inr \<lparr>Scheme = ''https'', Host = s, Path = [], RawQuery = []\<rparr>),
          url_String = (\<lambda>u. Scheme u @ ''://'' @ Host u @ Path u @ ''?'' @ RawQuery u),
          http_NewRequest = (\<lambda>m u b. Inr \<lparr>Method = m, RequestURL = u, RequestBody = b,
                                           Header = Map.empty, RequestCtx = None\<rparr>)\<rparr>
       \<lparr>endpoint = ''compute.googleapis.com'',
          httpClient = Some (\<lambda>q. Inr \<lparr>StatusCode = 404, Status = ''404 Not Found'', Body = Inr ''{}''\<rparr>),
          xGoogMetadata = Map.empty\<rparr>
       \<lparr>tagMap = None\<rparr>
       (Some \<lparr>sip_Project = ''p'', sip_Resource = ''d'', sip_Zone = ''z'', sip_ZoneSetPolicyRequestResource = Some ''b''\<rparr>)
     = (None, Some (FmtErrorf ''404 Not Found''),
        [HttpDo
           \<lparr>Method = ''POST'',
              RequestURL = ''https://compute.googleapis.com/compute/v1/projects/p/zones/z/disks/d/setIamPolicy?'',
              RequestBody = ''{}'',
              Header = [''Content-Type'' \<mapsto> [''application/json'']],
              RequestCtx = Some \<lparr>tagMap = None\<rparr>\<rparr>
           (Inr \<lparr>StatusCode = 404, Status = ''404 Not Found'', Body = Inr ''{}''\<rparr>),
         BodyClose])"
    using t10
    by (simp add: SetIamPolicy_baseUrl_def Let_def isSet_def getOptField_def getField_def getPointer_def
        url_Values_Add_def url_Values_Encode_def url_QueryEscape_def escapeByte_def
        shouldEscape_def upperhex_def Sprintf_v_string_def Sprintf_v_bool_def
        Sprintf_v_uint32_def Sprintf_v_int32_def formatDecimal.simps decimalDigits_def
        sentRequest_def)
  note t11 = non_ok_status_returns_status_error
    [where c = "\<lparr>endpoint = ''compute.googleapis.com'',
          httpClient = Some (\<lambda>q. Inr \<lparr>StatusCode = 404, Status = ''404 Not Found'', Body = Inr ''{}''\<rparr>),
          xGoogMetadata = Map.empty\<rparr>"
      and ctx = "\<lparr>tagMap = None\<rparr>"
      and client = "\<lambda>q. Inr \<lparr>StatusCode = 404, Status = ''404 Not Found'', Body = Inr ''{}''\<rparr>"
      and httpRsp = "\<lparr>StatusCode = 404, Status = ''404 Not Found'', Body = Inr ''{}''\<rparr>"
      and jsonReq = "''{}''"
      and baseUrl = "\<lparr>Scheme = ''https'', Host = ''compute.googleapis.com'', Path = [], RawQuery = []\<rparr>"
      and newReq = "\<lparr>Method = ''POST'', RequestURL = ''https://compute.googleapis.com/compute/v1/projects/p/zones/z/disks/d/setLabels?requestId=r'',
            RequestBody = ''{}'', Header = Map.empty, RequestCtx = None\<rparr>"
      and envSetLabels = "\<lparr>protojson_Marshal = (\<lambda>m. Inr ''{}''),
          protojson_Unmarshal = (\<lambda>buf. (buf, None)),
          url_Parse = (\<lambda>s. Inr \<lparr>Scheme = ''https'', Host = s, Path = [], RawQuery = []\<rparr>),
          url_String = (\<lambda>u. Scheme u @ ''://'' @ Host u @ Path u @ ''?'' @ RawQuery u),
          http_NewRequest = (\<lambda>m u b. Inr \<lparr>Method = m, RequestURL = u, RequestBody = b,
                                           Header = Map.empty, RequestCtx = None\<rparr>)\<rparr>"
      and reqSetLabels = "Some \<lparr>sl_Project = ''p'', sl_RequestId = Some ''r'', sl_Resource = ''d'', sl_Zone = ''z'', sl_ZoneSetLabelsRequestResource = Some ''b''\<rparr>",
      OF hc ha hs, THEN conjunct2, THEN conjunct2, THEN conjunct2, THEN conjunct2, THEN conjunct2, THEN conjunct2, THEN conjunct2, THEN conjunct2, THEN conjunct2, THEN conjunct2, THEN conjunct2, THEN conjunct1]
  have r11: "SetLabels
       \<lparr>protojson_Marshal = (\<lambda>m. Inr ''{}''),
          protojson_Unmarshal = (\<lambda>buf. (buf, None)),
          url_Parse = (\<lambda>s. Inr \<lparr>Scheme = ''https'', Host = s, Path = [], RawQuery = []\<rparr>),
          url_String = (\<lambda>u. Scheme u @ ''://'' @ Host u @ Path u @ ''?'' @ RawQuery u),
          http_NewRequest = (\<lambda>m u b. Inr \<lparr>Method = m, RequestURL = u, RequestBody = b,
                                           Header = Map.empty, RequestCtx = None\<rparr>)\<rparr>
       \<lparr>endpoint = ''compute.googleapis.com'',
          httpClient = Some (\<lambda>q. Inr \<lparr>StatusCode = 404, Status = ''404 Not Found'', Body = Inr ''{}''\<rparr>),
          xGoogMetadata = Map.empty\<rparr>
       \<lparr>tagMap = None\<rparr>
       (Some \<lparr>sl_Project = ''p'', sl_RequestId = Some ''r'', sl_Resource = ''d'', sl_Zone = ''z'', sl_ZoneSetLabelsRequestResource = Some ''b''\<rparr>)
     = (None, Some (FmtErrorf ''404 Not Found''),
        [HttpDo
           \<lparr>Method = ''POST'',
              RequestURL = ''https://compute.googleapis.com/compute/v1/projects/p/zones/z/disks/d/setLabels?requestId=r'',
              RequestBody = ''{}'',
              Header = [''Content-Type'' \<mapsto> [''application/json'']],
              RequestCtx = Some \<lparr>tagMap = None\<rparr>\<rparr>
           (Inr \<lparr>StatusCode = 404, Status = ''404 Not Found'', Body = Inr ''{}''\<rparr>),
         BodyClose])"
    using t11
    by (simp add: SetLabels_baseUrl_def Let_def isSet_def getOptField_def getField_def getPointer_def
        url_Values_Add_def url_Values_Encode_def url_QueryEscape_def escapeByte_def
        shouldEscape_def upperhex_def Sprintf_v_string_def Sprintf_v_bool_def
        Sprintf_v_uint32_def Sprintf_v_int32_def formatDecimal.simps decimalDigits_def
        sentRequest_def)
  note t12 = non_ok_status_returns_status_error
    [where c = "\<lparr>endpoint = ''compute.googleapis.com'',
          httpClient = Some (\<lambda>q. Inr \<lparr>StatusCode = 404, Status = ''404 Not Found'', Body = Inr ''{}''\<rparr>),
          xGoogMetadata = Map.empty\<rparr>"
      and ctx = "\<lparr>tagMap = None\<rparr>"
      and client = "\<lambda>q. Inr \<lparr>StatusCode = 404, Status = ''404 Not Found'', Body = Inr ''{}''\<rparr>"
      and httpRsp = "\<lparr>StatusCode = 404, Status = ''404 Not Found'', Body = Inr ''{}''\<rparr>"
      and jsonReq = "''{}''"
      and baseUrl = "\<lparr>Scheme = ''https'', Host = ''compute.googleapis.com'', Path = [], RawQuery = []\<rparr>"
      and newReq = "\<lparr>Method = ''POST'', RequestURL = ''https://compute.googleapis.com/compute/v1/projects/p/zones/z/disks/d/testIamPermissions?'',
            RequestBody = ''{}'', Header = Map.empty, RequestCtx = None\<rparr>"
      and envTestIamPermissions = "\<lparr>protojson_Marshal = (\<lambda>m. Inr ''{}''),
          protojson_Unmarshal = (\<lambda>buf. (buf, None)),
          url_Parse = (\<lambda>s. Inr \<lparr>Scheme = ''https'', Host = s, Path = [], RawQuery = []\<rparr>),
          url_String = (\<lambda>u. Scheme u @ ''://'' @ Host u @ Path u @ ''?'' @ RawQuery u),
          http_NewRequest = (\<lambda>m u b. Inr \<lparr>Method = m, RequestURL = u, RequestBody = b,
                                           Header = Map.empty, RequestCtx = None\<rparr>)\<rparr>"
      and reqTestIamPermissions = "Some \<lparr>tip_Project = ''p'', tip_Resource = ''d'', tip_TestPermissionsRequestResource = Some ''b'', tip_Zone = ''z''\<rparr>",
      OF hc ha hs, THEN conjunct2, THEN conjunct2, THEN conjunct2, THEN conjunct2, THEN conjunct2, THEN conjunct2, THEN conjunct2, THEN conjunct2, THEN conjunct2, THEN conjunct2, THEN conjunct2, THEN conjunct2]
  have r12: "TestIamPermissions
       \<lparr>protojson_Marshal = (\<lambda>m. Inr ''{}''),
          protojson_Unmarshal = (\<lambda>buf. (buf, None)),
          url_Parse = (\<lambda>s. Inr \<lparr>Scheme = ''https'', Host = s, Path = [], RawQuery = []\<rparr>),
          url_String = (\<lambda>u. Scheme u @ ''://'' @ Host u @ Path u @ ''?'' @ RawQuery u),
          http_NewRequest = (\<lambda>m u b. Inr \<lparr>Method = m, RequestURL = u, RequestBody = b,
                                           Header = Map.empty, RequestCtx = None\<rparr>)\<rparr>
       \<lparr>endpoint = ''compute.googleapis.com'',
          httpClient = Some (\<lambda>q. Inr \<lparr>StatusCode = 404, Status = ''404 Not Found'', Body = Inr ''{}''\<rparr>),
          xGoogMetadata = Map.empty\<rparr>
       \<lparr>tagMap = None\<rparr>
       (Some \<lparr>tip_Project = ''p'', tip_Resource = ''d'', tip_TestPermissionsRequestResource = Some ''b'', tip_Zone = ''z''\<rparr>)
     = (None, Some (FmtErrorf ''404 Not Found''),
        [HttpDo
           \<lparr>Method = ''POST'',
              RequestURL = ''https://compute.googleapis.com/compute/v1/projects/p/zones/z/disks/d/testIamPermissions?'',
              RequestBody = ''{}'',
              Header = [''Content-Type'' \<mapsto> [''application/json'']],
              RequestCtx = Some \<lparr>tagMap = None\<rparr>\<rparr>
           (Inr \<lparr>StatusCode = 404, Status = ''404 Not Found'', Body = Inr ''{}''\<rparr>),
         BodyClose])"
    using t12
    by (simp add: TestIamPermissions_baseUrl_def Let_def isSet_def getOptField_def getField_def getPointer_def
        url_Values_Add_def url_Values_Encode_def url_QueryEscape_def escapeByte_def
        shouldEscape_def upperhex_def Sprintf_v_string_def Sprintf_v_bool_def
        Sprintf_v_uint32_def Sprintf_v_int32_def formatDecimal.simps decimalDigits_def
        sentRequest_def)
  from hs r0 r1 r2 r3 r4 r5 r6 r7 r8 r9 r10 r11 r12 show ?thesis by (intro conjI)
qed

end
